theory Spec2Isabelle
  imports Main "HOL-Library.Word"
begin

unbundle bit_operations_syntax

section \<open>Direct3D 11 helpers (video/out/gpu/d3d11\_helpers.c)\<close>

subsection \<open>Platform constants\<close>

text \<open>
  An \<open>HRESULT\<close> is a signed 32-bit value; the code only tests its sign
  (\<open>SUCCEEDED\<close>, \<open>FAILED\<close>) and returns the constant \<open>E_FAIL\<close> (0x80004005).
\<close>

type_synonym hresult = int

definition SUCCEEDED :: "hresult \<Rightarrow> bool" where
  "SUCCEEDED hr = (0 \<le> hr)"

definition FAILED :: "hresult \<Rightarrow> bool" where
  "FAILED hr = (hr < 0)"

definition S_OK :: hresult where
  "S_OK = 0"

definition E_FAIL :: hresult where
  "E_FAIL = - 2147467259"

text \<open>The \<open>D3D_FEATURE_LEVEL\<close> values of d3dcommon.h (0x9100 ... 0xc100), as C ints.\<close>

definition D3D_FEATURE_LEVEL_9_1 :: int where "D3D_FEATURE_LEVEL_9_1 = 37120"
definition D3D_FEATURE_LEVEL_9_2 :: int where "D3D_FEATURE_LEVEL_9_2 = 37376"
definition D3D_FEATURE_LEVEL_9_3 :: int where "D3D_FEATURE_LEVEL_9_3 = 37632"
definition D3D_FEATURE_LEVEL_10_0 :: int where "D3D_FEATURE_LEVEL_10_0 = 40960"
definition D3D_FEATURE_LEVEL_10_1 :: int where "D3D_FEATURE_LEVEL_10_1 = 41216"
definition D3D_FEATURE_LEVEL_11_0 :: int where "D3D_FEATURE_LEVEL_11_0 = 45056"
definition D3D_FEATURE_LEVEL_11_1 :: int where "D3D_FEATURE_LEVEL_11_1 = 45312"
definition D3D_FEATURE_LEVEL_12_0 :: int where "D3D_FEATURE_LEVEL_12_0 = 49152"
definition D3D_FEATURE_LEVEL_12_1 :: int where "D3D_FEATURE_LEVEL_12_1 = 49408"

lemmas fl_defs =
  D3D_FEATURE_LEVEL_9_1_def D3D_FEATURE_LEVEL_9_2_def D3D_FEATURE_LEVEL_9_3_def
  D3D_FEATURE_LEVEL_10_0_def D3D_FEATURE_LEVEL_10_1_def D3D_FEATURE_LEVEL_11_0_def
  D3D_FEATURE_LEVEL_11_1_def D3D_FEATURE_LEVEL_12_0_def D3D_FEATURE_LEVEL_12_1_def

datatype D3D_DRIVER_TYPE = D3D_DRIVER_TYPE_HARDWARE | D3D_DRIVER_TYPE_WARP

definition D3D11_CREATE_DEVICE_DEBUG :: "32 word" where
  "D3D11_CREATE_DEVICE_DEBUG = 2"

definition D3D11_CREATE_DEVICE_BGRA_SUPPORT :: "32 word" where
  "D3D11_CREATE_DEVICE_BGRA_SUPPORT = 32"

subsection \<open>get\_feature\_levels\<close>

text \<open>The static table of \<open>get_feature_levels\<close>, highest level first.\<close>

definition levels :: "int list" where
  "levels =
    [D3D_FEATURE_LEVEL_12_1, D3D_FEATURE_LEVEL_12_0, D3D_FEATURE_LEVEL_11_1,
     D3D_FEATURE_LEVEL_11_0, D3D_FEATURE_LEVEL_10_1, D3D_FEATURE_LEVEL_10_0,
     D3D_FEATURE_LEVEL_9_3, D3D_FEATURE_LEVEL_9_2, D3D_FEATURE_LEVEL_9_1]"

definition levels_len :: nat where
  "levels_len = length levels"

text \<open>
  The table has the enum type \<open>D3D_FEATURE_LEVEL\<close>, which gcc and mingw-w64 make an
  \<open>unsigned int\<close> (no enumerator is negative), while \<open>max_fl\<close> and \<open>min_fl\<close> are
  \<open>int\<close>. In \<open>levels[i] <= max_fl\<close> and \<open>levels[i] < min_fl\<close> the \<open>int\<close> is therefore
  converted to \<open>unsigned int\<close>: a negative bound is read as a large value. The table
  entries are below \<open>2 ^ 32\<close> and convert to themselves.
\<close>

definition uint32 :: "int \<Rightarrow> int" where
  "uint32 x = x mod 2 ^ 32"

text \<open>The values of a C \<open>int\<close>.\<close>

definition c_int :: "int \<Rightarrow> bool" where
  "c_int x = (- (2 ^ 31) \<le> x \<and> x < 2 ^ 31)"

text \<open>
  The first loop: \<open>for (; start < levels_len; start++) if (levels[start] <= max_fl) break;\<close>
\<close>

function start_loop :: "int \<Rightarrow> nat \<Rightarrow> nat" where
  "start_loop max_fl start =
     (if start < levels_len
      then (if levels ! start \<le> uint32 max_fl then start
            else start_loop max_fl (start + 1))
      else start)"
  by pat_completeness auto
termination
  by (relation "measure (\<lambda>(max_fl, start). levels_len - start)") auto

declare start_loop.simps [simp del]

text \<open>
  The second loop:
  \<open>for (; start + len < levels_len; len++) if (levels[start + len] < min_fl) break;\<close>
\<close>

function len_loop :: "int \<Rightarrow> nat \<Rightarrow> nat \<Rightarrow> nat" where
  "len_loop min_fl start len =
     (if start + len < levels_len
      then (if levels ! (start + len) < uint32 min_fl then len
            else len_loop min_fl start (len + 1))
      else len)"
  by pat_completeness auto
termination
  by (relation "measure (\<lambda>(min_fl, start, len). levels_len - (start + len))") auto

declare len_loop.simps [simp del]

text \<open>
  \<open>get_feature_levels\<close> returns \<open>len\<close> and sets \<open>*out = &levels[start]\<close>; the pointer
  into the table is modelled as the table from \<open>start\<close> on.
\<close>

definition get_feature_levels :: "int \<Rightarrow> int \<Rightarrow> nat \<times> int list" where
  "get_feature_levels max_fl min_fl =
     (let start = start_loop max_fl 0;
          len = len_loop min_fl start 0
      in (len, drop start levels))"

subsection \<open>The platform and the trace of a run\<close>

text \<open>
  What \<open>create_device\<close> hands to \<open>D3D11CreateDevice\<close>: the driver type, the flags and
  the array of \<open>levels_len\<close> feature levels (the other arguments are constants).
\<close>

record create_call =
  cc_type :: D3D_DRIVER_TYPE
  cc_flags :: "32 word"
  cc_levels :: "int list"

text \<open>The messages the code writes to its log, one constructor for each format string.\<close>

datatype log_msg =
    Msg_load_failed
  | Msg_no_suitable_level
  | Msg_bgra_failed
  | Msg_trying_11_1
  | Msg_trying_11_0
  | Msg_trying_WARP
  | Msg_create_failed hresult
  | Msg_no_dxgi_device
  | Msg_no_dxgi_adapter
  | Msg_no_adapter_desc
  | Msg_using_level int
  | Msg_device_info
  | Msg_software_adapter
  | Msg_no_dxgi_factory
  | Msg_trying_bitblt
  | Msg_swapchain_failed hresult
  | Msg_using_dxgi_1_2
  | Msg_using_dxgi_1_1
  | Msg_flip_model
  | Msg_bitblt_model

text \<open>
  The descriptor of a swapchain, for \<open>DXGI_SWAP_CHAIN_DESC1\<close> and
  \<open>DXGI_SWAP_CHAIN_DESC\<close> alike (the fields the code sets; the designated initialisers
  leave the others zero).
\<close>

record swap_chain_desc =
  scd_Width :: "32 word"
  scd_Height :: "32 word"
  scd_Format :: "32 word"
  scd_SampleCount :: "32 word"
  scd_BufferUsage :: "32 word"
  scd_BufferCount :: "32 word"
  scd_OutputWindow :: nat
  scd_Windowed :: bool
  scd_SwapEffect :: "32 word"

text \<open>
  A run is observed through the events it produces, in program order: calls of the
  device-creation entry point with the \<open>HRESULT\<close> they returned, log messages, calls
  of \<open>create_swapchain_1_2\<close> or \<open>create_swapchain_1_1\<close> with the descriptor they
  hand to the platform and the \<open>HRESULT\<close> they return, and calls of
  \<open>IDXGISwapChain::GetBuffer\<close> with the index asked for.
\<close>

datatype event =
    Create_Device create_call hresult
  | Log log_msg
  | Try_SwapChain swap_chain_desc hresult
  | Get_Buffer "32 word" hresult

type_synonym handle = nat

record adapter_desc =
  ad_Flags :: "32 word"
  ad_VendorId :: "32 word"
  ad_DeviceId :: "32 word"

text \<open>
  The platform is opaque. Every entry point the code calls is a parameter that takes the
  state of the outside world \<open>'w\<close> and returns its result with the new state, so that a
  call may answer differently each time. \<open>pD3D11CreateDevice\<close> is \<open>None\<close> when
  \<open>d3d11_load\<close> could not resolve the entry point (the static pointer stays \<open>NULL\<close>).
\<close>

record 'w d3d11_platform =
  pD3D11CreateDevice :: "(create_call \<Rightarrow> 'w \<Rightarrow> (hresult \<times> handle) \<times> 'w) option"
  QueryInterface_IDXGIDevice1 :: "handle \<Rightarrow> 'w \<Rightarrow> (hresult \<times> handle) \<times> 'w"
  GetParent_IDXGIAdapter1 :: "handle \<Rightarrow> 'w \<Rightarrow> (hresult \<times> handle) \<times> 'w"
  SetMaximumFrameLatency :: "handle \<Rightarrow> int \<Rightarrow> 'w \<Rightarrow> 'w"
  GetDesc1 :: "handle \<Rightarrow> 'w \<Rightarrow> (hresult \<times> adapter_desc) \<times> 'w"
  GetFeatureLevel :: "handle \<Rightarrow> 'w \<Rightarrow> int"

record d3d11_device_opts =
  debug :: bool
  allow_warp :: bool
  force_warp :: bool
  max_feature_level :: int
  min_feature_level :: int
  max_frame_latency :: int

subsection \<open>create\_device\<close>

text \<open>
  \<open>create_device\<close> is only reached with the entry point loaded; it takes the loaded
  function. The device pointer \<open>*dev\<close> is written by the platform only.
\<close>

definition create_device ::
  "(create_call \<Rightarrow> 'w \<Rightarrow> (hresult \<times> handle) \<times> 'w) \<Rightarrow> bool \<Rightarrow> bool \<Rightarrow> bool \<Rightarrow> int \<Rightarrow> int \<Rightarrow>
   handle \<Rightarrow> 'w \<Rightarrow> (hresult \<times> handle) \<times> 'w \<times> event list" where
  "create_device pCreate warp bgra dbg max_fl min_fl dev w =
     (let (levels_len, lvls) = get_feature_levels max_fl min_fl in
      if levels_len = 0 then ((E_FAIL, dev), w, [Log Msg_no_suitable_level])
      else
        let type = (if warp then D3D_DRIVER_TYPE_WARP else D3D_DRIVER_TYPE_HARDWARE);
            flags = 0;
            flags = (if bgra then flags OR D3D11_CREATE_DEVICE_BGRA_SUPPORT else flags);
            flags = (if dbg then flags OR D3D11_CREATE_DEVICE_DEBUG else flags);
            call = \<lparr>cc_type = type, cc_flags = flags, cc_levels = take levels_len lvls\<rparr>;
            ((hr, dev'), w') = pCreate call w
        in ((hr, dev'), w', [Create_Device call hr]))"

subsection \<open>mp\_d3d11\_create\_present\_device\<close>

text \<open>A continuation of a run: the events already produced come before the later ones.\<close>

definition emit :: "event list \<Rightarrow> 'a \<times> 'w \<times> event list \<Rightarrow> 'a \<times> 'w \<times> event list" where
  "emit evs r = (case r of (x, w, evs') \<Rightarrow> (x, w, evs @ evs'))"

text \<open>The defaults the loop substitutes for an unset (zero) level at the head of each pass.\<close>

definition default_max :: "int \<Rightarrow> int" where
  "default_max max_fl = (if max_fl \<noteq> 0 then max_fl else D3D_FEATURE_LEVEL_11_0)"

definition default_min :: "int \<Rightarrow> int" where
  "default_min min_fl = (if min_fl \<noteq> 0 then min_fl else D3D_FEATURE_LEVEL_9_1)"

text \<open>
  The variant of the retry loop: whether the switch to WARP is still ahead, how many of
  the two caps of the maximum level are still ahead, and whether BGRA is still on.
\<close>

definition caps_ahead :: "int \<Rightarrow> int \<Rightarrow> nat" where
  "caps_ahead max_fl min_fl =
     (if max_fl \<ge> D3D_FEATURE_LEVEL_12_0 \<and> min_fl \<le> D3D_FEATURE_LEVEL_11_1 then 2
      else if max_fl \<ge> D3D_FEATURE_LEVEL_11_1 \<and> min_fl \<le> D3D_FEATURE_LEVEL_11_0 then 1
      else 0)"

definition loop_variant :: "d3d11_device_opts \<Rightarrow> bool \<Rightarrow> bool \<Rightarrow> int \<Rightarrow> int \<Rightarrow> nat" where
  "loop_variant opts warp bgra max_fl min_fl =
     (if \<not> warp \<and> allow_warp opts then 6 else 0)
     + 2 * caps_ahead (default_max max_fl) (default_min min_fl)
     + (if bgra then 1 else 0)"

text \<open>
  The \<open>do { ... } while (true)\<close> loop. Each \<open>continue\<close> is a recursive call with the
  updated variables; \<open>break\<close> returns the device and the \<open>warp\<close> flag; \<open>goto done\<close>
  returns \<open>None\<close>.
\<close>

function create_loop ::
  "(create_call \<Rightarrow> 'w \<Rightarrow> (hresult \<times> handle) \<times> 'w) \<Rightarrow> d3d11_device_opts \<Rightarrow>
   bool \<Rightarrow> bool \<Rightarrow> int \<Rightarrow> int \<Rightarrow> handle \<Rightarrow> 'w \<Rightarrow> (handle \<times> bool) option \<times> 'w \<times> event list" where
  "create_loop pCreate opts warp bgra max_fl min_fl dev w =
     (let max_fl = default_max max_fl;
          min_fl = default_min min_fl;
          ((hr, dev), w, evs) =
             create_device pCreate warp bgra (debug opts) max_fl min_fl dev w
      in if SUCCEEDED hr then (Some (dev, warp), w, evs)
         else if bgra then
           emit (evs @ [Log Msg_bgra_failed])
             (create_loop pCreate opts warp False max_fl min_fl dev w)
         else if max_fl \<ge> D3D_FEATURE_LEVEL_12_0 \<and> min_fl \<le> D3D_FEATURE_LEVEL_11_1 then
           emit (evs @ [Log Msg_trying_11_1])
             (create_loop pCreate opts warp True D3D_FEATURE_LEVEL_11_1 min_fl dev w)
         else if max_fl \<ge> D3D_FEATURE_LEVEL_11_1 \<and> min_fl \<le> D3D_FEATURE_LEVEL_11_0 then
           emit (evs @ [Log Msg_trying_11_0])
             (create_loop pCreate opts warp True D3D_FEATURE_LEVEL_11_0 min_fl dev w)
         else if \<not> warp \<and> allow_warp opts then
           emit (evs @ [Log Msg_trying_WARP])
             (create_loop pCreate opts True True
                (max_feature_level opts) (min_feature_level opts) dev w)
         else (None, w, evs @ [Log (Msg_create_failed hr)]))"
  by pat_completeness auto
termination
proof (relation "measure (\<lambda>(pCreate, opts, warp, bgra, max_fl, min_fl, dev, w).
                   loop_variant opts warp bgra max_fl min_fl)", goal_cases)
  case 1
  show ?case by simp
next
  case (2 pCreate opts warp bgra max_fl min_fl dev w)
  then show ?case
    by (simp add: loop_variant_def default_max_def default_min_def)
next
  case (3 pCreate opts warp bgra max_fl min_fl dev w)
  then show ?case
    by (simp add: loop_variant_def default_max_def default_min_def caps_ahead_def fl_defs)
next
  case (4 pCreate opts warp bgra max_fl min_fl dev w)
  then show ?case
    by (simp add: loop_variant_def default_max_def default_min_def caps_ahead_def fl_defs)
next
  case (5 pCreate opts warp bgra max_fl min_fl dev w)
  then show ?case
    by (simp add: loop_variant_def default_max_def default_min_def caps_ahead_def fl_defs)
qed

declare create_loop.simps [simp del]

text \<open>\<open>DXGI_ADAPTER_FLAG_SOFTWARE\<close>, defined at the head of the file.\<close>

definition DXGI_ADAPTER_FLAG_SOFTWARE :: "32 word" where
  "DXGI_ADAPTER_FLAG_SOFTWARE = 2"

text \<open>
  The whole function. The result is \<open>Some dev\<close> when it returns \<open>true\<close> with
  \<open>*dev_out = dev\<close>, and \<open>None\<close> when it returns \<open>false\<close>.
\<close>

definition mp_d3d11_create_present_device ::
  "'w d3d11_platform \<Rightarrow> d3d11_device_opts \<Rightarrow> 'w \<Rightarrow> handle option \<times> 'w \<times> event list" where
  "mp_d3d11_create_present_device P opts w =
     (case pD3D11CreateDevice P of
        None \<Rightarrow> (None, w, [Log Msg_load_failed])
      | Some pCreate \<Rightarrow>
         (case create_loop pCreate opts (force_warp opts) True
                  (max_feature_level opts) (min_feature_level opts) 0 w of
            (None, w, evs) \<Rightarrow> (None, w, evs)
          | (Some (dev, warp), w, evs) \<Rightarrow>
             (let ((hr, dxgi_dev), w) = QueryInterface_IDXGIDevice1 P dev w in
              if FAILED hr then (None, w, evs @ [Log Msg_no_dxgi_device])
              else
                let ((hr, adapter), w) = GetParent_IDXGIAdapter1 P dxgi_dev w in
                if FAILED hr then (None, w, evs @ [Log Msg_no_dxgi_adapter])
                else
                  let w = SetMaximumFrameLatency P dxgi_dev (max_frame_latency opts) w;
                      ((hr, desc), w) = GetDesc1 P adapter w
                  in if FAILED hr then (None, w, evs @ [Log Msg_no_adapter_desc])
                     else
                       let selected_level = GetFeatureLevel P dev w;
                           evs = evs @ [Log (Msg_using_level selected_level),
                                        Log Msg_device_info];
                           warp = (if ad_Flags desc AND DXGI_ADAPTER_FLAG_SOFTWARE \<noteq> 0
                                   then True else warp);
                           warp = (if ad_VendorId desc = 5140 \<and> ad_DeviceId desc = 140
                                   then True else warp);
                           evs = (if warp then evs @ [Log Msg_software_adapter] else evs)
                       in (Some dev, w, evs))))"

subsection \<open>Reading a trace\<close>

text \<open>The calls of the device-creation entry point in a trace, in order.\<close>

fun creation_calls :: "event list \<Rightarrow> (create_call \<times> hresult) list" where
  "creation_calls [] = []"
| "creation_calls (Create_Device c hr # evs) = (c, hr) # creation_calls evs"
| "creation_calls (e # evs) = creation_calls evs"

text \<open>The log messages of a trace, in order.\<close>

fun messages :: "event list \<Rightarrow> log_msg list" where
  "messages [] = []"
| "messages (Log m # evs) = m # messages evs"
| "messages (e # evs) = messages evs"


text \<open>The same with the bounds as the comparisons with the table read them.\<close>

definition overlap :: "int \<Rightarrow> int \<Rightarrow> bool" where
  "overlap max_fl min_fl = list_ex (\<lambda>l. uint32 min_fl \<le> l \<and> l \<le> uint32 max_fl) levels"

text \<open>
  The call \<open>create_device\<close> makes for its arguments when the window is not empty: the
  flags it computes, the levels it passes, and the whole argument record.
\<close>

definition device_flags :: "bool \<Rightarrow> bool \<Rightarrow> 32 word" where
  "device_flags bgra dbg =
     (let flags = 0;
          flags = (if bgra then flags OR D3D11_CREATE_DEVICE_BGRA_SUPPORT else flags);
          flags = (if dbg then flags OR D3D11_CREATE_DEVICE_DEBUG else flags)
      in flags)"

definition window :: "int \<Rightarrow> int \<Rightarrow> int list" where
  "window max_fl min_fl = (case get_feature_levels max_fl min_fl of (n, lvls) \<Rightarrow> take n lvls)"

definition attempt :: "bool \<Rightarrow> bool \<Rightarrow> bool \<Rightarrow> int \<Rightarrow> int \<Rightarrow> create_call" where
  "attempt warp bgra dbg max_fl min_fl =
     \<lparr>cc_type = (if warp then D3D_DRIVER_TYPE_WARP else D3D_DRIVER_TYPE_HARDWARE),
      cc_flags = device_flags bgra dbg,
      cc_levels = window max_fl min_fl\<rparr>"

text \<open>
  The level the first cap of the loop lowers the maximum to, for a window the loop enters
  with; \<open>None\<close> when the loop has no cap for the window.
\<close>

definition first_cap :: "int \<Rightarrow> int \<Rightarrow> int option" where
  "first_cap max_fl min_fl =
     (if max_fl \<ge> D3D_FEATURE_LEVEL_12_0 \<and> min_fl \<le> D3D_FEATURE_LEVEL_11_1
      then Some D3D_FEATURE_LEVEL_11_1
      else if max_fl \<ge> D3D_FEATURE_LEVEL_11_1 \<and> min_fl \<le> D3D_FEATURE_LEVEL_11_0
      then Some D3D_FEATURE_LEVEL_11_0
      else None)"

text \<open>
  A platform on which creation succeeds only when the highest level asked for is \<open>tier\<close>
  and BGRA support is not requested.
\<close>

definition only_at :: "int \<Rightarrow> create_call \<Rightarrow> bool" where
  "only_at tier c =
     (hd (cc_levels c) = tier \<and> cc_flags c AND D3D11_CREATE_DEVICE_BGRA_SUPPORT = 0)"

text \<open>
  A platform for concrete runs: creation succeeds exactly on the calls \<open>ok\<close> accepts, and
  every later query succeeds. The world carries nothing.
\<close>

definition scenario_platform :: "(create_call \<Rightarrow> bool) \<Rightarrow> unit d3d11_platform" where
  "scenario_platform ok =
     \<lparr>pD3D11CreateDevice =
        Some (\<lambda>c w. if ok c then ((S_OK, 1), w) else ((E_FAIL, 0), w)),
      QueryInterface_IDXGIDevice1 = (\<lambda>h w. ((S_OK, 2), w)),
      GetParent_IDXGIAdapter1 = (\<lambda>h w. ((S_OK, 3), w)),
      SetMaximumFrameLatency = (\<lambda>h n w. w),
      GetDesc1 = (\<lambda>h w. ((S_OK, \<lparr>ad_Flags = 0, ad_VendorId = 4318, ad_DeviceId = 1\<rparr>), w)),
      GetFeatureLevel = (\<lambda>h w. D3D_FEATURE_LEVEL_11_0)\<rparr>"

text \<open>Options for concrete runs: the window from 12\_1 down to 9\_1, WARP allowed.\<close>

definition opts_12_1 :: d3d11_device_opts where
  "opts_12_1 =
     \<lparr>debug = False, allow_warp = True, force_warp = False,
      max_feature_level = D3D_FEATURE_LEVEL_12_1, min_feature_level = D3D_FEATURE_LEVEL_9_1,
      max_frame_latency = 3\<rparr>"

text \<open>
  The passes of a run: the events before the switch to WARP and the events after it.
  A run that never switches has one pass, the first.
\<close>

definition first_pass :: "event list \<Rightarrow> event list" where
  "first_pass evs = takeWhile (\<lambda>e. e \<noteq> Log Msg_trying_WARP) evs"

definition second_pass :: "event list \<Rightarrow> event list" where
  "second_pass evs = drop 1 (dropWhile (\<lambda>e. e \<noteq> Log Msg_trying_WARP) evs)"

text \<open>
  Bounds on one pass: how often BGRA was switched off, how often each cap of the maximum
  level was applied, and how many creation calls were made.
\<close>

definition pass_within :: "nat \<Rightarrow> nat \<Rightarrow> nat \<Rightarrow> nat \<Rightarrow> event list \<Rightarrow> bool" where
  "pass_within n_bgra n_11_1 n_11_0 n_calls evs =
     (count_list (messages evs) Msg_bgra_failed \<le> n_bgra \<and>
      count_list (messages evs) Msg_trying_11_1 \<le> n_11_1 \<and>
      count_list (messages evs) Msg_trying_11_0 \<le> n_11_0 \<and>
      length (creation_calls evs) \<le> n_calls)"

subsection \<open>mp\_d3d11\_create\_swapchain\<close>

text \<open>The \<open>DXGI_FORMAT\<close>, \<open>DXGI_SWAP_EFFECT\<close> and \<open>DXGI_MWA\<close> values of the DXGI headers.\<close>

definition DXGI_FORMAT_B8G8R8A8_UNORM :: "32 word" where
  "DXGI_FORMAT_B8G8R8A8_UNORM = 87"

definition DXGI_FORMAT_R8G8B8A8_UNORM :: "32 word" where
  "DXGI_FORMAT_R8G8B8A8_UNORM = 28"

definition DXGI_SWAP_EFFECT_DISCARD :: "32 word" where
  "DXGI_SWAP_EFFECT_DISCARD = 0"

definition DXGI_SWAP_EFFECT_FLIP_SEQUENTIAL :: "32 word" where
  "DXGI_SWAP_EFFECT_FLIP_SEQUENTIAL = 3"

definition DXGI_MWA_NO_WINDOW_CHANGES :: "32 word" where
  "DXGI_MWA_NO_WINDOW_CHANGES = 1"

definition DXGI_MWA_NO_ALT_ENTER :: "32 word" where
  "DXGI_MWA_NO_ALT_ENTER = 2"

definition DXGI_MWA_NO_PRINT_SCREEN :: "32 word" where
  "DXGI_MWA_NO_PRINT_SCREEN = 4"

text \<open>\<open>struct d3d11_swapchain_opts\<close>; the fields carry the prefix \<open>sc_\<close>.\<close>

record d3d11_swapchain_opts =
  sc_window :: nat
  sc_width :: int
  sc_height :: int
  sc_flip :: bool
  sc_length :: int
  sc_usage :: "32 word"

text \<open>The description of a texture, \<open>D3D11_TEXTURE2D_DESC\<close>.\<close>

record texture2d_desc =
  td_Width :: "32 word"
  td_Height :: "32 word"
  td_MipLevels :: "32 word"
  td_ArraySize :: "32 word"
  td_Format :: "32 word"
  td_SampleCount :: "32 word"
  td_SampleQuality :: "32 word"
  td_Usage :: "32 word"
  td_BindFlags :: "32 word"
  td_CPUAccessFlags :: "32 word"
  td_MiscFlags :: "32 word"

text \<open>
  \<open>D3D11_MAPPED_SUBRESOURCE\<close>: the mapped memory is read through \<open>ms_pData\<close>, the byte
  at each offset from \<open>pData\<close>.
\<close>

record mapped_subresource =
  ms_pData :: "nat \<Rightarrow> 8 word"
  ms_RowPitch :: "32 word"

datatype mp_imgfmt = IMGFMT_BGR0 | IMGFMT_RGB0 | IMGFMT_NV12 | IMGFMT_UYVY | IMGFMT_420P

text \<open>
  The fields of \<open>struct mp_image\<close> the screenshot code touches: the format and size it
  was allocated with, the stride of plane 0, and the bytes of plane 0 by offset.
\<close>

record mp_image =
  img_imgfmt :: mp_imgfmt
  img_w :: int
  img_h :: int
  img_stride0 :: int
  img_plane0 :: "nat \<Rightarrow> 8 word"

text \<open>
  The DXGI and Direct3D entry points the swapchain and screenshot code calls, added to the
  platform of the device code. \<open>IDXGISwapChain_GetDesc\<close> and \<open>ID3D11Texture2D_GetDesc\<close>
  return the descriptor as the call leaves it. \<open>mp_image_alloc\<close> is the player's
  allocator (video/mp\_image.c): it returns no image when the allocation fails.
\<close>

record 'w dxgi_platform = "'w d3d11_platform" +
  GetParent_IDXGIFactory1 :: "handle \<Rightarrow> 'w \<Rightarrow> (hresult \<times> handle) \<times> 'w"
  QueryInterface_IDXGIFactory2 :: "handle \<Rightarrow> 'w \<Rightarrow> (hresult \<times> handle) \<times> 'w"
  CreateSwapChainForHwnd ::
    "handle \<Rightarrow> handle \<Rightarrow> nat \<Rightarrow> swap_chain_desc \<Rightarrow> 'w \<Rightarrow> (hresult \<times> handle) \<times> 'w"
  QueryInterface_IDXGISwapChain :: "handle \<Rightarrow> 'w \<Rightarrow> (hresult \<times> handle) \<times> 'w"
  CreateSwapChain :: "handle \<Rightarrow> handle \<Rightarrow> swap_chain_desc \<Rightarrow> 'w \<Rightarrow> (hresult \<times> handle) \<times> 'w"
  MakeWindowAssociation :: "handle \<Rightarrow> nat \<Rightarrow> 32 word \<Rightarrow> 'w \<Rightarrow> 'w"
  IDXGISwapChain_GetDesc :: "handle \<Rightarrow> 'w \<Rightarrow> (hresult \<times> swap_chain_desc) \<times> 'w"
  IDXGISwapChain_GetBuffer :: "handle \<Rightarrow> 32 word \<Rightarrow> 'w \<Rightarrow> (hresult \<times> handle) \<times> 'w"
  ID3D11Texture2D_GetDevice :: "handle \<Rightarrow> 'w \<Rightarrow> handle \<times> 'w"
  ID3D11Device_GetImmediateContext :: "handle \<Rightarrow> 'w \<Rightarrow> handle \<times> 'w"
  ID3D11Texture2D_GetDesc :: "handle \<Rightarrow> 'w \<Rightarrow> texture2d_desc"
  ID3D11Device_CreateTexture2D :: "handle \<Rightarrow> texture2d_desc \<Rightarrow> 'w \<Rightarrow> (hresult \<times> handle) \<times> 'w"
  ID3D11DeviceContext_CopyResource :: "handle \<Rightarrow> handle \<Rightarrow> handle \<Rightarrow> 'w \<Rightarrow> 'w"
  ID3D11DeviceContext_Map :: "handle \<Rightarrow> handle \<Rightarrow> 'w \<Rightarrow> (hresult \<times> mapped_subresource) \<times> 'w"
  ID3D11DeviceContext_Unmap :: "handle \<Rightarrow> handle \<Rightarrow> 'w \<Rightarrow> 'w"
  mp_image_alloc :: "mp_imgfmt \<Rightarrow> int \<Rightarrow> int \<Rightarrow> mp_image option"

text \<open>
  \<open>create_swapchain_1_2\<close>. \<open>*swapchain_out\<close> is written only when both calls succeed;
  the value returned is the \<open>HRESULT\<close> of the last call made.
\<close>

definition create_swapchain_1_2 ::
  "('w, 'z) dxgi_platform_scheme \<Rightarrow> handle \<Rightarrow> handle \<Rightarrow> d3d11_swapchain_opts \<Rightarrow> bool \<Rightarrow>
   32 word \<Rightarrow> handle \<Rightarrow> 'w \<Rightarrow> (hresult \<times> handle) \<times> 'w \<times> event list" where
  "create_swapchain_1_2 P dev factory opts flip format swapchain_out w =
     (let desc = \<lparr>scd_Width = word_of_int (if sc_width opts \<noteq> 0 then sc_width opts else 1),
                  scd_Height = word_of_int (if sc_height opts \<noteq> 0 then sc_height opts else 1),
                  scd_Format = format,
                  scd_SampleCount = 1,
                  scd_BufferUsage = sc_usage opts,
                  scd_BufferCount = 0,
                  scd_OutputWindow = 0,
                  scd_Windowed = False,
                  scd_SwapEffect = 0\<rparr>;
          desc = (if flip
                  then desc\<lparr>scd_SwapEffect := DXGI_SWAP_EFFECT_FLIP_SEQUENTIAL,
                            scd_BufferCount := word_of_int (sc_length opts)\<rparr>
                  else desc\<lparr>scd_SwapEffect := DXGI_SWAP_EFFECT_DISCARD,
                            scd_BufferCount := 1\<rparr>);
          ((hr, swapchain1), w) = CreateSwapChainForHwnd P factory dev (sc_window opts) desc w
      in if FAILED hr then ((hr, swapchain_out), w, [Try_SwapChain desc hr])
         else
           let ((hr, swapchain), w) = QueryInterface_IDXGISwapChain P swapchain1 w
           in if FAILED hr then ((hr, swapchain_out), w, [Try_SwapChain desc hr])
              else ((hr, swapchain), w, [Try_SwapChain desc hr]))"

text \<open>\<open>create_swapchain_1_1\<close> hands \<open>swapchain_out\<close> to the platform.\<close>

definition create_swapchain_1_1 ::
  "('w, 'z) dxgi_platform_scheme \<Rightarrow> handle \<Rightarrow> handle \<Rightarrow> d3d11_swapchain_opts \<Rightarrow>
   32 word \<Rightarrow> 'w \<Rightarrow> (hresult \<times> handle) \<times> 'w \<times> event list" where
  "create_swapchain_1_1 P dev factory opts format w =
     (let desc = \<lparr>scd_Width = word_of_int (if sc_width opts \<noteq> 0 then sc_width opts else 1),
                  scd_Height = word_of_int (if sc_height opts \<noteq> 0 then sc_height opts else 1),
                  scd_Format = format,
                  scd_SampleCount = 1,
                  scd_BufferUsage = sc_usage opts,
                  scd_BufferCount = 1,
                  scd_OutputWindow = sc_window opts,
                  scd_Windowed = True,
                  scd_SwapEffect = DXGI_SWAP_EFFECT_DISCARD\<rparr>;
          ((hr, swapchain), w) = CreateSwapChain P factory dev desc w
      in ((hr, swapchain), w, [Try_SwapChain desc hr]))"

text \<open>The format table of \<open>mp_d3d11_create_swapchain\<close>.\<close>

definition formats :: "32 word list" where
  "formats = [DXGI_FORMAT_B8G8R8A8_UNORM, DXGI_FORMAT_R8G8B8A8_UNORM]"

text \<open>
  The inner \<open>for\<close> loop over the formats still to try; \<open>factory2\<close> is \<open>None\<close> when the
  pointer is \<open>NULL\<close>. It leaves \<open>hr\<close> and \<open>swapchain\<close> as the last call set them.
\<close>

fun try_formats ::
  "('w, 'z) dxgi_platform_scheme \<Rightarrow> handle \<Rightarrow> handle \<Rightarrow> handle option \<Rightarrow>
   d3d11_swapchain_opts \<Rightarrow> bool \<Rightarrow> 32 word list \<Rightarrow> hresult \<Rightarrow> handle \<Rightarrow> 'w \<Rightarrow>
   (hresult \<times> handle) \<times> 'w \<times> event list" where
  "try_formats P dev factory factory2 opts flip [] hr swapchain w = ((hr, swapchain), w, [])"
| "try_formats P dev factory factory2 opts flip (format # rest) hr swapchain w =
     (let ((hr, swapchain), w, evs) =
            (case factory2 of
               Some f2 \<Rightarrow> create_swapchain_1_2 P dev f2 opts flip format swapchain w
             | None \<Rightarrow> create_swapchain_1_1 P dev factory opts format w)
      in if SUCCEEDED hr then ((hr, swapchain), w, evs)
         else emit evs (try_formats P dev factory factory2 opts flip rest hr swapchain w))"

text \<open>The \<open>do { ... } while (true)\<close> loop: one more pass only after \<open>flip\<close> is cleared.\<close>

function swapchain_loop ::
  "('w, 'z) dxgi_platform_scheme \<Rightarrow> handle \<Rightarrow> handle \<Rightarrow> handle option \<Rightarrow>
   d3d11_swapchain_opts \<Rightarrow> bool \<Rightarrow> hresult \<Rightarrow> handle \<Rightarrow> 'w \<Rightarrow>
   handle option \<times> 'w \<times> event list" where
  "swapchain_loop P dev factory factory2 opts flip hr swapchain w =
     (let ((hr, swapchain), w, evs) =
            try_formats P dev factory factory2 opts flip formats hr swapchain w
      in if SUCCEEDED hr then (Some swapchain, w, evs)
         else if flip then
           emit (evs @ [Log Msg_trying_bitblt])
             (swapchain_loop P dev factory factory2 opts False hr swapchain w)
         else (None, w, evs @ [Log (Msg_swapchain_failed hr)]))"
  by pat_completeness auto
termination
  by (relation "measure (\<lambda>(P, dev, factory, factory2, opts, flip, hr, swapchain, w).
                  if flip then 1 else 0)") auto

declare swapchain_loop.simps [simp del]

text \<open>
  The whole function: \<open>Some swapchain\<close> when it returns \<open>true\<close> with
  \<open>*swapchain_out = swapchain\<close>, \<open>None\<close> when it returns \<open>false\<close>. The pointer
  \<open>factory2\<close> is reset to \<open>NULL\<close> when its query fails and tested as a pointer from
  then on; the null pointer is the handle 0.
\<close>

definition mp_d3d11_create_swapchain ::
  "('w, 'z) dxgi_platform_scheme \<Rightarrow> handle \<Rightarrow> d3d11_swapchain_opts \<Rightarrow> 'w \<Rightarrow>
   handle option \<times> 'w \<times> event list" where
  "mp_d3d11_create_swapchain P dev opts w =
     (let ((hr, dxgi_dev), w) = QueryInterface_IDXGIDevice1 P dev w in
      if FAILED hr then (None, w, [Log Msg_no_dxgi_device])
      else
        let ((hr, adapter), w) = GetParent_IDXGIAdapter1 P dxgi_dev w in
        if FAILED hr then (None, w, [Log Msg_no_dxgi_adapter])
        else
          let ((hr, factory), w) = GetParent_IDXGIFactory1 P adapter w in
          if FAILED hr then (None, w, [Log Msg_no_dxgi_factory])
          else
            let ((hr, f2), w) = QueryInterface_IDXGIFactory2 P factory w;
                factory2 = (if FAILED hr \<or> f2 = 0 then None else Some f2);
                flip = (factory2 \<noteq> None \<and> sc_flip opts)
            in case swapchain_loop P dev factory factory2 opts flip hr 0 w of
                 (None, w, evs) \<Rightarrow> (None, w, evs)
               | (Some swapchain, w, evs) \<Rightarrow>
                  (let w = MakeWindowAssociation P factory (sc_window opts)
                             (DXGI_MWA_NO_WINDOW_CHANGES OR DXGI_MWA_NO_ALT_ENTER OR
                              DXGI_MWA_NO_PRINT_SCREEN) w;
                       evs = evs @ [Log (if factory2 \<noteq> None then Msg_using_dxgi_1_2
                                         else Msg_using_dxgi_1_1)];
                       ((hr, scd), w) = IDXGISwapChain_GetDesc P swapchain w;
                       evs = evs @ [Log (if scd_SwapEffect scd = DXGI_SWAP_EFFECT_FLIP_SEQUENTIAL
                                         then Msg_flip_model else Msg_bitblt_model)]
                   in (Some swapchain, w, evs)))"

subsection \<open>mp\_d3d11\_screenshot\<close>

definition D3D11_CPU_ACCESS_READ :: "32 word" where
  "D3D11_CPU_ACCESS_READ = 131072"

definition D3D11_USAGE_STAGING :: "32 word" where
  "D3D11_USAGE_STAGING = 3"

text \<open>\<open>memcpy(dst + d, src + s, n)\<close> on memories read by offset.\<close>

definition memcpy_at :: "(nat \<Rightarrow> 8 word) \<Rightarrow> nat \<Rightarrow> (nat \<Rightarrow> 8 word) \<Rightarrow> nat \<Rightarrow> nat \<Rightarrow> nat \<Rightarrow> 8 word" where
  "memcpy_at dst d src s n = (\<lambda>a. if d \<le> a \<and> a < d + n then src (s + (a - d)) else dst a)"

text \<open>
  The row loop \<open>for (int i = 0; i < td.Height; i++)\<close>, from row \<open>i\<close> on. The source
  offset \<open>lock.RowPitch * i\<close> and the length \<open>td.Width * 4\<close> are unsigned 32-bit
  products; the destination offset \<open>img->stride[0] * i\<close> is an \<open>int\<close>.
\<close>

function copy_rows :: "texture2d_desc \<Rightarrow> mapped_subresource \<Rightarrow> nat \<Rightarrow> mp_image \<Rightarrow> mp_image" where
  "copy_rows td lock i img =
     (if i < unat (td_Height td)
      then copy_rows td lock (i + 1)
             (img\<lparr>img_plane0 :=
                    memcpy_at (img_plane0 img) (nat (img_stride0 img * int i))
                      (ms_pData lock) (unat (ms_RowPitch lock * of_nat i))
                      (unat (td_Width td * 4))\<rparr>)
      else img)"
  by pat_completeness auto
termination
  by (relation "measure (\<lambda>(td, lock, i, img). unat (td_Height td) - i)") auto

declare copy_rows.simps [simp del]

text \<open>The \<open>switch (td.Format)\<close>: the two formats with an image format, no other.\<close>

definition screenshot_imgfmt :: "32 word \<Rightarrow> mp_imgfmt option" where
  "screenshot_imgfmt format =
     (if format = DXGI_FORMAT_B8G8R8A8_UNORM then Some IMGFMT_BGR0
      else if format = DXGI_FORMAT_R8G8B8A8_UNORM then Some IMGFMT_RGB0
      else None)"

text \<open>The whole function; \<open>None\<close> is the \<open>NULL\<close> image.\<close>

definition mp_d3d11_screenshot ::
  "('w, 'z) dxgi_platform_scheme \<Rightarrow> handle \<Rightarrow> 'w \<Rightarrow> mp_image option \<times> 'w \<times> event list" where
  "mp_d3d11_screenshot P swapchain w =
     (let ((hr, scd), w) = IDXGISwapChain_GetDesc P swapchain w in
      if FAILED hr then (None, w, [])
      else if scd_SwapEffect scd \<noteq> DXGI_SWAP_EFFECT_FLIP_SEQUENTIAL then (None, w, [])
      else
        let index = scd_BufferCount scd - 1;
            ((hr, frontbuffer), w) = IDXGISwapChain_GetBuffer P swapchain index w;
            evs = [Get_Buffer index hr]
        in if FAILED hr then (None, w, evs)
           else
             let (dev, w) = ID3D11Texture2D_GetDevice P frontbuffer w;
                 (ctx, w) = ID3D11Device_GetImmediateContext P dev w;
                 td = ID3D11Texture2D_GetDesc P frontbuffer w
             in if td_SampleCount td > 1 then (None, w, evs)
                else
                  case screenshot_imgfmt (td_Format td) of
                    None \<Rightarrow> (None, w, evs)
                  | Some fmt \<Rightarrow>
                     (let td = td\<lparr>td_BindFlags := 0, td_MiscFlags := 0,
                                   td_CPUAccessFlags := D3D11_CPU_ACCESS_READ,
                                   td_Usage := D3D11_USAGE_STAGING\<rparr>;
                          ((hr, staging), w) = ID3D11Device_CreateTexture2D P dev td w
                      in if FAILED hr then (None, w, evs)
                         else
                           let w = ID3D11DeviceContext_CopyResource P ctx staging frontbuffer w;
                               ((hr, lock), w) = ID3D11DeviceContext_Map P ctx staging w
                           in if FAILED hr then (None, w, evs)
                              else
                                case mp_image_alloc P fmt (sint (td_Width td))
                                       (sint (td_Height td)) of
                                  None \<Rightarrow> (None, w, evs)
                                | Some img \<Rightarrow>
                                   (let img = copy_rows td lock 0 img;
                                        w = ID3D11DeviceContext_Unmap P ctx staging w
                                    in (Some img, w, evs))))"

subsection \<open>Reading a swapchain or screenshot trace\<close>

text \<open>
  The swapchain attempts of a trace, in order: the presentation mode and the format of
  the descriptor, and the \<open>HRESULT\<close> of the attempt.
\<close>

fun swapchain_attempts :: "event list \<Rightarrow> ((32 word \<times> 32 word) \<times> hresult) list" where
  "swapchain_attempts [] = []"
| "swapchain_attempts (Try_SwapChain desc hr # evs) =
     ((scd_SwapEffect desc, scd_Format desc), hr) # swapchain_attempts evs"
| "swapchain_attempts (e # evs) = swapchain_attempts evs"



text \<open>
  A list of attempts climbs down a ladder in order when each attempt is the next rung and
  every attempt but the last one made has failed.
\<close>

fun in_ladder_order :: "('a \<times> hresult) list \<Rightarrow> 'a list \<Rightarrow> bool" where
  "in_ladder_order [] rungs = True"
| "in_ladder_order ((a, hr) # rest) [] = False"
| "in_ladder_order ((a, hr) # rest) (r # rungs) =
     (a = r \<and> (rest = [] \<or> (FAILED hr \<and> in_ladder_order rest rungs)))"

text \<open>The indices asked of \<open>GetBuffer\<close> in a trace.\<close>

fun buffer_reads :: "event list \<Rightarrow> 32 word list" where
  "buffer_reads [] = []"
| "buffer_reads (Get_Buffer index hr # evs) = index # buffer_reads evs"
| "buffer_reads (e # evs) = buffer_reads evs"

text \<open>
  A run of the swapchain negotiation goes down a ladder: its attempts are in ladder order;
  it fails only with no attempt made (the factory could not be reached) or with every
  rung tried and failed; it succeeds only on its last attempt.
\<close>

definition goes_down :: "handle option \<times> 'w \<times> event list \<Rightarrow> (32 word \<times> 32 word) list \<Rightarrow> bool" where
  "goes_down r rungs =
     (let att = swapchain_attempts (snd (snd r)) in
      in_ladder_order att rungs \<and>
      (fst r = None \<longrightarrow>
         att = [] \<or> (map fst att = rungs \<and> list_all (\<lambda>(a, hr). FAILED hr) att)) \<and>
      (fst r \<noteq> None \<longrightarrow> att \<noteq> [] \<and> SUCCEEDED (snd (last att))) \<and>
      (list_all (\<lambda>(a, hr). FAILED hr) att \<longrightarrow> fst r = None))"

text \<open>
  The description of the buffer a screenshot reads, when the run gets that far: the calls
  of \<open>mp_d3d11_screenshot\<close> up to \<open>ID3D11Texture2D_GetDesc\<close>.
\<close>

definition screenshot_buffer_desc :: "('w, 'z) dxgi_platform_scheme \<Rightarrow> handle \<Rightarrow> 'w \<Rightarrow> texture2d_desc" where
  "screenshot_buffer_desc P swapchain w =
     (let ((hr, scd), w) = IDXGISwapChain_GetDesc P swapchain w;
          ((hr, frontbuffer), w) =
             IDXGISwapChain_GetBuffer P swapchain (scd_BufferCount scd - 1) w;
          (dev, w) = ID3D11Texture2D_GetDevice P frontbuffer w;
          (ctx, w) = ID3D11Device_GetImmediateContext P dev w
      in ID3D11Texture2D_GetDesc P frontbuffer w)"

text \<open>
  A DXGI platform for concrete runs: the DXGI 1.2 factory is there when \<open>dxgi_1_2\<close>, a
  swapchain is created exactly for the descriptors \<open>ok\<close> accepts, a swapchain describes
  itself as \<open>scd\<close> and its buffers as \<open>td\<close>; everything else succeeds.
\<close>

definition scenario_dxgi ::
  "bool \<Rightarrow> (swap_chain_desc \<Rightarrow> bool) \<Rightarrow> swap_chain_desc \<Rightarrow> texture2d_desc \<Rightarrow> unit dxgi_platform" where
  "scenario_dxgi dxgi_1_2 ok scd td =
     \<lparr>pD3D11CreateDevice = None,
      QueryInterface_IDXGIDevice1 = (\<lambda>h w. ((S_OK, 2), w)),
      GetParent_IDXGIAdapter1 = (\<lambda>h w. ((S_OK, 3), w)),
      SetMaximumFrameLatency = (\<lambda>h n w. w),
      GetDesc1 = (\<lambda>h w. ((S_OK, \<lparr>ad_Flags = 0, ad_VendorId = 4318, ad_DeviceId = 1\<rparr>), w)),
      GetFeatureLevel = (\<lambda>h w. D3D_FEATURE_LEVEL_11_0),
      GetParent_IDXGIFactory1 = (\<lambda>h w. ((S_OK, 4), w)),
      QueryInterface_IDXGIFactory2 =
        (\<lambda>h w. if dxgi_1_2 then ((S_OK, 5), w) else ((E_FAIL, 0), w)),
      CreateSwapChainForHwnd =
        (\<lambda>f dev win desc w. if ok desc then ((S_OK, 6), w) else ((E_FAIL, 0), w)),
      QueryInterface_IDXGISwapChain = (\<lambda>h w. ((S_OK, 7), w)),
      CreateSwapChain =
        (\<lambda>f dev desc w. if ok desc then ((S_OK, 7), w) else ((E_FAIL, 0), w)),
      MakeWindowAssociation = (\<lambda>f win flags w. w),
      IDXGISwapChain_GetDesc = (\<lambda>h w. ((S_OK, scd), w)),
      IDXGISwapChain_GetBuffer = (\<lambda>h i w. ((S_OK, 8), w)),
      ID3D11Texture2D_GetDevice = (\<lambda>h w. (1, w)),
      ID3D11Device_GetImmediateContext = (\<lambda>h w. (9, w)),
      ID3D11Texture2D_GetDesc = (\<lambda>h w. td),
      ID3D11Device_CreateTexture2D = (\<lambda>dev t w. ((S_OK, 10), w)),
      ID3D11DeviceContext_CopyResource = (\<lambda>ctx dst src w. w),
      ID3D11DeviceContext_Map =
        (\<lambda>ctx res w. ((S_OK, \<lparr>ms_pData = (\<lambda>a. 0), ms_RowPitch = 4 * td_Width td\<rparr>), w)),
      ID3D11DeviceContext_Unmap = (\<lambda>ctx res w. w),
      mp_image_alloc =
        (\<lambda>fmt w h. Some \<lparr>img_imgfmt = fmt, img_w = w, img_h = h, img_stride0 = 4 * w,
                          img_plane0 = (\<lambda>a. 0)\<rparr>)\<rparr>"

text \<open>A platform choice for concrete runs: only the discard mode with R8G8B8A8 is created.\<close>

definition discard_rgba_only :: "swap_chain_desc \<Rightarrow> bool" where
  "discard_rgba_only desc =
     (scd_SwapEffect desc = DXGI_SWAP_EFFECT_DISCARD \<and>
      scd_Format desc = DXGI_FORMAT_R8G8B8A8_UNORM)"

text \<open>Swapchain options, a swapchain descriptor and a buffer description for concrete runs.\<close>

definition sc_opts :: "bool \<Rightarrow> d3d11_swapchain_opts" where
  "sc_opts flip =
     \<lparr>sc_window = 1, sc_width = 640, sc_height = 480, sc_flip = flip, sc_length = 3,
      sc_usage = 32\<rparr>"

definition flip_scd :: "32 word \<Rightarrow> 32 word \<Rightarrow> swap_chain_desc" where
  "flip_scd effect count =
     \<lparr>scd_Width = 640, scd_Height = 480, scd_Format = DXGI_FORMAT_B8G8R8A8_UNORM,
      scd_SampleCount = 1, scd_BufferUsage = 32, scd_BufferCount = count,
      scd_OutputWindow = 1, scd_Windowed = True, scd_SwapEffect = effect\<rparr>"

definition buffer_td :: "32 word \<Rightarrow> 32 word \<Rightarrow> texture2d_desc" where
  "buffer_td format samples =
     \<lparr>td_Width = 2, td_Height = 2, td_MipLevels = 1, td_ArraySize = 1, td_Format = format,
      td_SampleCount = samples, td_SampleQuality = 0, td_Usage = 0, td_BindFlags = 32,
      td_CPUAccessFlags = 0, td_MiscFlags = 0\<rparr>"

section \<open>VideoToolbox interop (video/out/opengl/hwdec\_osx.c)\<close>

subsection \<open>The format table\<close>

text \<open>
  \<open>GLenum\<close> values and CoreVideo pixel format codes (four-character codes: \<open>420v\<close>,
  \<open>2vuy\<close>, \<open>y420\<close>, \<open>BGRA\<close>).
\<close>

definition GL_RED :: "32 word" where "GL_RED = 6403"
definition GL_RG :: "32 word" where "GL_RG = 33319"
definition GL_RGB :: "32 word" where "GL_RGB = 6407"
definition GL_RGBA :: "32 word" where "GL_RGBA = 6408"
definition GL_BGRA :: "32 word" where "GL_BGRA = 32993"
definition GL_UNSIGNED_BYTE :: "32 word" where "GL_UNSIGNED_BYTE = 5121"
definition GL_RGB_422_APPLE :: "32 word" where "GL_RGB_422_APPLE = 35359"
definition GL_UNSIGNED_SHORT_8_8_APPLE :: "32 word" where "GL_UNSIGNED_SHORT_8_8_APPLE = 34234"
definition GL_UNSIGNED_INT_8_8_8_8_REV :: "32 word" where "GL_UNSIGNED_INT_8_8_8_8_REV = 33639"
definition GL_TEXTURE_RECTANGLE :: "32 word" where "GL_TEXTURE_RECTANGLE = 34037"

definition kCVPixelFormatType_420YpCbCr8BiPlanarVideoRange :: "32 word" where
  "kCVPixelFormatType_420YpCbCr8BiPlanarVideoRange = 875704438"
definition kCVPixelFormatType_422YpCbCr8 :: "32 word" where
  "kCVPixelFormatType_422YpCbCr8 = 846624121"
definition kCVPixelFormatType_420YpCbCr8Planar :: "32 word" where
  "kCVPixelFormatType_420YpCbCr8Planar = 2033463856"
definition kCVPixelFormatType_32BGRA :: "32 word" where
  "kCVPixelFormatType_32BGRA = 1111970369"

definition kCGLNoError :: "32 word" where "kCGLNoError = 0"

definition MP_MAX_PLANES :: nat where "MP_MAX_PLANES = 4"

record vt_gl_plane_format =
  gl_format :: "32 word"
  gl_type :: "32 word"
  gl_internal_format :: "32 word"

text \<open>
  \<open>struct vt_format\<close>. The array \<open>gl[MP_MAX_PLANES]\<close> is a list of four entries; the
  entries an initializer leaves out are zero, and so is a \<open>swizzle\<close> left out.
\<close>

record vt_format =
  vf_cvpixfmt :: "32 word"
  vf_imgfmt :: mp_imgfmt
  vf_planes :: int
  vf_gl :: "vt_gl_plane_format list"
  vf_swizzle :: string

definition gl_plane :: "32 word \<Rightarrow> 32 word \<Rightarrow> 32 word \<Rightarrow> vt_gl_plane_format" where
  "gl_plane format type internal = \<lparr>gl_format = format, gl_type = type, gl_internal_format = internal\<rparr>"

definition vt_formats :: "vt_format list" where
  "vt_formats =
     [\<lparr>vf_cvpixfmt = kCVPixelFormatType_420YpCbCr8BiPlanarVideoRange,
       vf_imgfmt = IMGFMT_NV12, vf_planes = 2,
       vf_gl = [gl_plane GL_RED GL_UNSIGNED_BYTE GL_RED, gl_plane GL_RG GL_UNSIGNED_BYTE GL_RG,
                gl_plane 0 0 0, gl_plane 0 0 0],
       vf_swizzle = []\<rparr>,
      \<lparr>vf_cvpixfmt = kCVPixelFormatType_422YpCbCr8,
       vf_imgfmt = IMGFMT_UYVY, vf_planes = 1,
       vf_gl = [gl_plane GL_RGB_422_APPLE GL_UNSIGNED_SHORT_8_8_APPLE GL_RGB,
                gl_plane 0 0 0, gl_plane 0 0 0, gl_plane 0 0 0],
       vf_swizzle = ''gbra''\<rparr>,
      \<lparr>vf_cvpixfmt = kCVPixelFormatType_420YpCbCr8Planar,
       vf_imgfmt = IMGFMT_420P, vf_planes = 3,
       vf_gl = [gl_plane GL_RED GL_UNSIGNED_BYTE GL_RED, gl_plane GL_RED GL_UNSIGNED_BYTE GL_RED,
                gl_plane GL_RED GL_UNSIGNED_BYTE GL_RED, gl_plane 0 0 0],
       vf_swizzle = []\<rparr>,
      \<lparr>vf_cvpixfmt = kCVPixelFormatType_32BGRA,
       vf_imgfmt = IMGFMT_BGR0, vf_planes = 1,
       vf_gl = [gl_plane GL_BGRA GL_UNSIGNED_INT_8_8_8_8_REV GL_RGBA,
                gl_plane 0 0 0, gl_plane 0 0 0, gl_plane 0 0 0],
       vf_swizzle = []\<rparr>]"

text \<open>The loop of \<open>vt_get_gl_format\<close> over a table: the first entry with the format.\<close>

fun find_cvpixfmt :: "vt_format list \<Rightarrow> 32 word \<Rightarrow> vt_format option" where
  "find_cvpixfmt [] c = None"
| "find_cvpixfmt (f # fs) c = (if vf_cvpixfmt f = c then Some f else find_cvpixfmt fs c)"

definition vt_get_gl_format :: "32 word \<Rightarrow> vt_format option" where
  "vt_get_gl_format c = find_cvpixfmt vt_formats c"

subsection \<open>The platform and the state\<close>

text \<open>
  The arguments of one \<open>CGLTexImageIOSurface2D\<close> call. Width and height are \<open>GLsizei\<close>,
  the \<open>size_t\<close> of the surface converted to \<open>int\<close>.
\<close>

record teximage_call =
  ti_ctx :: handle
  ti_target :: "32 word"
  ti_internal_format :: "32 word"
  ti_width :: int
  ti_height :: int
  ti_format :: "32 word"
  ti_type :: "32 word"
  ti_surface :: handle
  ti_plane :: nat

datatype osx_msg =
    Msg_need_gl3
  | Msg_need_cocoa
  | Msg_no_IOSurface
  | Msg_unsupported_format
  | Msg_plane_error nat "32 word" "32 word"

text \<open>What a run does to the platform, in order.\<close>

datatype gl_event =
    Release_Buffer handle
  | Retain_Buffer handle
  | Gen_Textures "32 word list"
  | Bind_Texture "32 word" "32 word"
  | Tex_Image teximage_call "32 word"
  | Devices_Add
  | Log_osx osx_msg

text \<open>
  CoreVideo, IOSurface, CGL and the \<open>GL\<close> function table. What a pixel buffer and its
  surface report is a function of the handle; the calls with an effect take the world
  and return it. The null pointer is the handle 0.
\<close>

record 'w osx_platform =
  gl_version :: int
  CGLGetCurrentContext :: handle
  GenTextures :: "nat \<Rightarrow> 'w \<Rightarrow> (nat \<Rightarrow> 32 word) \<times> 'w"
  BindTexture :: "32 word \<Rightarrow> 32 word \<Rightarrow> 'w \<Rightarrow> 'w"
  GetError :: "'w \<Rightarrow> 32 word \<times> 'w"
  CVPixelBufferRelease :: "handle \<Rightarrow> 'w \<Rightarrow> 'w"
  CVPixelBufferRetain :: "handle \<Rightarrow> 'w \<Rightarrow> 'w"
  CVPixelBufferGetIOSurface :: "handle \<Rightarrow> handle"
  CVPixelBufferGetPixelFormatType :: "handle \<Rightarrow> 32 word"
  CVPixelBufferIsPlanar :: "handle \<Rightarrow> bool"
  CVPixelBufferGetPlaneCount :: "handle \<Rightarrow> 64 word"
  IOSurfaceGetWidthOfPlane :: "handle \<Rightarrow> nat \<Rightarrow> 64 word"
  IOSurfaceGetHeightOfPlane :: "handle \<Rightarrow> nat \<Rightarrow> 64 word"
  CGLTexImageIOSurface2D :: "teximage_call \<Rightarrow> 'w \<Rightarrow> 32 word \<times> 'w"

text \<open>\<open>struct priv\<close>, without the device context; the array \<open>gl_planes\<close> by index.\<close>

record priv =
  pbuf :: handle
  gl_planes :: "nat \<Rightarrow> 32 word"

record gl_hwdec_plane =
  gl_texture :: "32 word"
  gl_target :: "32 word"
  tex_w :: int
  tex_h :: int

text \<open>\<open>struct gl_hwdec_frame\<close>: the array \<open>planes\<close> by index, and the swizzle string.\<close>

record gl_hwdec_frame =
  fr_planes :: "nat \<Rightarrow> gl_hwdec_plane"
  fr_swizzle :: string

text \<open>The hardware image: \<open>planes[3]\<close> holds the \<open>CVPixelBufferRef\<close>.\<close>

record hw_image =
  planes3 :: handle

text \<open>The conversion of a \<open>size_t\<close> to \<open>int\<close>: the low 32 bits, signed.\<close>

definition size_to_int :: "64 word \<Rightarrow> int" where
  "size_to_int n = sint (ucast n :: 32 word)"

datatype error = Assertion_failed

text \<open>
  What a call of \<open>map_frame\<close> leaves: the value returned, or the failed assertion;
  \<open>*p\<close> and \<open>*out_frame\<close> after the call; the world; the events of the call.
\<close>

record 'w map_result =
  mr_ret :: "error + int"
  mr_priv :: priv
  mr_frame :: gl_hwdec_frame
  mr_world :: 'w
  mr_events :: "gl_event list"

subsection \<open>create\<close>

text \<open>
  \<open>check_hwdec\<close> and \<open>create\<close>: the value returned, \<open>hw->priv\<close> (zeroed, then the four
  texture names written by \<open>GenTextures\<close>), the world and the events.
\<close>

definition check_hwdec :: "'w osx_platform \<Rightarrow> bool \<times> gl_event list" where
  "check_hwdec P =
     (if gl_version P < 300 then (False, [Log_osx Msg_need_gl3])
      else if CGLGetCurrentContext P = 0 then (False, [Log_osx Msg_need_cocoa])
      else (True, []))"

definition create :: "'w osx_platform \<Rightarrow> 'w \<Rightarrow> int \<times> priv option \<times> 'w \<times> gl_event list" where
  "create P w =
     (let (ok, evs) = check_hwdec P in
      if \<not> ok then (- 1, None, w, evs)
      else
        let (names, w) = GenTextures P MP_MAX_PLANES w;
            p = \<lparr>pbuf = 0, gl_planes = (\<lambda>i. if i < MP_MAX_PLANES then names i else 0)\<rparr>
        in (0, Some p, w,
            evs @ [Gen_Textures (map names [0..<MP_MAX_PLANES]), Devices_Add]))"

subsection \<open>map\_frame\<close>

text \<open>
  The plane loop \<open>for (int i = 0; i < f->planes; i++)\<close>, from plane \<open>i\<close> on: bind the
  texture of the plane, attach the surface plane to it, log an error of the attach call
  (with the \<open>GL\<close> error, read for the message), unbind, write the plane of the output
  frame.
\<close>

function map_planes ::
  "'w osx_platform \<Rightarrow> priv \<Rightarrow> vt_format \<Rightarrow> handle \<Rightarrow> nat \<Rightarrow> gl_hwdec_frame \<Rightarrow> 'w \<Rightarrow>
   gl_hwdec_frame \<times> 'w \<times> gl_event list" where
  "map_planes P p f surface i out_frame w =
     (if int i < vf_planes f then
        let w = BindTexture P GL_TEXTURE_RECTANGLE (gl_planes p i) w;
            c = \<lparr>ti_ctx = CGLGetCurrentContext P, ti_target = GL_TEXTURE_RECTANGLE,
                 ti_internal_format = gl_internal_format (vf_gl f ! i),
                 ti_width = size_to_int (IOSurfaceGetWidthOfPlane P surface i),
                 ti_height = size_to_int (IOSurfaceGetHeightOfPlane P surface i),
                 ti_format = gl_format (vf_gl f ! i), ti_type = gl_type (vf_gl f ! i),
                 ti_surface = surface, ti_plane = i\<rparr>;
            (err, w) = CGLTexImageIOSurface2D P c w;
            (logs, w) = (if err \<noteq> kCGLNoError
                         then let (gl_err, w) = GetError P w
                              in ([Log_osx (Msg_plane_error i err gl_err)], w)
                         else ([], w));
            w = BindTexture P GL_TEXTURE_RECTANGLE 0 w;
            out_frame = out_frame\<lparr>fr_planes := (fr_planes out_frame)
                          (i := \<lparr>gl_texture = gl_planes p i, gl_target = GL_TEXTURE_RECTANGLE,
                                 tex_w = size_to_int (IOSurfaceGetWidthOfPlane P surface i),
                                 tex_h = size_to_int (IOSurfaceGetHeightOfPlane P surface i)\<rparr>)\<rparr>;
            (out_frame, w, evs) = map_planes P p f surface (i + 1) out_frame w
        in (out_frame, w,
            [Bind_Texture GL_TEXTURE_RECTANGLE (gl_planes p i), Tex_Image c err] @ logs @
            [Bind_Texture GL_TEXTURE_RECTANGLE 0] @ evs)
      else (out_frame, w, []))"
  by pat_completeness auto
termination
  by (relation "measure (\<lambda>(P, p, f, surface, i, out_frame, w). nat (vf_planes f) - i)") auto

declare map_planes.simps [simp del]

text \<open>
  The whole function. The assertion
  \<open>assert(planar && planes == f->planes || f->planes == 1)\<close> is a branch of its own.
\<close>

definition map_frame ::
  "'w osx_platform \<Rightarrow> priv \<Rightarrow> hw_image \<Rightarrow> gl_hwdec_frame \<Rightarrow> 'w \<Rightarrow> 'w map_result" where
  "map_frame P p hw_image out_frame w =
     (let w = CVPixelBufferRelease P (pbuf p) w;
          evs = [Release_Buffer (pbuf p)];
          p = p\<lparr>pbuf := planes3 hw_image\<rparr>;
          w = CVPixelBufferRetain P (pbuf p) w;
          evs = evs @ [Retain_Buffer (pbuf p)];
          surface = CVPixelBufferGetIOSurface P (pbuf p)
      in if surface = 0
         then \<lparr>mr_ret = Inr (- 1), mr_priv = p, mr_frame = out_frame, mr_world = w,
               mr_events = evs @ [Log_osx Msg_no_IOSurface]\<rparr>
         else
           case vt_get_gl_format (CVPixelBufferGetPixelFormatType P (pbuf p)) of
             None \<Rightarrow>
               \<lparr>mr_ret = Inr (- 1), mr_priv = p, mr_frame = out_frame, mr_world = w,
                mr_events = evs @ [Log_osx Msg_unsupported_format]\<rparr>
           | Some f \<Rightarrow>
              (let planar = CVPixelBufferIsPlanar P (pbuf p);
                   planes = size_to_int (CVPixelBufferGetPlaneCount P (pbuf p))
               in if \<not> (planar \<and> planes = vf_planes f \<or> vf_planes f = 1)
                  then \<lparr>mr_ret = Inl Assertion_failed, mr_priv = p, mr_frame = out_frame,
                        mr_world = w, mr_events = evs\<rparr>
                  else
                    let (out_frame, w, evs') = map_planes P p f surface 0 out_frame w;
                        out_frame = out_frame\<lparr>fr_swizzle := vf_swizzle f\<rparr>
                    in \<lparr>mr_ret = Inr 0, mr_priv = p, mr_frame = out_frame, mr_world = w,
                        mr_events = evs @ evs'\<rparr>))"

subsection \<open>Reading a trace of the interop\<close>

text \<open>The texture names bound, the attach calls with their results, the planes with a
  logged attach error, and the number of \<open>GenTextures\<close> calls of a trace.\<close>

fun bound_textures :: "gl_event list \<Rightarrow> 32 word list" where
  "bound_textures [] = []"
| "bound_textures (Bind_Texture target name # evs) = name # bound_textures evs"
| "bound_textures (e # evs) = bound_textures evs"

fun tex_images :: "gl_event list \<Rightarrow> (teximage_call \<times> 32 word) list" where
  "tex_images [] = []"
| "tex_images (Tex_Image c err # evs) = (c, err) # tex_images evs"
| "tex_images (e # evs) = tex_images evs"

fun plane_errors :: "gl_event list \<Rightarrow> nat list" where
  "plane_errors [] = []"
| "plane_errors (Log_osx (Msg_plane_error i err gl_err) # evs) = i # plane_errors evs"
| "plane_errors (e # evs) = plane_errors evs"

fun gen_calls :: "gl_event list \<Rightarrow> nat" where
  "gen_calls [] = 0"
| "gen_calls (Gen_Textures names # evs) = Suc (gen_calls evs)"
| "gen_calls (e # evs) = gen_calls evs"

text \<open>The planes whose attach call returned an error.\<close>

definition failed_planes :: "gl_event list \<Rightarrow> nat list" where
  "failed_planes evs = map (\<lambda>(c, err). ti_plane c) (filter (\<lambda>(c, err). err \<noteq> kCGLNoError) (tex_images evs))"

text \<open>The descriptor \<open>map_frame\<close> writes for plane \<open>i\<close> of a surface.\<close>

definition plane_desc :: "'w osx_platform \<Rightarrow> priv \<Rightarrow> handle \<Rightarrow> nat \<Rightarrow> gl_hwdec_plane" where
  "plane_desc P p surface i =
     \<lparr>gl_texture = gl_planes p i, gl_target = GL_TEXTURE_RECTANGLE,
      tex_w = size_to_int (IOSurfaceGetWidthOfPlane P surface i),
      tex_h = size_to_int (IOSurfaceGetHeightOfPlane P surface i)\<rparr>"

text \<open>The names one pass over the planes binds: the texture of each plane, then 0.\<close>

definition rebinds :: "priv \<Rightarrow> nat \<Rightarrow> 32 word list" where
  "rebinds p n = concat (map (\<lambda>i. [gl_planes p i, 0]) [0..<n])"

text \<open>
  A platform for concrete runs. A pixel buffer is described by \<open>bufs\<close>: its surface, its
  format, whether it is planar, its plane count. The attach call fails with error 10008
  for the planes in \<open>bad\<close>. \<open>GenTextures\<close> hands out the names 1, 2, 3, 4.
\<close>

record buffer_info =
  bi_surface :: handle
  bi_format :: "32 word"
  bi_planar :: bool
  bi_planes :: "64 word"

definition scenario_osx :: "(handle \<Rightarrow> buffer_info) \<Rightarrow> nat list \<Rightarrow> unit osx_platform" where
  "scenario_osx bufs bad =
     \<lparr>gl_version = 410,
      CGLGetCurrentContext = 1,
      GenTextures = (\<lambda>n w. (\<lambda>i. of_nat (i + 1), w)),
      BindTexture = (\<lambda>target name w. w),
      GetError = (\<lambda>w. (1281, w)),
      CVPixelBufferRelease = (\<lambda>h w. w),
      CVPixelBufferRetain = (\<lambda>h w. w),
      CVPixelBufferGetIOSurface = (\<lambda>h. bi_surface (bufs h)),
      CVPixelBufferGetPixelFormatType = (\<lambda>h. bi_format (bufs h)),
      CVPixelBufferIsPlanar = (\<lambda>h. bi_planar (bufs h)),
      CVPixelBufferGetPlaneCount = (\<lambda>h. bi_planes (bufs h)),
      IOSurfaceGetWidthOfPlane = (\<lambda>s i. if i = 0 then 1920 else 960),
      IOSurfaceGetHeightOfPlane = (\<lambda>s i. if i = 0 then 1080 else 540),
      CGLTexImageIOSurface2D =
        (\<lambda>c w. if ti_plane c \<in> set bad then (10008, w) else (kCGLNoError, w))\<rparr>"

text \<open>
  Buffers for concrete runs, by handle: 1 and 2 are bi-planar \<open>420v\<close> buffers, 3 is a
  \<open>2vuy\<close> buffer that reports itself planar with two planes, 4 has a format the table
  lacks, 5 has no surface, 6 is a \<open>420v\<close> buffer that reports three planes; any other
  handle is a non-planar \<open>BGRA\<close> buffer.
\<close>

definition scenario_bufs :: "handle \<Rightarrow> buffer_info" where
  "scenario_bufs h =
     (if h = 1 \<or> h = 2
      then \<lparr>bi_surface = 10 + h, bi_format = kCVPixelFormatType_420YpCbCr8BiPlanarVideoRange,
            bi_planar = True, bi_planes = 2\<rparr>
      else if h = 3
      then \<lparr>bi_surface = 13, bi_format = kCVPixelFormatType_422YpCbCr8,
            bi_planar = True, bi_planes = 2\<rparr>
      else if h = 4
      then \<lparr>bi_surface = 14, bi_format = 1380401729, bi_planar = False, bi_planes = 0\<rparr>
      else if h = 5
      then \<lparr>bi_surface = 0, bi_format = kCVPixelFormatType_32BGRA,
            bi_planar = False, bi_planes = 0\<rparr>
      else if h = 6
      then \<lparr>bi_surface = 16, bi_format = kCVPixelFormatType_420YpCbCr8BiPlanarVideoRange,
            bi_planar = True, bi_planes = 3\<rparr>
      else \<lparr>bi_surface = 10 + h, bi_format = kCVPixelFormatType_32BGRA,
            bi_planar = False, bi_planes = 0\<rparr>)"

definition empty_frame :: gl_hwdec_frame where
  "empty_frame =
     \<lparr>fr_planes = (\<lambda>i. \<lparr>gl_texture = 0, gl_target = 0, tex_w = 0, tex_h = 0\<rparr>),
      fr_swizzle = []\<rparr>"

definition zero_priv :: priv where
  "zero_priv = \<lparr>pbuf = 0, gl_planes = (\<lambda>i. of_nat (i + 1))\<rparr>"

section \<open>Properties of the device negotiation\<close>

subsection \<open>Traces and defaults\<close>

lemma emit_events [simp]: "snd (snd (emit evs r)) = evs @ snd (snd r)" "fst (emit evs r) = fst r"
  by (simp_all add: emit_def split: prod.splits)


lemma creation_calls_append [simp]: "creation_calls (xs @ ys) = creation_calls xs @ creation_calls ys"
  by (induction xs rule: creation_calls.induct) simp_all

lemma messages_append [simp]: "messages (xs @ ys) = messages xs @ messages ys"
  by (induction xs rule: messages.induct) simp_all

lemma count_list_append [simp]: "count_list (xs @ ys) x = count_list xs x + count_list ys x"
  by (induction xs) simp_all

lemma default_idem [simp]: "default_max (default_max m) = default_max m" "default_min (default_min m) = default_min m"
  "default_max D3D_FEATURE_LEVEL_11_1 = D3D_FEATURE_LEVEL_11_1"
  "default_max D3D_FEATURE_LEVEL_11_0 = D3D_FEATURE_LEVEL_11_0"
  by (simp_all add: default_max_def default_min_def fl_defs)

lemma default_values [simp]:
  "default_max 0 = D3D_FEATURE_LEVEL_11_0" "default_min 0 = D3D_FEATURE_LEVEL_9_1"
  "default_min D3D_FEATURE_LEVEL_9_1 = D3D_FEATURE_LEVEL_9_1"
  by (simp_all add: default_max_def default_min_def)


subsection \<open>The level window\<close>

lemma uint32_id: "0 \<le> x \<Longrightarrow> x < 2 ^ 32 \<Longrightarrow> uint32 x = x"
  by (simp add: uint32_def)

lemma uint32_levels [simp]:
  "uint32 D3D_FEATURE_LEVEL_12_0 = D3D_FEATURE_LEVEL_12_0"
  "uint32 D3D_FEATURE_LEVEL_11_1 = D3D_FEATURE_LEVEL_11_1"
  "uint32 D3D_FEATURE_LEVEL_11_0 = D3D_FEATURE_LEVEL_11_0"
  "uint32 D3D_FEATURE_LEVEL_9_1 = D3D_FEATURE_LEVEL_9_1"
  by (simp_all add: uint32_def fl_defs)

lemma start_loop_le: "start_loop max_fl start < levels_len \<Longrightarrow> levels ! start_loop max_fl start \<le> uint32 max_fl"
proof (induction max_fl start rule: start_loop.induct)
  case (1 max_fl start)
  then show ?case
    by (subst (asm) (2) start_loop.simps, subst start_loop.simps) (auto split: if_splits)
qed




lemma levels_sorted: "sorted_wrt (\<lambda>a b. b < a) levels"
  by (simp add: levels_def fl_defs)

lemma levels_nth_mono: "i \<le> j \<Longrightarrow> j < levels_len \<Longrightarrow> levels ! j \<le> levels ! i"
  using sorted_wrt_nth_less[OF levels_sorted, of i j]
  by (cases "i = j") (auto simp: levels_len_def)

lemma start_loop_first: "start \<le> i \<Longrightarrow> i < start_loop max_fl start \<Longrightarrow> uint32 max_fl < levels ! i"
proof (induction max_fl start rule: start_loop.induct)
  case (1 max_fl start)
  have unf: "start_loop max_fl start =
     (if start < levels_len
      then (if levels ! start \<le> uint32 max_fl then start else start_loop max_fl (start + 1))
      else start)" by (rule start_loop.simps)
  from "1.prems" have lt: "start < levels_len"
    by (cases "start < levels_len") (simp_all add: unf)
  from "1.prems" lt have gt: "\<not> levels ! start \<le> uint32 max_fl"
    by (cases "levels ! start \<le> uint32 max_fl") (simp_all add: unf)
  from lt gt have eq: "start_loop max_fl start = start_loop max_fl (start + 1)"
    by (simp add: unf)
  show ?case
  proof (cases "i = start")
    case True
    with gt show ?thesis by simp
  next
    case False
    with "1.prems" eq have "start + 1 \<le> i" "i < start_loop max_fl (start + 1)" by simp_all
    with "1.IH"[OF lt gt] show ?thesis by simp
  qed
qed

lemma len_loop_ge: "len \<le> len_loop min_fl start len"
  by (induction min_fl start len rule: len_loop.induct) (subst len_loop.simps, auto)

lemma len_loop_pos: "start < levels_len \<Longrightarrow> uint32 min_fl \<le> levels ! start \<Longrightarrow> 0 < len_loop min_fl start 0"
  using len_loop_ge[of 1 min_fl start]
  by (subst len_loop.simps) auto

lemma window_head:
  assumes "l \<in> set levels" "uint32 min_fl \<le> l" "l \<le> uint32 max_fl"
  shows "fst (get_feature_levels max_fl min_fl) \<noteq> 0 \<and>
         l \<le> hd (window max_fl min_fl) \<and> hd (window max_fl min_fl) \<le> uint32 max_fl"
proof -
  let ?s = "start_loop max_fl 0"
  from assms(1) obtain j where j: "j < levels_len" "levels ! j = l"
    by (auto simp: in_set_conv_nth levels_len_def)
  have sj: "?s \<le> j"
  proof (rule ccontr)
    assume "\<not> ?s \<le> j"
    then have "uint32 max_fl < levels ! j" using start_loop_first[of 0 j max_fl] by simp
    with j assms(3) show False by simp
  qed
  with j have s: "?s < levels_len" by simp
  have le: "levels ! ?s \<le> uint32 max_fl" using s by (rule start_loop_le)
  have ge: "l \<le> levels ! ?s" using levels_nth_mono[OF sj j(1)] j(2) by simp
  with assms(2) have "uint32 min_fl \<le> levels ! ?s" by simp
  with s have pos: "0 < len_loop min_fl ?s 0" by (rule len_loop_pos)
  have hd: "hd (window max_fl min_fl) = levels ! ?s"
    using pos s by (simp add: window_def get_feature_levels_def Let_def hd_drop_conv_nth levels_len_def)
  from pos le ge hd show ?thesis by (simp add: get_feature_levels_def Let_def)
qed

lemma levels_mem:
  "D3D_FEATURE_LEVEL_12_0 \<in> set levels" "D3D_FEATURE_LEVEL_11_1 \<in> set levels"
  "D3D_FEATURE_LEVEL_11_0 \<in> set levels" "D3D_FEATURE_LEVEL_9_1 \<in> set levels"
  by (simp_all add: levels_def)

lemma get_feature_levels_overlap:
  assumes "overlap max_fl min_fl"
  shows "fst (get_feature_levels max_fl min_fl) \<noteq> 0"
proof -
  from assms obtain l where "l \<in> set levels" "uint32 min_fl \<le> l" "l \<le> uint32 max_fl"
    by (auto simp: overlap_def list_ex_iff)
  then show ?thesis using window_head by blast
qed



subsection \<open>One pass of the loop\<close>

lemma create_loop_step:
  assumes "create_device f warp bgra (debug opts) (default_max max_fl) (default_min min_fl) dev w
           = ((hr, dev'), w', evs)"
  shows "create_loop f opts warp bgra max_fl min_fl dev w =
     (if SUCCEEDED hr then (Some (dev', warp), w', evs)
      else if bgra then
        emit (evs @ [Log Msg_bgra_failed])
          (create_loop f opts warp False (default_max max_fl) (default_min min_fl) dev' w')
      else if default_max max_fl \<ge> D3D_FEATURE_LEVEL_12_0 \<and> default_min min_fl \<le> D3D_FEATURE_LEVEL_11_1 then
        emit (evs @ [Log Msg_trying_11_1])
          (create_loop f opts warp True D3D_FEATURE_LEVEL_11_1 (default_min min_fl) dev' w')
      else if default_max max_fl \<ge> D3D_FEATURE_LEVEL_11_1 \<and> default_min min_fl \<le> D3D_FEATURE_LEVEL_11_0 then
        emit (evs @ [Log Msg_trying_11_0])
          (create_loop f opts warp True D3D_FEATURE_LEVEL_11_0 (default_min min_fl) dev' w')
      else if \<not> warp \<and> allow_warp opts then
        emit (evs @ [Log Msg_trying_WARP])
          (create_loop f opts True True (max_feature_level opts) (min_feature_level opts) dev' w')
      else (None, w', evs @ [Log (Msg_create_failed hr)]))"
  by (subst create_loop.simps) (simp add: Let_def assms)

lemma create_loop_induct2 [case_names step]:
  fixes opts :: d3d11_device_opts
  assumes step: "\<And>f (opts :: d3d11_device_opts) warp bgra max_fl min_fl dev w.
     (\<And>hr dev' w' evs. create_device f warp bgra (debug opts) (default_max max_fl) (default_min min_fl) dev w
           = ((hr, dev'), w', evs) \<Longrightarrow> \<not> SUCCEEDED hr \<Longrightarrow> bgra \<Longrightarrow>
        P f opts warp False (default_max max_fl) (default_min min_fl) dev' w') \<Longrightarrow>
     (\<And>hr dev' w' evs. create_device f warp bgra (debug opts) (default_max max_fl) (default_min min_fl) dev w
           = ((hr, dev'), w', evs) \<Longrightarrow> \<not> SUCCEEDED hr \<Longrightarrow> \<not> bgra \<Longrightarrow>
        default_max max_fl \<ge> D3D_FEATURE_LEVEL_12_0 \<Longrightarrow> default_min min_fl \<le> D3D_FEATURE_LEVEL_11_1 \<Longrightarrow>
        P f opts warp True D3D_FEATURE_LEVEL_11_1 (default_min min_fl) dev' w') \<Longrightarrow>
     (\<And>hr dev' w' evs. create_device f warp bgra (debug opts) (default_max max_fl) (default_min min_fl) dev w
           = ((hr, dev'), w', evs) \<Longrightarrow> \<not> SUCCEEDED hr \<Longrightarrow> \<not> bgra \<Longrightarrow>
        \<not> (default_max max_fl \<ge> D3D_FEATURE_LEVEL_12_0 \<and> default_min min_fl \<le> D3D_FEATURE_LEVEL_11_1) \<Longrightarrow>
        default_max max_fl \<ge> D3D_FEATURE_LEVEL_11_1 \<Longrightarrow> default_min min_fl \<le> D3D_FEATURE_LEVEL_11_0 \<Longrightarrow>
        P f opts warp True D3D_FEATURE_LEVEL_11_0 (default_min min_fl) dev' w') \<Longrightarrow>
     (\<And>hr dev' w' evs. create_device f warp bgra (debug opts) (default_max max_fl) (default_min min_fl) dev w
           = ((hr, dev'), w', evs) \<Longrightarrow> \<not> SUCCEEDED hr \<Longrightarrow> \<not> bgra \<Longrightarrow>
        \<not> (default_max max_fl \<ge> D3D_FEATURE_LEVEL_12_0 \<and> default_min min_fl \<le> D3D_FEATURE_LEVEL_11_1) \<Longrightarrow>
        \<not> (default_max max_fl \<ge> D3D_FEATURE_LEVEL_11_1 \<and> default_min min_fl \<le> D3D_FEATURE_LEVEL_11_0) \<Longrightarrow>
        \<not> warp \<Longrightarrow> allow_warp opts \<Longrightarrow>
        P f opts True True (max_feature_level opts) (min_feature_level opts) dev' w') \<Longrightarrow>
     P f opts warp bgra max_fl min_fl dev w"
  shows "P f opts warp bgra max_fl min_fl dev w"
proof (induction f opts warp bgra max_fl min_fl dev w rule: create_loop.induct)
  case (1 f opts warp bgra max_fl min_fl dev w)
  show ?case
  proof (rule step, goal_cases)
    case (1 hr dev' w' evs)
    then show ?case using "1.IH"(1)[OF refl refl refl, of "(hr, dev')" "(w', evs)" hr dev'] by simp
  next
    case (2 hr dev' w' evs)
    then show ?case using "1.IH"(2)[OF refl refl refl, of "(hr, dev')" "(w', evs)" hr dev'] by simp
  next
    case (3 hr dev' w' evs)
    then show ?case using "1.IH"(3)[OF refl refl refl, of "(hr, dev')" "(w', evs)" hr dev'] by simp
  next
    case (4 hr dev' w' evs)
    then show ?case using "1.IH"(4)[OF refl refl refl, of "(hr, dev')" "(w', evs)" hr dev'] by simp
  qed
qed

lemma device_flags_bgra: "(device_flags bgra dbg AND D3D11_CREATE_DEVICE_BGRA_SUPPORT = 0) = (\<not> bgra)"
  by (simp add: device_flags_def D3D11_CREATE_DEVICE_BGRA_SUPPORT_def D3D11_CREATE_DEVICE_DEBUG_def)

lemma create_device_call:
  assumes "fst (get_feature_levels max_fl min_fl) \<noteq> 0"
  shows "create_device f warp bgra dbg max_fl min_fl dev w =
     (fst (f (attempt warp bgra dbg max_fl min_fl) w), snd (f (attempt warp bgra dbg max_fl min_fl) w),
      [Create_Device (attempt warp bgra dbg max_fl min_fl) (fst (fst (f (attempt warp bgra dbg max_fl min_fl) w)))])"
  using assms
  by (cases "get_feature_levels max_fl min_fl")
     (simp add: create_device_def attempt_def window_def device_flags_def Let_def split: prod.splits)

lemma create_loop_call:
  assumes "fst (get_feature_levels (default_max max_fl) (default_min min_fl)) \<noteq> 0"
  shows "create_loop f opts warp bgra max_fl min_fl dev w =
     (let c = attempt warp bgra (debug opts) (default_max max_fl) (default_min min_fl);
          hr = fst (fst (f c w)); dev' = snd (fst (f c w)); w' = snd (f c w);
          evs = [Create_Device c hr]
      in if SUCCEEDED hr then (Some (dev', warp), w', evs)
      else if bgra then
        emit (evs @ [Log Msg_bgra_failed])
          (create_loop f opts warp False (default_max max_fl) (default_min min_fl) dev' w')
      else if default_max max_fl \<ge> D3D_FEATURE_LEVEL_12_0 \<and> default_min min_fl \<le> D3D_FEATURE_LEVEL_11_1 then
        emit (evs @ [Log Msg_trying_11_1])
          (create_loop f opts warp True D3D_FEATURE_LEVEL_11_1 (default_min min_fl) dev' w')
      else if default_max max_fl \<ge> D3D_FEATURE_LEVEL_11_1 \<and> default_min min_fl \<le> D3D_FEATURE_LEVEL_11_0 then
        emit (evs @ [Log Msg_trying_11_0])
          (create_loop f opts warp True D3D_FEATURE_LEVEL_11_0 (default_min min_fl) dev' w')
      else if \<not> warp \<and> allow_warp opts then
        emit (evs @ [Log Msg_trying_WARP])
          (create_loop f opts True True (max_feature_level opts) (min_feature_level opts) dev' w')
      else (None, w', evs @ [Log (Msg_create_failed hr)]))"
  unfolding Let_def
  by (rule create_loop_step) (simp add: create_device_call[OF assms])

lemma create_device_events:
  "snd (snd (create_device f warp bgra dbg max_fl min_fl dev w)) = [Log Msg_no_suitable_level] \<or>
   (\<exists>c hr. snd (snd (create_device f warp bgra dbg max_fl min_fl dev w)) = [Create_Device c hr])"
  by (simp add: create_device_def Let_def split: prod.splits)

lemma present_device_success:
  fixes opts :: d3d11_device_opts and P :: "'w d3d11_platform"
  assumes loaded: "pD3D11CreateDevice P = Some f"
    and loop: "create_loop f opts (force_warp opts) True (max_feature_level opts)
                 (min_feature_level opts) 0 w = (Some (dev, warp), w1, evs)"
    and query_ok: "\<forall>h w. \<not> FAILED (fst (fst (QueryInterface_IDXGIDevice1 P h w)))"
    and parent_ok: "\<forall>h w. \<not> FAILED (fst (fst (GetParent_IDXGIAdapter1 P h w)))"
    and desc_ok: "\<forall>h w. \<not> FAILED (fst (fst (GetDesc1 P h w)))"
  shows "\<exists>w' evs'. mp_d3d11_create_present_device P opts w = (Some dev, w', evs @ evs') \<and>
           creation_calls evs' = []"
proof -
  obtain hr1 h1 w2 where q: "QueryInterface_IDXGIDevice1 P dev w1 = ((hr1, h1), w2)"
    by (metis prod.exhaust)
  have q': "\<not> FAILED hr1" using query_ok[rule_format, of dev w1] q by simp
  obtain hr2 h2 w3 where g: "GetParent_IDXGIAdapter1 P h1 w2 = ((hr2, h2), w3)"
    by (metis prod.exhaust)
  have g': "\<not> FAILED hr2" using parent_ok[rule_format, of h1 w2] g by simp
  let ?w4 = "SetMaximumFrameLatency P h1 (max_frame_latency opts) w3"
  obtain hr3 desc w5 where d: "GetDesc1 P h2 ?w4 = ((hr3, desc), w5)"
    by (metis prod.exhaust)
  have d': "\<not> FAILED hr3" using desc_ok[rule_format, of h2 ?w4] d by simp
  show ?thesis
    by (simp add: mp_d3d11_create_present_device_def loaded loop q q' g g' d d' Let_def)
qed

lemma present_device_events:
  fixes opts :: d3d11_device_opts and P :: "'w d3d11_platform"
  assumes "pD3D11CreateDevice P = Some f"
  shows "\<exists>extra. snd (snd (mp_d3d11_create_present_device P opts w)) =
           snd (snd (create_loop f opts (force_warp opts) True (max_feature_level opts)
             (min_feature_level opts) 0 w)) @ extra \<and>
           creation_calls extra = [] \<and>
           set (messages extra) \<inter> {Msg_bgra_failed, Msg_trying_11_1, Msg_trying_11_0,
              Msg_trying_WARP, Msg_no_suitable_level} = {}"
  using assms
  by (auto simp: mp_d3d11_create_present_device_def Let_def split: prod.splits option.splits)

lemma present_device_cong:
  fixes o1 o2 :: d3d11_device_opts and P :: "'w d3d11_platform"
  assumes lat: "max_frame_latency o1 = max_frame_latency o2"
    and loop: "\<And>f. create_loop f o1 (force_warp o1) True (max_feature_level o1)
                   (min_feature_level o1) 0 w =
                 create_loop f o2 (force_warp o2) True (max_feature_level o2)
                   (min_feature_level o2) 0 w"
  shows "mp_d3d11_create_present_device P o1 w = mp_d3d11_create_present_device P o2 w"
  unfolding mp_d3d11_create_present_device_def lat loop by (rule refl)

subsection \<open>Bounds on the retry loop\<close>

lemma caps_ahead_after [simp]: "caps_ahead D3D_FEATURE_LEVEL_11_0 mn = 0"
  by (simp add: caps_ahead_def fl_defs)

lemma loop_single_pass:
  fixes opts :: d3d11_device_opts
  assumes "warp \<or> \<not> allow_warp opts"
  shows "Log Msg_trying_WARP \<notin> set (snd (snd (create_loop f opts warp bgra max_fl min_fl dev w))) \<and>
         pass_within
           (caps_ahead (default_max max_fl) (default_min min_fl) + (if bgra then 1 else 0))
           (if caps_ahead (default_max max_fl) (default_min min_fl) = 2 then 1 else 0)
           (if caps_ahead (default_max max_fl) (default_min min_fl) \<ge> 1 then 1 else 0)
           (2 * caps_ahead (default_max max_fl) (default_min min_fl) + (if bgra then 1 else 0) + 1)
           (snd (snd (create_loop f opts warp bgra max_fl min_fl dev w)))"
  using assms
proof (induction f opts warp bgra max_fl min_fl dev w rule: create_loop_induct2)
  case (step f opts warp bgra max_fl min_fl dev w)
  obtain hr dev' w' evs where cd:
    "create_device f warp bgra (debug opts) (default_max max_fl) (default_min min_fl) dev w
       = ((hr, dev'), w', evs)"
    by (metis prod.exhaust)
  from create_device_events[of f warp bgra "debug opts" "default_max max_fl" "default_min min_fl" dev w] cd
  have evs: "evs = [Log Msg_no_suitable_level] \<or> (\<exists>c hr. evs = [Create_Device c hr])"
    by simp
  note unf = create_loop_step[OF cd]
  note IH = step.IH[OF cd]
  let ?k = "caps_ahead (default_max max_fl) (default_min min_fl)"
  have k: "?k = 0 \<or> ?k = 1 \<or> ?k = 2" by (simp add: caps_ahead_def)
  consider (ok) "SUCCEEDED hr"
    | (bgra) "\<not> SUCCEEDED hr" bgra
    | (c1) "\<not> SUCCEEDED hr" "\<not> bgra" "?k = 2"
    | (c0) "\<not> SUCCEEDED hr" "\<not> bgra" "?k = 1"
    | (fail) "\<not> SUCCEEDED hr" "\<not> bgra" "?k = 0"
    using k by fastforce
  then show ?case
  proof cases
    case ok
    then show ?thesis using evs unfolding unf by (auto simp: pass_within_def)
  next
    case bgra
    with IH(1) step.prems evs show ?thesis
      unfolding unf by (auto simp: pass_within_def emit_def split: prod.splits)
  next
    case c1
    then have cond: "D3D_FEATURE_LEVEL_12_0 \<le> default_max max_fl" "default_min min_fl \<le> D3D_FEATURE_LEVEL_11_1"
      by (auto simp: caps_ahead_def split: if_splits)
    have k1: "caps_ahead D3D_FEATURE_LEVEL_11_1 (default_min min_fl) \<le> 1"
      by (simp add: caps_ahead_def fl_defs)
    from c1 cond IH(2) step.prems evs k1 show ?thesis
      unfolding unf by (auto simp: pass_within_def emit_def split: prod.splits if_splits)
  next
    case c0
    then have cond: "\<not> (D3D_FEATURE_LEVEL_12_0 \<le> default_max max_fl \<and> default_min min_fl \<le> D3D_FEATURE_LEVEL_11_1)"
       "D3D_FEATURE_LEVEL_11_1 \<le> default_max max_fl" "default_min min_fl \<le> D3D_FEATURE_LEVEL_11_0"
      by (auto simp: caps_ahead_def split: if_splits)
    from c0 cond IH(3) step.prems evs show ?thesis
      unfolding unf by (auto simp: pass_within_def emit_def split: prod.splits if_splits)
  next
    case fail
    then have cond: "\<not> (D3D_FEATURE_LEVEL_12_0 \<le> default_max max_fl \<and> default_min min_fl \<le> D3D_FEATURE_LEVEL_11_1)"
       "\<not> (D3D_FEATURE_LEVEL_11_1 \<le> default_max max_fl \<and> default_min min_fl \<le> D3D_FEATURE_LEVEL_11_0)"
      by (auto simp: caps_ahead_def split: if_splits)
    from fail cond step.prems evs show ?thesis
      unfolding unf by (auto simp: pass_within_def)
  qed
qed

lemma first_pass_simps [simp]:
  "first_pass [] = []"
  "first_pass (Log Msg_trying_WARP # evs) = []"
  "e \<noteq> Log Msg_trying_WARP \<Longrightarrow> first_pass (e # evs) = e # first_pass evs"
  by (simp_all add: first_pass_def)

lemma second_pass_simps [simp]:
  "second_pass [] = []"
  "second_pass (Log Msg_trying_WARP # evs) = evs"
  "e \<noteq> Log Msg_trying_WARP \<Longrightarrow> second_pass (e # evs) = second_pass evs"
  by (simp_all add: second_pass_def)

lemma no_switch_passes:
  "Log Msg_trying_WARP \<notin> set evs \<Longrightarrow> first_pass evs = evs \<and> second_pass evs = []"
  by (induction evs) auto

lemma pass_within_mono:
  "pass_within a b c d evs \<Longrightarrow> a \<le> a' \<Longrightarrow> b \<le> b' \<Longrightarrow> c \<le> c' \<Longrightarrow> d \<le> d' \<Longrightarrow>
   pass_within a' b' c' d' evs"
  by (simp add: pass_within_def)

lemma count_WARP_messages:
  "Log Msg_trying_WARP \<notin> set evs \<Longrightarrow> count_list (messages evs) Msg_trying_WARP = 0"
  by (induction evs rule: messages.induct) auto

lemma loop_two_passes:
  fixes opts :: d3d11_device_opts
  shows "pass_within
           (caps_ahead (default_max max_fl) (default_min min_fl) + (if bgra then 1 else 0))
           (if caps_ahead (default_max max_fl) (default_min min_fl) = 2 then 1 else 0)
           (if caps_ahead (default_max max_fl) (default_min min_fl) \<ge> 1 then 1 else 0)
           (2 * caps_ahead (default_max max_fl) (default_min min_fl) + (if bgra then 1 else 0) + 1)
           (first_pass (snd (snd (create_loop f opts warp bgra max_fl min_fl dev w)))) \<and>
         pass_within 3 1 1 6
           (second_pass (snd (snd (create_loop f opts warp bgra max_fl min_fl dev w)))) \<and>
         count_list (messages (snd (snd (create_loop f opts warp bgra max_fl min_fl dev w))))
           Msg_trying_WARP \<le> 1"
proof (induction f opts warp bgra max_fl min_fl dev w rule: create_loop_induct2)
  case (step f opts warp bgra max_fl min_fl dev w)
  obtain hr dev' w' evs where cd:
    "create_device f warp bgra (debug opts) (default_max max_fl) (default_min min_fl) dev w
       = ((hr, dev'), w', evs)"
    by (metis prod.exhaust)
  from create_device_events[of f warp bgra "debug opts" "default_max max_fl" "default_min min_fl" dev w] cd
  have evs: "evs = [Log Msg_no_suitable_level] \<or> (\<exists>c hr. evs = [Create_Device c hr])"
    by simp
  note unf = create_loop_step[OF cd]
  note IH = step.IH[OF cd]
  let ?k = "caps_ahead (default_max max_fl) (default_min min_fl)"
  have k: "?k = 0 \<or> ?k = 1 \<or> ?k = 2" by (simp add: caps_ahead_def)
  consider (ok) "SUCCEEDED hr"
    | (bgra) "\<not> SUCCEEDED hr" bgra
    | (c1) "\<not> SUCCEEDED hr" "\<not> bgra" "?k = 2"
    | (c0) "\<not> SUCCEEDED hr" "\<not> bgra" "?k = 1"
    | (switch) "\<not> SUCCEEDED hr" "\<not> bgra" "?k = 0" "\<not> warp \<and> allow_warp opts"
    | (fail) "\<not> SUCCEEDED hr" "\<not> bgra" "?k = 0" "\<not> (\<not> warp \<and> allow_warp opts)"
    using k by fastforce
  then show ?case
  proof cases
    case ok
    then show ?thesis using evs unfolding unf by (auto simp: pass_within_def)
  next
    case bgra
    with IH(1) evs show ?thesis
      unfolding unf by (auto simp: pass_within_def emit_def split: prod.splits)
  next
    case c1
    then have cond: "D3D_FEATURE_LEVEL_12_0 \<le> default_max max_fl" "default_min min_fl \<le> D3D_FEATURE_LEVEL_11_1"
      by (auto simp: caps_ahead_def split: if_splits)
    have k1: "caps_ahead D3D_FEATURE_LEVEL_11_1 (default_min min_fl) \<le> 1"
      by (simp add: caps_ahead_def fl_defs)
    from c1 cond IH(2) evs k1 show ?thesis
      unfolding unf by (auto simp: pass_within_def emit_def split: prod.splits if_splits)
  next
    case c0
    then have cond: "\<not> (D3D_FEATURE_LEVEL_12_0 \<le> default_max max_fl \<and> default_min min_fl \<le> D3D_FEATURE_LEVEL_11_1)"
       "D3D_FEATURE_LEVEL_11_1 \<le> default_max max_fl" "default_min min_fl \<le> D3D_FEATURE_LEVEL_11_0"
      by (auto simp: caps_ahead_def split: if_splits)
    from c0 cond IH(3) evs show ?thesis
      unfolding unf by (auto simp: pass_within_def emit_def split: prod.splits if_splits)
  next
    case switch
    then have cond: "\<not> (D3D_FEATURE_LEVEL_12_0 \<le> default_max max_fl \<and> default_min min_fl \<le> D3D_FEATURE_LEVEL_11_1)"
       "\<not> (D3D_FEATURE_LEVEL_11_1 \<le> default_max max_fl \<and> default_min min_fl \<le> D3D_FEATURE_LEVEL_11_0)"
      by (auto simp: caps_ahead_def split: if_splits)
    let ?rest = "snd (snd (create_loop f opts True True (max_feature_level opts)
                   (min_feature_level opts) dev' w'))"
    let ?k' = "caps_ahead (default_max (max_feature_level opts)) (default_min (min_feature_level opts))"
    have k': "?k' \<le> 2" by (simp add: caps_ahead_def)
    from loop_single_pass[of True opts f True "max_feature_level opts" "min_feature_level opts" dev' w']
    have sp: "Log Msg_trying_WARP \<notin> set ?rest"
      "pass_within (?k' + 1) (if ?k' = 2 then 1 else 0) (if ?k' \<ge> 1 then 1 else 0) (2 * ?k' + 1 + 1) ?rest"
      by simp_all
    have pw: "pass_within 3 1 1 6 ?rest"
      using k' by (intro pass_within_mono[OF sp(2)]) simp_all
    have whole: "snd (snd (create_loop f opts warp bgra max_fl min_fl dev w)) =
                 evs @ Log Msg_trying_WARP # ?rest"
      using switch cond unfolding unf by (simp add: emit_def split: prod.splits)
    from evs sp(1) pw show ?thesis
      unfolding whole by (auto simp: pass_within_def count_WARP_messages)
  next
    case fail
    then have cond: "\<not> (D3D_FEATURE_LEVEL_12_0 \<le> default_max max_fl \<and> default_min min_fl \<le> D3D_FEATURE_LEVEL_11_1)"
       "\<not> (D3D_FEATURE_LEVEL_11_1 \<le> default_max max_fl \<and> default_min min_fl \<le> D3D_FEATURE_LEVEL_11_0)"
      by (auto simp: caps_ahead_def split: if_splits)
    from fail cond evs show ?thesis
      unfolding unf by (auto simp: pass_within_def)
  qed
qed

lemma passes_append_quiet:
  assumes "Log Msg_trying_WARP \<notin> set extra"
  shows "first_pass (evs @ extra) =
           (if Log Msg_trying_WARP \<in> set evs then first_pass evs else evs @ extra)"
    and "second_pass (evs @ extra) =
           (if Log Msg_trying_WARP \<in> set evs then second_pass evs @ extra else [])"
proof -
  have "first_pass (evs @ extra) =
           (if Log Msg_trying_WARP \<in> set evs then first_pass evs else evs @ extra) \<and>
        second_pass (evs @ extra) =
           (if Log Msg_trying_WARP \<in> set evs then second_pass evs @ extra else [])"
  proof (induction evs)
    case Nil
    show ?case using assms by (simp add: no_switch_passes)
  next
    case (Cons e evs)
    then show ?case by (cases "e = Log Msg_trying_WARP") simp_all
  qed
  then show "first_pass (evs @ extra) =
           (if Log Msg_trying_WARP \<in> set evs then first_pass evs else evs @ extra)"
    and "second_pass (evs @ extra) =
           (if Log Msg_trying_WARP \<in> set evs then second_pass evs @ extra else [])"
    by simp_all
qed

lemma calls_by_pass:
  "length (creation_calls evs) =
     length (creation_calls (first_pass evs)) + length (creation_calls (second_pass evs))"
proof (induction evs)
  case Nil
  show ?case by simp
next
  case (Cons e evs)
  then show ?case
    by (cases "e = Log Msg_trying_WARP"; cases e) auto
qed

lemma pass_within_quiet:
  assumes "creation_calls extra = []"
    and "set (messages extra) \<inter> {Msg_bgra_failed, Msg_trying_11_1, Msg_trying_11_0,
              Msg_trying_WARP, Msg_no_suitable_level} = {}"
  shows "pass_within a b c d (evs @ extra) = pass_within a b c d evs"
  using assms by (simp add: pass_within_def count_list_0_iff)

lemma quiet_no_switch:
  assumes "set (messages extra) \<inter> {Msg_bgra_failed, Msg_trying_11_1, Msg_trying_11_0,
              Msg_trying_WARP, Msg_no_suitable_level} = {}"
  shows "Log Msg_trying_WARP \<notin> set extra"
proof
  assume "Log Msg_trying_WARP \<in> set extra"
  then have "Msg_trying_WARP \<in> set (messages extra)"
    by (induction extra rule: messages.induct) auto
  with assms show False by auto
qed

text \<open>
  C2, as amended. The loop is a total function (its termination is proved with
  \<open>loop_variant\<close>), and for every platform, world and options: in each pass the cap to
  11\_1 and the cap to 11\_0 are applied at most once, BGRA is switched off at most three
  times (once for each maximum level of the pass) and at most 6 creation calls are made;
  the switch to WARP happens at most once; at most 12 creation calls are made in all.
\<close>

theorem retry_loop_bounded:
  fixes opts :: d3d11_device_opts and P :: "'w d3d11_platform"
  shows "pass_within 3 1 1 6 (first_pass (snd (snd (mp_d3d11_create_present_device P opts w)))) \<and>
         pass_within 3 1 1 6 (second_pass (snd (snd (mp_d3d11_create_present_device P opts w)))) \<and>
         count_list (messages (snd (snd (mp_d3d11_create_present_device P opts w))))
            Msg_trying_WARP \<le> 1 \<and>
         length (creation_calls (snd (snd (mp_d3d11_create_present_device P opts w)))) \<le> 12"
proof -
  let ?evs = "snd (snd (mp_d3d11_create_present_device P opts w))"
  have main: "pass_within 3 1 1 6 (first_pass ?evs) \<and> pass_within 3 1 1 6 (second_pass ?evs) \<and>
              count_list (messages ?evs) Msg_trying_WARP \<le> 1"
  proof (cases "pD3D11CreateDevice P")
    case None
    then show ?thesis
      by (simp add: mp_d3d11_create_present_device_def pass_within_def)
  next
    case (Some f)
    let ?loop = "snd (snd (create_loop f opts (force_warp opts) True (max_feature_level opts)
             (min_feature_level opts) 0 w))"
    from present_device_events[OF Some, of opts w]
    obtain extra where e: "?evs = ?loop @ extra" and q1: "creation_calls extra = []"
      and q2: "set (messages extra) \<inter> {Msg_bgra_failed, Msg_trying_11_1, Msg_trying_11_0,
              Msg_trying_WARP, Msg_no_suitable_level} = {}"
      by blast
    note ns = quiet_no_switch[OF q2]
    let ?k = "caps_ahead (default_max (max_feature_level opts)) (default_min (min_feature_level opts))"
    have k: "?k \<le> 2" by (simp add: caps_ahead_def)
    from loop_two_passes[of "max_feature_level opts" "min_feature_level opts" True f opts
        "force_warp opts" 0 w]
    have l1: "pass_within (?k + 1) (if ?k = 2 then 1 else 0) (if ?k \<ge> 1 then 1 else 0)
                (2 * ?k + 1 + 1) (first_pass ?loop)"
      and l2: "pass_within 3 1 1 6 (second_pass ?loop)"
      and l3: "count_list (messages ?loop) Msg_trying_WARP \<le> 1"
      by simp_all
    have f1: "pass_within 3 1 1 6 (first_pass ?loop)"
      using k by (intro pass_within_mono[OF l1]) simp_all
    have c: "count_list (messages extra) Msg_trying_WARP = 0"
      using q2 by (simp add: count_list_0_iff)
    show ?thesis
    proof (cases "Log Msg_trying_WARP \<in> set ?loop")
      case True
      with f1 l2 l3 c show ?thesis
        unfolding e by (simp add: passes_append_quiet[OF ns] pass_within_quiet[OF q1 q2])
    next
      case False
      have nil: "pass_within 3 1 1 6 []" by (simp add: pass_within_def)
      from False f1 l3 c nil show ?thesis
        unfolding e
        by (simp add: passes_append_quiet[OF ns] pass_within_quiet[OF q1 q2] no_switch_passes)
    qed
  qed
  then have "length (creation_calls ?evs) \<le> 12"
    using calls_by_pass[of ?evs] by (simp add: pass_within_def)
  with main show ?thesis by simp
qed

theorem retry_loop_bounded_witness:
  "pass_within 3 1 1 6 (first_pass (snd (snd
     (mp_d3d11_create_present_device (scenario_platform (\<lambda>c. False)) opts_12_1 ())))) \<and>
   pass_within 3 1 1 6 (second_pass (snd (snd
     (mp_d3d11_create_present_device (scenario_platform (\<lambda>c. False)) opts_12_1 ())))) \<and>
   count_list (messages (snd (snd
     (mp_d3d11_create_present_device (scenario_platform (\<lambda>c. False)) opts_12_1 ()))))
     Msg_trying_WARP \<le> 1 \<and>
   length (creation_calls (snd (snd
     (mp_d3d11_create_present_device (scenario_platform (\<lambda>c. False)) opts_12_1 ())))) \<le> 12"
  using retry_loop_bounded [of "scenario_platform (\<lambda>c. False)" opts_12_1 "()"]
  by simp

text \<open>
  C2 as stated says that each fallback step, switching BGRA off included, is taken at most
  once in a pass. On a platform where every creation fails, with the window from 12\_1
  down to 9\_1, BGRA is switched off three times before the switch to WARP.
\<close>

theorem bgra_switched_off_thrice_in_one_pass:
  "count_list (messages (first_pass (snd (snd
     (mp_d3d11_create_present_device (scenario_platform (\<lambda>c. False)) opts_12_1 ())))))
     Msg_bgra_failed = 3 \<and>
   \<not> pass_within 1 1 1 6 (first_pass (snd (snd
     (mp_d3d11_create_present_device (scenario_platform (\<lambda>c. False)) opts_12_1 ()))))"
  by code_simp

text \<open>The bound of 12 creation calls is reached on that run.\<close>

lemma retry_loop_bound_reached:
  "length (creation_calls (snd (snd
     (mp_d3d11_create_present_device (scenario_platform (\<lambda>c. False)) opts_12_1 ())))) = 12"
  by code_simp

subsection \<open>A window without a level\<close>





subsection \<open>Success after a cap\<close>

text \<open>
  C1 as stated: two failed calls at \<open>tier_A\<close>, then success at \<open>tier_B\<close> without BGRA,
  for any \<open>tier_B\<close> between the bounds. With the window from 12\_1 down to 9\_1 and a
  platform that creates only at 11\_1 without BGRA, three calls fail before the one that
  succeeds: after the cap the loop first asks for 11\_1 with BGRA again. On a platform
  that creates only at 10\_0 without BGRA the negotiation fails after 12 calls: the loop
  never lowers the maximum to 10\_0.
\<close>

theorem three_failures_before_success:
  "map (\<lambda>(c, hr). (hd (cc_levels c), cc_flags c, SUCCEEDED hr))
     (creation_calls (snd (snd (mp_d3d11_create_present_device
        (scenario_platform (only_at D3D_FEATURE_LEVEL_11_1)) opts_12_1 ())))) =
     [(D3D_FEATURE_LEVEL_12_1, 32, False), (D3D_FEATURE_LEVEL_12_1, 0, False),
      (D3D_FEATURE_LEVEL_11_1, 32, False), (D3D_FEATURE_LEVEL_11_1, 0, True)] \<and>
   fst (mp_d3d11_create_present_device
        (scenario_platform (only_at D3D_FEATURE_LEVEL_10_0)) opts_12_1 ()) = None \<and>
   length (creation_calls (snd (snd (mp_d3d11_create_present_device
        (scenario_platform (only_at D3D_FEATURE_LEVEL_10_0)) opts_12_1 ())))) = 12"
  by code_simp

text \<open>
  C1, as amended. The requested window is \<open>[tier_A, tier_1]\<close>, C \<open>int\<close>s with \<open>tier_1\<close>
  not negative, and \<open>tier_B\<close> is the level the loop caps \<open>tier_A\<close> to (11\_1 for
  \<open>tier_A\<close> from 12\_0 up, 11\_0 for \<open>tier_A\<close> from 11\_1 up to below 12\_0, with \<open>tier_1\<close>
  at or below \<open>tier_B\<close>). The platform creates a device only when the highest level it
  is asked for is \<open>tier_B\<close> and BGRA support is not requested; the queries on the created
  device succeed. Then the function returns true, after exactly three failed creation
  calls: the window from \<open>tier_A\<close> with BGRA and without it (both start above
  \<open>tier_B\<close>), then the window from \<open>tier_B\<close> with BGRA re-enabled; the fourth call, the
  window from \<open>tier_B\<close> without BGRA, succeeds.
\<close>

theorem succeeds_at_tier_B:
  fixes opts :: d3d11_device_opts and P :: "'w d3d11_platform"
  assumes loaded: "pD3D11CreateDevice P = Some f"
    and cap: "first_cap (max_feature_level opts) (default_min (min_feature_level opts))
                = Some tier_B"
    and tier_A: "c_int (max_feature_level opts)"
    and tier_1: "0 \<le> min_feature_level opts"
    and only_B: "\<forall>c w. SUCCEEDED (fst (fst (f c w))) = only_at tier_B c"
    and query_ok: "\<forall>h w. \<not> FAILED (fst (fst (QueryInterface_IDXGIDevice1 P h w)))"
    and parent_ok: "\<forall>h w. \<not> FAILED (fst (fst (GetParent_IDXGIAdapter1 P h w)))"
    and desc_ok: "\<forall>h w. \<not> FAILED (fst (fst (GetDesc1 P h w)))"
  shows "fst (mp_d3d11_create_present_device P opts w) \<noteq> None \<and>
         map fst (creation_calls (snd (snd (mp_d3d11_create_present_device P opts w)))) =
             [attempt (force_warp opts) True (debug opts) (max_feature_level opts)
                (default_min (min_feature_level opts)),
              attempt (force_warp opts) False (debug opts) (max_feature_level opts)
                (default_min (min_feature_level opts)),
              attempt (force_warp opts) True (debug opts) tier_B
                (default_min (min_feature_level opts)),
              attempt (force_warp opts) False (debug opts) tier_B
                (default_min (min_feature_level opts))] \<and>
         map (\<lambda>(c, hr). SUCCEEDED hr)
             (creation_calls (snd (snd (mp_d3d11_create_present_device P opts w)))) =
             [False, False, False, True] \<and>
         tier_B < hd (window (max_feature_level opts)
                (default_min (min_feature_level opts))) \<and>
         hd (window tier_B (default_min (min_feature_level opts))) = tier_B"
proof -
  let ?A = "max_feature_level opts"
  let ?mn = "default_min (min_feature_level opts)"
  let ?wp = "force_warp opts"
  let ?dbg = "debug opts"
  let ?B = tier_B
  define T where "T = (if ?B = D3D_FEATURE_LEVEL_11_1 then D3D_FEATURE_LEVEL_12_0
                       else D3D_FEATURE_LEVEL_11_1)"
  define msg where "msg = (if ?B = D3D_FEATURE_LEVEL_11_1 then Msg_trying_11_1
                           else Msg_trying_11_0)"
  have B: "?B = D3D_FEATURE_LEVEL_11_1 \<or> ?B = D3D_FEATURE_LEVEL_11_0"
    using cap by (auto simp: first_cap_def split: if_splits)
  have T: "T \<in> set levels" "?B < T" "T \<le> ?A" "0 \<le> T"
    using cap by (auto simp: T_def first_cap_def levels_def fl_defs split: if_splits)
  have Bl: "?B \<in> set levels" "0 \<le> ?B" "?B < 2 ^ 32"
    using B by (auto simp: levels_def fl_defs)
  have mnB: "?mn \<le> ?B"
    using cap by (auto simp: first_cap_def fl_defs split: if_splits)
  have mn0: "0 \<le> ?mn" using tier_1 by (simp add: default_min_def fl_defs)
  have uA: "uint32 ?A = ?A"
    using T(3,4) tier_A by (intro uint32_id) (simp_all add: c_int_def)
  have umn: "uint32 ?mn = ?mn"
    using mn0 mnB Bl(3) by (intro uint32_id) simp_all
  have uB: "uint32 ?B = ?B" using Bl by (intro uint32_id) simp_all
  have dA: "default_max ?A = ?A" using T(3,4) T(2) Bl(2) by (simp add: default_max_def)
  have dB: "default_max ?B = ?B" using B by (auto simp: default_max_def fl_defs)
  have winA: "fst (get_feature_levels ?A ?mn) \<noteq> 0" "?B < hd (window ?A ?mn)"
    using window_head[OF T(1), of ?mn ?A] T(2,3) mnB uA umn by simp_all
  have winB: "fst (get_feature_levels ?B ?mn) \<noteq> 0" "hd (window ?B ?mn) = ?B"
    using window_head[OF Bl(1), of ?mn ?B] mnB uB umn by simp_all
  let ?c1 = "attempt ?wp True ?dbg ?A ?mn"
  let ?c2 = "attempt ?wp False ?dbg ?A ?mn"
  let ?c3 = "attempt ?wp True ?dbg ?B ?mn"
  let ?c4 = "attempt ?wp False ?dbg ?B ?mn"
  let ?w1 = "snd (f ?c1 w)"
  let ?w2 = "snd (f ?c2 ?w1)"
  let ?w3 = "snd (f ?c3 ?w2)"
  let ?w4 = "snd (f ?c4 ?w3)"
  have f1: "\<not> SUCCEEDED (fst (fst (f ?c1 w)))"
    using winA(2) only_B by (simp add: only_at_def attempt_def)
  have f2: "\<not> SUCCEEDED (fst (fst (f ?c2 ?w1)))"
    using winA(2) only_B by (simp add: only_at_def attempt_def)
  have f3: "\<not> SUCCEEDED (fst (fst (f ?c3 ?w2)))"
    using only_B by (simp add: only_at_def attempt_def device_flags_bgra)
  have f4: "SUCCEEDED (fst (fst (f ?c4 ?w3)))"
    using winB(2) only_B by (simp add: only_at_def attempt_def device_flags_bgra)
  have s4: "create_loop f opts ?wp False ?B ?mn (snd (fst (f ?c3 ?w2))) ?w3 =
            (Some (snd (fst (f ?c4 ?w3)), ?wp), ?w4, [Create_Device ?c4 (fst (fst (f ?c4 ?w3)))])"
    using f4 winB(1) by (subst create_loop_call) (simp_all add: Let_def dB)
  have s3: "create_loop f opts ?wp True ?B ?mn (snd (fst (f ?c2 ?w1))) ?w2 =
            (Some (snd (fst (f ?c4 ?w3)), ?wp), ?w4,
             [Create_Device ?c3 (fst (fst (f ?c3 ?w2))), Log Msg_bgra_failed,
              Create_Device ?c4 (fst (fst (f ?c4 ?w3)))])"
    using f3 winB(1) by (subst create_loop_call) (simp_all add: Let_def dB s4 emit_def)
  have s2: "create_loop f opts ?wp False ?A ?mn (snd (fst (f ?c1 w))) ?w1 =
            (Some (snd (fst (f ?c4 ?w3)), ?wp), ?w4,
             [Create_Device ?c2 (fst (fst (f ?c2 ?w1))), Log msg,
              Create_Device ?c3 (fst (fst (f ?c3 ?w2))), Log Msg_bgra_failed,
              Create_Device ?c4 (fst (fst (f ?c4 ?w3)))])"
  proof (cases "?B = D3D_FEATURE_LEVEL_11_1")
    case True
    with cap have c: "D3D_FEATURE_LEVEL_12_0 \<le> ?A" "?mn \<le> D3D_FEATURE_LEVEL_11_1"
      by (auto simp: first_cap_def fl_defs split: if_splits)
    show ?thesis
      using f2 winA(1) c s3 True
      by (subst create_loop_call) (simp_all add: Let_def dA emit_def msg_def)
  next
    case False
    with B have B0: "?B = D3D_FEATURE_LEVEL_11_0" by simp
    with cap have c: "\<not> D3D_FEATURE_LEVEL_12_0 \<le> ?A"
      "D3D_FEATURE_LEVEL_11_1 \<le> ?A" "?mn \<le> D3D_FEATURE_LEVEL_11_0"
      by (auto simp: first_cap_def fl_defs split: if_splits)
    have m: "msg = Msg_trying_11_0" using False by (simp add: msg_def)
    show ?thesis
      using f2 winA(1) c s3
      by (subst create_loop_call) (simp_all add: Let_def dA emit_def m B0)
  qed
  have s1: "create_loop f opts ?wp True ?A (min_feature_level opts) 0 w =
            (Some (snd (fst (f ?c4 ?w3)), ?wp), ?w4,
             [Create_Device ?c1 (fst (fst (f ?c1 w))), Log Msg_bgra_failed,
              Create_Device ?c2 (fst (fst (f ?c2 ?w1))), Log msg,
              Create_Device ?c3 (fst (fst (f ?c3 ?w2))), Log Msg_bgra_failed,
              Create_Device ?c4 (fst (fst (f ?c4 ?w3)))])"
    using f1 winA(1)
    by (subst create_loop_call) (simp_all add: Let_def dA s2 emit_def)
  from present_device_success[OF loaded s1 query_ok parent_ok desc_ok]
  obtain w' evs' where "mp_d3d11_create_present_device P opts w =
      (Some (snd (fst (f ?c4 ?w3))), w',
       [Create_Device ?c1 (fst (fst (f ?c1 w))), Log Msg_bgra_failed,
        Create_Device ?c2 (fst (fst (f ?c2 ?w1))), Log msg,
        Create_Device ?c3 (fst (fst (f ?c3 ?w2))), Log Msg_bgra_failed,
        Create_Device ?c4 (fst (fst (f ?c4 ?w3)))] @ evs')" "creation_calls evs' = []"
    by blast
  then show ?thesis
    using f1 f2 f3 f4 winA(2) winB(2) by simp
qed

lemma window_12_1: "window D3D_FEATURE_LEVEL_12_1 D3D_FEATURE_LEVEL_9_1 = levels"
  by code_simp

lemma window_11_1: "window D3D_FEATURE_LEVEL_11_1 D3D_FEATURE_LEVEL_9_1 = drop 2 levels"
  by code_simp

theorem succeeds_at_tier_B_witness:
  "first_cap (max_feature_level opts_12_1) (default_min (min_feature_level opts_12_1))
     = Some D3D_FEATURE_LEVEL_11_1 \<and>
   c_int (max_feature_level opts_12_1) \<and> 0 \<le> min_feature_level opts_12_1 \<and>
   fst (mp_d3d11_create_present_device (scenario_platform (only_at D3D_FEATURE_LEVEL_11_1))
          opts_12_1 ()) \<noteq> None \<and>
   map fst (creation_calls (snd (snd (mp_d3d11_create_present_device
        (scenario_platform (only_at D3D_FEATURE_LEVEL_11_1)) opts_12_1 ())))) =
     [\<lparr>cc_type = D3D_DRIVER_TYPE_HARDWARE, cc_flags = 32, cc_levels = levels\<rparr>,
      \<lparr>cc_type = D3D_DRIVER_TYPE_HARDWARE, cc_flags = 0, cc_levels = levels\<rparr>,
      \<lparr>cc_type = D3D_DRIVER_TYPE_HARDWARE, cc_flags = 32, cc_levels = drop 2 levels\<rparr>,
      \<lparr>cc_type = D3D_DRIVER_TYPE_HARDWARE, cc_flags = 0, cc_levels = drop 2 levels\<rparr>] \<and>
   map (\<lambda>(c, hr). SUCCEEDED hr) (creation_calls (snd (snd (mp_d3d11_create_present_device
        (scenario_platform (only_at D3D_FEATURE_LEVEL_11_1)) opts_12_1 ())))) =
     [False, False, False, True]"
proof -
  let ?P = "scenario_platform (only_at D3D_FEATURE_LEVEL_11_1)"
  let ?f = "\<lambda>c w. if only_at D3D_FEATURE_LEVEL_11_1 c then ((S_OK, 1), w)
                  else ((E_FAIL, 0::nat), w::unit)"
  have loaded: "pD3D11CreateDevice ?P = Some ?f"
    by (simp add: scenario_platform_def)
  have d: "default_min (min_feature_level opts_12_1) = D3D_FEATURE_LEVEL_9_1"
      "max_feature_level opts_12_1 = D3D_FEATURE_LEVEL_12_1"
      "force_warp opts_12_1 = False" "debug opts_12_1 = False"
    by (simp_all add: opts_12_1_def default_min_def fl_defs)
  have a: "first_cap (max_feature_level opts_12_1) (default_min (min_feature_level opts_12_1))
     = Some D3D_FEATURE_LEVEL_11_1"
    unfolding d by (simp add: first_cap_def fl_defs)
  have b: "c_int (max_feature_level opts_12_1)" "0 \<le> min_feature_level opts_12_1"
    by (simp_all add: opts_12_1_def c_int_def fl_defs)
  have c: "\<forall>c w. SUCCEEDED (fst (fst (?f c w))) = only_at D3D_FEATURE_LEVEL_11_1 c"
    by (simp add: SUCCEEDED_def S_OK_def E_FAIL_def)
  have q: "\<forall>h w. \<not> FAILED (fst (fst (QueryInterface_IDXGIDevice1 ?P h w)))"
    "\<forall>h w. \<not> FAILED (fst (fst (GetParent_IDXGIAdapter1 ?P h w)))"
    "\<forall>h w. \<not> FAILED (fst (fst (GetDesc1 ?P h w)))"
    by (simp_all add: scenario_platform_def FAILED_def S_OK_def)
  show ?thesis
    using a b succeeds_at_tier_B[OF loaded a b c q, of "()"]
    by (simp add: d attempt_def window_12_1 window_11_1 device_flags_def
          D3D11_CREATE_DEVICE_BGRA_SUPPORT_def)
qed

text \<open>The second cap: the window from 11\_1, on a platform that creates only at 11\_0.\<close>

lemma succeeds_at_11_0_run:
  "map (\<lambda>(c, hr). (hd (cc_levels c), cc_flags c, SUCCEEDED hr))
     (creation_calls (snd (snd (mp_d3d11_create_present_device
        (scenario_platform (only_at D3D_FEATURE_LEVEL_11_0))
        (opts_12_1\<lparr>max_feature_level := D3D_FEATURE_LEVEL_11_1\<rparr>) ())))) =
     [(D3D_FEATURE_LEVEL_11_1, 32, False), (D3D_FEATURE_LEVEL_11_1, 0, False),
      (D3D_FEATURE_LEVEL_11_0, 32, False), (D3D_FEATURE_LEVEL_11_0, 0, True)]"
  by code_simp

subsection \<open>Zero levels\<close>

lemma create_loop_defaults_cong:
  fixes opts opts' :: d3d11_device_opts
  assumes "default_max max_fl = default_max max_fl'"
    and "default_min min_fl = default_min min_fl'"
    and "debug opts = debug opts'" and "allow_warp opts = allow_warp opts'"
    and "default_max (max_feature_level opts) = default_max (max_feature_level opts')"
    and "default_min (min_feature_level opts) = default_min (min_feature_level opts')"
  shows "create_loop f opts warp bgra max_fl min_fl dev w =
         create_loop f opts' warp bgra max_fl' min_fl' dev w"
  using assms
proof (induction f opts warp bgra max_fl min_fl dev w arbitrary: max_fl' min_fl'
        rule: create_loop_induct2)
  case (step f opts warp bgra max_fl min_fl dev w)
  obtain hr dev' w' evs where cd:
    "create_device f warp bgra (debug opts) (default_max max_fl) (default_min min_fl) dev w
       = ((hr, dev'), w', evs)"
    by (metis prod.exhaust)
  then have cd': "create_device f warp bgra (debug opts') (default_max max_fl') (default_min min_fl') dev w
       = ((hr, dev'), w', evs)"
    using step.prems by simp
  note IH = step.IH[OF cd]
  let ?mx = "default_max max_fl" and ?mn = "default_min min_fl"
  have e: "default_max max_fl' = ?mx" "default_min min_fl' = ?mn"
    "debug opts' = debug opts" "allow_warp opts' = allow_warp opts"
    using step.prems by simp_all
  have R1: "create_loop f opts warp False ?mx ?mn dev' w' =
            create_loop f opts' warp False ?mx ?mn dev' w'"
    if "\<not> SUCCEEDED hr" bgra
    using IH(1)[OF that, of ?mx ?mn] step.prems by simp
  have R2: "create_loop f opts warp True D3D_FEATURE_LEVEL_11_1 ?mn dev' w' =
            create_loop f opts' warp True D3D_FEATURE_LEVEL_11_1 ?mn dev' w'"
    if "\<not> SUCCEEDED hr" "\<not> bgra" "D3D_FEATURE_LEVEL_12_0 \<le> ?mx" "?mn \<le> D3D_FEATURE_LEVEL_11_1"
    using IH(2)[OF that, of D3D_FEATURE_LEVEL_11_1 ?mn] step.prems by simp
  have R3: "create_loop f opts warp True D3D_FEATURE_LEVEL_11_0 ?mn dev' w' =
            create_loop f opts' warp True D3D_FEATURE_LEVEL_11_0 ?mn dev' w'"
    if "\<not> SUCCEEDED hr" "\<not> bgra"
       "\<not> (D3D_FEATURE_LEVEL_12_0 \<le> ?mx \<and> ?mn \<le> D3D_FEATURE_LEVEL_11_1)"
       "D3D_FEATURE_LEVEL_11_1 \<le> ?mx" "?mn \<le> D3D_FEATURE_LEVEL_11_0"
    using IH(3)[OF that, of D3D_FEATURE_LEVEL_11_0 ?mn] step.prems by simp
  have R4: "create_loop f opts True True (max_feature_level opts) (min_feature_level opts) dev' w' =
            create_loop f opts' True True (max_feature_level opts') (min_feature_level opts') dev' w'"
    if "\<not> SUCCEEDED hr" "\<not> bgra"
       "\<not> (D3D_FEATURE_LEVEL_12_0 \<le> ?mx \<and> ?mn \<le> D3D_FEATURE_LEVEL_11_1)"
       "\<not> (D3D_FEATURE_LEVEL_11_1 \<le> ?mx \<and> ?mn \<le> D3D_FEATURE_LEVEL_11_0)"
       "\<not> warp" "allow_warp opts"
    using IH(4)[OF that, of "max_feature_level opts'" "min_feature_level opts'"] step.prems by simp
  show ?case
    unfolding create_loop_step[OF cd] create_loop_step[OF cd'] e
    using R1 R2 R3 R4 by auto
qed

lemma window_default: "window D3D_FEATURE_LEVEL_11_0 D3D_FEATURE_LEVEL_9_1 =
   [D3D_FEATURE_LEVEL_11_0, D3D_FEATURE_LEVEL_10_1, D3D_FEATURE_LEVEL_10_0,
    D3D_FEATURE_LEVEL_9_3, D3D_FEATURE_LEVEL_9_2, D3D_FEATURE_LEVEL_9_1]"
  by code_simp

lemma overlap_default: "overlap D3D_FEATURE_LEVEL_11_0 D3D_FEATURE_LEVEL_9_1"
  by code_simp

lemma create_loop_default_window:
  fixes opts :: d3d11_device_opts
  assumes "default_max max_fl = D3D_FEATURE_LEVEL_11_0"
    and "default_min min_fl = D3D_FEATURE_LEVEL_9_1"
    and "default_max (max_feature_level opts) = D3D_FEATURE_LEVEL_11_0"
    and "default_min (min_feature_level opts) = D3D_FEATURE_LEVEL_9_1"
  shows "Msg_no_suitable_level \<notin>
           set (messages (snd (snd (create_loop f opts warp bgra max_fl min_fl dev w)))) \<and>
         list_all (\<lambda>(c, hr). cc_levels c = window D3D_FEATURE_LEVEL_11_0 D3D_FEATURE_LEVEL_9_1)
           (creation_calls (snd (snd (create_loop f opts warp bgra max_fl min_fl dev w))))"
  using assms
proof (induction f opts warp bgra max_fl min_fl dev w rule: create_loop_induct2)
  case (step f opts warp bgra max_fl min_fl dev w)
  have ne: "fst (get_feature_levels D3D_FEATURE_LEVEL_11_0 D3D_FEATURE_LEVEL_9_1) \<noteq> 0"
    using get_feature_levels_overlap[OF overlap_default] .
  let ?c = "attempt warp bgra (debug opts) D3D_FEATURE_LEVEL_11_0 D3D_FEATURE_LEVEL_9_1"
  have cd: "create_device f warp bgra (debug opts) (default_max max_fl) (default_min min_fl) dev w
       = ((fst (fst (f ?c w)), snd (fst (f ?c w))), snd (f ?c w), [Create_Device ?c (fst (fst (f ?c w)))])"
    using step.prems by (simp add: create_device_call[OF ne])
  note IH = step.IH[OF cd]
  have nocap: "\<not> (D3D_FEATURE_LEVEL_12_0 \<le> default_max max_fl \<and> default_min min_fl \<le> D3D_FEATURE_LEVEL_11_1)"
     "\<not> (D3D_FEATURE_LEVEL_11_1 \<le> default_max max_fl \<and> default_min min_fl \<le> D3D_FEATURE_LEVEL_11_0)"
    using step.prems by (simp_all add: fl_defs)
  have lv: "cc_levels ?c = window D3D_FEATURE_LEVEL_11_0 D3D_FEATURE_LEVEL_9_1"
    by (simp add: attempt_def)
  consider (ok) "SUCCEEDED (fst (fst (f ?c w)))"
    | (bgra) "\<not> SUCCEEDED (fst (fst (f ?c w)))" bgra
    | (switch) "\<not> SUCCEEDED (fst (fst (f ?c w)))" "\<not> bgra" "\<not> warp" "allow_warp opts"
    | (fail) "\<not> SUCCEEDED (fst (fst (f ?c w)))" "\<not> bgra" "\<not> (\<not> warp \<and> allow_warp opts)"
    by fastforce
  then show ?case
  proof cases
    case ok
    then show ?thesis unfolding create_loop_step[OF cd] using lv by simp
  next
    case bgra
    with IH(1) step.prems nocap lv show ?thesis
      unfolding create_loop_step[OF cd] by simp
  next
    case switch
    with IH(4)[OF switch(1,2) nocap switch(3,4)] step.prems lv show ?thesis
      unfolding create_loop_step[OF cd] by (simp add: fl_defs)
  next
    case fail
    with step.prems lv show ?thesis
      unfolding create_loop_step[OF cd] by (auto simp: fl_defs)
  qed
qed

lemma create_loop_first_call:
  fixes opts :: d3d11_device_opts
  assumes "overlap (default_max max_fl) (default_min min_fl)"
  shows "creation_calls (snd (snd (create_loop f opts warp bgra max_fl min_fl dev w))) \<noteq> [] \<and>
         fst (hd (creation_calls (snd (snd (create_loop f opts warp bgra max_fl min_fl dev w)))))
           = attempt warp bgra (debug opts) (default_max max_fl) (default_min min_fl)"
proof -
  note c = create_loop_call[OF get_feature_levels_overlap[OF assms], of f opts warp bgra dev w]
  show ?thesis unfolding c by (simp add: Let_def)
qed

lemma present_device_first_call:
  fixes opts :: d3d11_device_opts and P :: "'w d3d11_platform"
  assumes "pD3D11CreateDevice P \<noteq> None"
    and "overlap (default_max (max_feature_level opts)) (default_min (min_feature_level opts))"
  shows "creation_calls (snd (snd (mp_d3d11_create_present_device P opts w))) \<noteq> [] \<and>
         fst (hd (creation_calls (snd (snd (mp_d3d11_create_present_device P opts w)))))
           = attempt (force_warp opts) True (debug opts)
               (default_max (max_feature_level opts)) (default_min (min_feature_level opts))"
proof -
  from assms(1) obtain f where f: "pD3D11CreateDevice P = Some f" by blast
  let ?loop = "snd (snd (create_loop f opts (force_warp opts) True (max_feature_level opts)
             (min_feature_level opts) 0 w))"
  from present_device_events[OF f, of opts w]
  obtain extra where x: "snd (snd (mp_d3d11_create_present_device P opts w)) = ?loop @ extra"
    by blast
  from create_loop_first_call[OF assms(2), of f opts "force_warp opts" True 0 w]
  have "creation_calls ?loop \<noteq> []"
    and "fst (hd (creation_calls ?loop)) = attempt (force_warp opts) True (debug opts)
               (default_max (max_feature_level opts)) (default_min (min_feature_level opts))"
    by simp_all
  then show ?thesis unfolding x by simp
qed

text \<open>
  C10 as stated lets either option be zero and promises that the empty-window path is
  never taken. With \<open>max_feature_level = 0\<close> and \<open>min_feature_level\<close> = 12\_0 the
  maximum becomes 11\_0, the window is empty, and the negotiation fails on that very
  path without a creation call.
\<close>

theorem zero_max_with_high_min_is_empty:
  "Msg_no_suitable_level \<in> set (messages (snd (snd (mp_d3d11_create_present_device
      (scenario_platform (\<lambda>c. True))
      (opts_12_1\<lparr>max_feature_level := 0, min_feature_level := D3D_FEATURE_LEVEL_12_0\<rparr>)
      ())))) \<and>
   creation_calls (snd (snd (mp_d3d11_create_present_device
      (scenario_platform (\<lambda>c. True))
      (opts_12_1\<lparr>max_feature_level := 0, min_feature_level := D3D_FEATURE_LEVEL_12_0\<rparr>)
      ()))) = [] \<and>
   fst (mp_d3d11_create_present_device
      (scenario_platform (\<lambda>c. True))
      (opts_12_1\<lparr>max_feature_level := 0, min_feature_level := D3D_FEATURE_LEVEL_12_0\<rparr>)
      ()) = None"
  by code_simp

text \<open>
  C10, as amended. The defaults are 11\_0 for a zero maximum and 9\_1 for a zero minimum.
  They are substituted at the head of every pass: the loop entered with \<open>max_fl = 0\<close>
  runs as the loop entered with 11\_0, and with \<open>min_fl = 0\<close> as with 9\_1; the same holds
  for the whole function, the pass after the switch to WARP included, which reads the
  options again. With the entry point loaded and a zero maximum, the first creation call
  asks for the window from 11\_0 whenever that window has a level; with a zero minimum,
  for the window down to 9\_1. With both options zero a creation call is made, every
  creation call asks for the levels from 11\_0 down to 9\_1, and no pass takes the
  empty-window path of \<open>create_device\<close>.
\<close>

theorem zero_levels_take_defaults:
  fixes opts :: d3d11_device_opts and P :: "'w d3d11_platform"
  shows "default_max 0 = D3D_FEATURE_LEVEL_11_0 \<and> default_min 0 = D3D_FEATURE_LEVEL_9_1 \<and>
         create_loop f opts warp bgra 0 min_fl dev w =
           create_loop f opts warp bgra D3D_FEATURE_LEVEL_11_0 min_fl dev w \<and>
         create_loop f opts warp bgra max_fl 0 dev w =
           create_loop f opts warp bgra max_fl D3D_FEATURE_LEVEL_9_1 dev w \<and>
         mp_d3d11_create_present_device P (opts\<lparr>max_feature_level := 0\<rparr>) w =
           mp_d3d11_create_present_device P
             (opts\<lparr>max_feature_level := D3D_FEATURE_LEVEL_11_0\<rparr>) w \<and>
         mp_d3d11_create_present_device P (opts\<lparr>min_feature_level := 0\<rparr>) w =
           mp_d3d11_create_present_device P
             (opts\<lparr>min_feature_level := D3D_FEATURE_LEVEL_9_1\<rparr>) w \<and>
         (pD3D11CreateDevice P \<noteq> None \<and>
          overlap D3D_FEATURE_LEVEL_11_0 (default_min (min_feature_level opts)) \<longrightarrow>
            creation_calls (snd (snd (mp_d3d11_create_present_device P
               (opts\<lparr>max_feature_level := 0\<rparr>) w))) \<noteq> [] \<and>
            fst (hd (creation_calls (snd (snd (mp_d3d11_create_present_device P
               (opts\<lparr>max_feature_level := 0\<rparr>) w))))) =
              attempt (force_warp opts) True (debug opts) D3D_FEATURE_LEVEL_11_0
                (default_min (min_feature_level opts))) \<and>
         (pD3D11CreateDevice P \<noteq> None \<and>
          overlap (default_max (max_feature_level opts)) D3D_FEATURE_LEVEL_9_1 \<longrightarrow>
            creation_calls (snd (snd (mp_d3d11_create_present_device P
               (opts\<lparr>min_feature_level := 0\<rparr>) w))) \<noteq> [] \<and>
            fst (hd (creation_calls (snd (snd (mp_d3d11_create_present_device P
               (opts\<lparr>min_feature_level := 0\<rparr>) w))))) =
              attempt (force_warp opts) True (debug opts)
                (default_max (max_feature_level opts)) D3D_FEATURE_LEVEL_9_1) \<and>
         (pD3D11CreateDevice P \<noteq> None \<longrightarrow>
            creation_calls (snd (snd (mp_d3d11_create_present_device P
               (opts\<lparr>max_feature_level := 0, min_feature_level := 0\<rparr>) w))) \<noteq> []) \<and>
         Msg_no_suitable_level \<notin> set (messages (snd (snd (mp_d3d11_create_present_device P
             (opts\<lparr>max_feature_level := 0, min_feature_level := 0\<rparr>) w)))) \<and>
         list_all (\<lambda>(c, hr). cc_levels c =
              [D3D_FEATURE_LEVEL_11_0, D3D_FEATURE_LEVEL_10_1, D3D_FEATURE_LEVEL_10_0,
               D3D_FEATURE_LEVEL_9_3, D3D_FEATURE_LEVEL_9_2, D3D_FEATURE_LEVEL_9_1])
           (creation_calls (snd (snd (mp_d3d11_create_present_device P
             (opts\<lparr>max_feature_level := 0, min_feature_level := 0\<rparr>) w))))"
proof -
  have a: "create_loop f opts warp bgra 0 min_fl dev w =
           create_loop f opts warp bgra D3D_FEATURE_LEVEL_11_0 min_fl dev w"
    by (rule create_loop_defaults_cong) simp_all
  have b: "create_loop f opts warp bgra max_fl 0 dev w =
           create_loop f opts warp bgra max_fl D3D_FEATURE_LEVEL_9_1 dev w"
    by (rule create_loop_defaults_cong) simp_all
  have c: "mp_d3d11_create_present_device P (opts\<lparr>max_feature_level := 0\<rparr>) w =
           mp_d3d11_create_present_device P (opts\<lparr>max_feature_level := D3D_FEATURE_LEVEL_11_0\<rparr>) w"
  proof (rule present_device_cong)
    show "max_frame_latency (opts\<lparr>max_feature_level := 0\<rparr>) =
          max_frame_latency (opts\<lparr>max_feature_level := D3D_FEATURE_LEVEL_11_0\<rparr>)" by simp
    show "create_loop g (opts\<lparr>max_feature_level := 0\<rparr>)
            (force_warp (opts\<lparr>max_feature_level := 0\<rparr>)) True
            (max_feature_level (opts\<lparr>max_feature_level := 0\<rparr>))
            (min_feature_level (opts\<lparr>max_feature_level := 0\<rparr>)) 0 w =
          create_loop g (opts\<lparr>max_feature_level := D3D_FEATURE_LEVEL_11_0\<rparr>)
            (force_warp (opts\<lparr>max_feature_level := D3D_FEATURE_LEVEL_11_0\<rparr>)) True
            (max_feature_level (opts\<lparr>max_feature_level := D3D_FEATURE_LEVEL_11_0\<rparr>))
            (min_feature_level (opts\<lparr>max_feature_level := D3D_FEATURE_LEVEL_11_0\<rparr>)) 0 w" for g
      by (simp, rule create_loop_defaults_cong) simp_all
  qed
  have d: "mp_d3d11_create_present_device P (opts\<lparr>min_feature_level := 0\<rparr>) w =
           mp_d3d11_create_present_device P (opts\<lparr>min_feature_level := D3D_FEATURE_LEVEL_9_1\<rparr>) w"
  proof (rule present_device_cong)
    show "max_frame_latency (opts\<lparr>min_feature_level := 0\<rparr>) =
          max_frame_latency (opts\<lparr>min_feature_level := D3D_FEATURE_LEVEL_9_1\<rparr>)" by simp
    show "create_loop g (opts\<lparr>min_feature_level := 0\<rparr>)
            (force_warp (opts\<lparr>min_feature_level := 0\<rparr>)) True
            (max_feature_level (opts\<lparr>min_feature_level := 0\<rparr>))
            (min_feature_level (opts\<lparr>min_feature_level := 0\<rparr>)) 0 w =
          create_loop g (opts\<lparr>min_feature_level := D3D_FEATURE_LEVEL_9_1\<rparr>)
            (force_warp (opts\<lparr>min_feature_level := D3D_FEATURE_LEVEL_9_1\<rparr>)) True
            (max_feature_level (opts\<lparr>min_feature_level := D3D_FEATURE_LEVEL_9_1\<rparr>))
            (min_feature_level (opts\<lparr>min_feature_level := D3D_FEATURE_LEVEL_9_1\<rparr>)) 0 w" for g
      by (simp, rule create_loop_defaults_cong) simp_all
  qed
  let ?o = "opts\<lparr>max_feature_level := 0, min_feature_level := 0\<rparr>"
  have e: "Msg_no_suitable_level \<notin> set (messages (snd (snd (mp_d3d11_create_present_device P ?o w)))) \<and>
         list_all (\<lambda>(c, hr). cc_levels c = window D3D_FEATURE_LEVEL_11_0 D3D_FEATURE_LEVEL_9_1)
           (creation_calls (snd (snd (mp_d3d11_create_present_device P ?o w))))"
  proof (cases "pD3D11CreateDevice P")
    case None
    then show ?thesis by (simp add: mp_d3d11_create_present_device_def)
  next
    case (Some g)
    from present_device_events[OF Some, of ?o w]
    obtain extra where x: "snd (snd (mp_d3d11_create_present_device P ?o w)) =
           snd (snd (create_loop g ?o (force_warp ?o) True (max_feature_level ?o)
             (min_feature_level ?o) 0 w)) @ extra"
       "creation_calls extra = []"
       "set (messages extra) \<inter> {Msg_bgra_failed, Msg_trying_11_1, Msg_trying_11_0,
              Msg_trying_WARP, Msg_no_suitable_level} = {}"
      by blast
    from create_loop_default_window[of "max_feature_level ?o" "min_feature_level ?o" ?o g
        "force_warp ?o" True 0 w] x
    show ?thesis by simp
  qed
  have v: "default_max 0 = D3D_FEATURE_LEVEL_11_0" "default_min 0 = D3D_FEATURE_LEVEL_9_1"
    by simp_all
  have g: "creation_calls (snd (snd (mp_d3d11_create_present_device P
               (opts\<lparr>max_feature_level := 0\<rparr>) w))) \<noteq> [] \<and>
            fst (hd (creation_calls (snd (snd (mp_d3d11_create_present_device P
               (opts\<lparr>max_feature_level := 0\<rparr>) w))))) =
              attempt (force_warp opts) True (debug opts) D3D_FEATURE_LEVEL_11_0
                (default_min (min_feature_level opts))"
    if "pD3D11CreateDevice P \<noteq> None"
      "overlap D3D_FEATURE_LEVEL_11_0 (default_min (min_feature_level opts))"
    using present_device_first_call[of P "opts\<lparr>max_feature_level := 0\<rparr>" w] that by simp
  have h: "creation_calls (snd (snd (mp_d3d11_create_present_device P
               (opts\<lparr>min_feature_level := 0\<rparr>) w))) \<noteq> [] \<and>
            fst (hd (creation_calls (snd (snd (mp_d3d11_create_present_device P
               (opts\<lparr>min_feature_level := 0\<rparr>) w))))) =
              attempt (force_warp opts) True (debug opts)
                (default_max (max_feature_level opts)) D3D_FEATURE_LEVEL_9_1"
    if "pD3D11CreateDevice P \<noteq> None"
      "overlap (default_max (max_feature_level opts)) D3D_FEATURE_LEVEL_9_1"
    using present_device_first_call[of P "opts\<lparr>min_feature_level := 0\<rparr>" w] that by simp
  have i: "creation_calls (snd (snd (mp_d3d11_create_present_device P ?o w))) \<noteq> []"
    if "pD3D11CreateDevice P \<noteq> None"
    using present_device_first_call[of P ?o w] that overlap_default by simp
  from a b c d e v g h i show ?thesis by (simp add: window_default)
qed

theorem zero_levels_take_defaults_witness:
  "mp_d3d11_create_present_device (scenario_platform (\<lambda>c. False))
      (opts_12_1\<lparr>max_feature_level := 0\<rparr>) () =
   mp_d3d11_create_present_device (scenario_platform (\<lambda>c. False))
      (opts_12_1\<lparr>max_feature_level := D3D_FEATURE_LEVEL_11_0\<rparr>) () \<and>
   creation_calls (snd (snd (mp_d3d11_create_present_device (scenario_platform (\<lambda>c. False))
      (opts_12_1\<lparr>max_feature_level := 0, min_feature_level := 0\<rparr>) ()))) \<noteq> [] \<and>
   fst (hd (creation_calls (snd (snd (mp_d3d11_create_present_device
      (scenario_platform (\<lambda>c. False)) (opts_12_1\<lparr>max_feature_level := 0\<rparr>) ()))))) =
     attempt False True False D3D_FEATURE_LEVEL_11_0 D3D_FEATURE_LEVEL_9_1 \<and>
   fst (hd (creation_calls (snd (snd (mp_d3d11_create_present_device
      (scenario_platform (\<lambda>c. False)) (opts_12_1\<lparr>min_feature_level := 0\<rparr>) ()))))) =
     attempt False True False D3D_FEATURE_LEVEL_12_1 D3D_FEATURE_LEVEL_9_1 \<and>
   Msg_no_suitable_level \<notin> set (messages (snd (snd (mp_d3d11_create_present_device
      (scenario_platform (\<lambda>c. False))
      (opts_12_1\<lparr>max_feature_level := 0, min_feature_level := 0\<rparr>) ())))) \<and>
   list_all (\<lambda>(c, hr). cc_levels c =
        [D3D_FEATURE_LEVEL_11_0, D3D_FEATURE_LEVEL_10_1, D3D_FEATURE_LEVEL_10_0,
         D3D_FEATURE_LEVEL_9_3, D3D_FEATURE_LEVEL_9_2, D3D_FEATURE_LEVEL_9_1])
     (creation_calls (snd (snd (mp_d3d11_create_present_device
        (scenario_platform (\<lambda>c. False))
        (opts_12_1\<lparr>max_feature_level := 0, min_feature_level := 0\<rparr>) ()))))"
proof -
  have l: "pD3D11CreateDevice (scenario_platform (\<lambda>c. False)) \<noteq> None"
    by (simp add: scenario_platform_def)
  have o: "overlap D3D_FEATURE_LEVEL_11_0 (default_min (min_feature_level opts_12_1))"
    using overlap_default by (simp add: opts_12_1_def)
  have d: "force_warp opts_12_1 = False" "debug opts_12_1 = False"
    "default_min (min_feature_level opts_12_1) = D3D_FEATURE_LEVEL_9_1"
    by (simp_all add: opts_12_1_def)
  note z = zero_levels_take_defaults [of "\<lambda>c w. ((E_FAIL, 0), w)" opts_12_1 False True 0 0 "()" 0
      "scenario_platform (\<lambda>c. False)"]
  note z4 = z[THEN conjunct2, THEN conjunct2, THEN conjunct2, THEN conjunct2]
  note z6 = z4[THEN conjunct2, THEN conjunct2]
  note z8 = z6[THEN conjunct2, THEN conjunct2]
  have c: "mp_d3d11_create_present_device (scenario_platform (\<lambda>c. False))
      (opts_12_1\<lparr>max_feature_level := 0\<rparr>) () =
   mp_d3d11_create_present_device (scenario_platform (\<lambda>c. False))
      (opts_12_1\<lparr>max_feature_level := D3D_FEATURE_LEVEL_11_0\<rparr>) ()"
    by (rule z4[THEN conjunct1])
  note g = z6[THEN conjunct1, THEN mp, OF conjI[OF l o], THEN conjunct2, unfolded d]
  have o2: "overlap (default_max (max_feature_level opts_12_1)) D3D_FEATURE_LEVEL_9_1"
    by code_simp
  have d2: "default_max (max_feature_level opts_12_1) = D3D_FEATURE_LEVEL_12_1"
    by code_simp
  note h = z6[THEN conjunct2, THEN conjunct1, THEN mp, OF conjI[OF l o2], THEN conjunct2,
      unfolded d d2]
  note i = z8[THEN conjunct1, THEN mp, OF l]
  note m = z8[THEN conjunct2, THEN conjunct1]
  note la = z8[THEN conjunct2, THEN conjunct2]
  show ?thesis
    by (intro conjI) (rule c i g h m la)+
qed

section \<open>Properties of the swapchain negotiation and the screenshot\<close>

lemma swapchain_attempts_append [simp]:
  "swapchain_attempts (xs @ ys) = swapchain_attempts xs @ swapchain_attempts ys"
  by (induction xs rule: swapchain_attempts.induct) simp_all















lemma goes_down_no_attempt:
  "swapchain_attempts evs = [] \<Longrightarrow> goes_down (None, w, evs) rungs"
  by (simp add: goes_down_def)








lemma flip_then_discard_run:
  "swapchain_attempts (snd (snd (mp_d3d11_create_swapchain
      (scenario_dxgi True discard_rgba_only (flip_scd 0 1) (buffer_td 87 1)) 1 (sc_opts True) ()))) =
     [((DXGI_SWAP_EFFECT_FLIP_SEQUENTIAL, DXGI_FORMAT_B8G8R8A8_UNORM), E_FAIL),
      ((DXGI_SWAP_EFFECT_FLIP_SEQUENTIAL, DXGI_FORMAT_R8G8B8A8_UNORM), E_FAIL),
      ((DXGI_SWAP_EFFECT_DISCARD, DXGI_FORMAT_B8G8R8A8_UNORM), E_FAIL),
      ((DXGI_SWAP_EFFECT_DISCARD, DXGI_FORMAT_R8G8B8A8_UNORM), S_OK)]"
  by code_simp

subsection \<open>The screenshot\<close>

lemma screenshot_imgfmt_cases:
  "screenshot_imgfmt f = Some IMGFMT_BGR0 \<longleftrightarrow> f = DXGI_FORMAT_B8G8R8A8_UNORM"
  "screenshot_imgfmt f = Some IMGFMT_RGB0 \<longleftrightarrow> f = DXGI_FORMAT_R8G8B8A8_UNORM"
  "screenshot_imgfmt f = None \<longleftrightarrow>
     f \<noteq> DXGI_FORMAT_B8G8R8A8_UNORM \<and> f \<noteq> DXGI_FORMAT_R8G8B8A8_UNORM"
  by (simp_all add: screenshot_imgfmt_def DXGI_FORMAT_B8G8R8A8_UNORM_def
        DXGI_FORMAT_R8G8B8A8_UNORM_def)

lemma screenshot_unfold:
  fixes P :: "('w, 'z) dxgi_platform_scheme"
  assumes gd: "IDXGISwapChain_GetDesc P swapchain w = ((hr1, scd), w1)"
    and gb: "IDXGISwapChain_GetBuffer P swapchain (scd_BufferCount scd - 1) w1 = ((hr2, fb), w2)"
    and dv: "ID3D11Texture2D_GetDevice P fb w2 = (dev, w3)"
    and cx: "ID3D11Device_GetImmediateContext P dev w3 = (ctx, w4)"
  shows "screenshot_buffer_desc P swapchain w = ID3D11Texture2D_GetDesc P fb w4"
    and "FAILED hr1 \<or> scd_SwapEffect scd \<noteq> DXGI_SWAP_EFFECT_FLIP_SEQUENTIAL \<Longrightarrow>
         fst (mp_d3d11_screenshot P swapchain w) = None \<and>
         buffer_reads (snd (snd (mp_d3d11_screenshot P swapchain w))) = []"
    and "\<not> FAILED hr1 \<Longrightarrow> scd_SwapEffect scd = DXGI_SWAP_EFFECT_FLIP_SEQUENTIAL \<Longrightarrow>
         buffer_reads (snd (snd (mp_d3d11_screenshot P swapchain w))) = [scd_BufferCount scd - 1]"
    and "1 < td_SampleCount (ID3D11Texture2D_GetDesc P fb w4) \<or>
         screenshot_imgfmt (td_Format (ID3D11Texture2D_GetDesc P fb w4)) = None \<Longrightarrow>
         fst (mp_d3d11_screenshot P swapchain w) = None"
    and "fst (mp_d3d11_screenshot P swapchain w) \<noteq> None \<Longrightarrow>
         \<exists>fmt. screenshot_imgfmt (td_Format (ID3D11Texture2D_GetDesc P fb w4)) = Some fmt \<and>
           mp_image_alloc P fmt (sint (td_Width (ID3D11Texture2D_GetDesc P fb w4)))
             (sint (td_Height (ID3D11Texture2D_GetDesc P fb w4))) \<noteq> None"
proof -
  show "screenshot_buffer_desc P swapchain w = ID3D11Texture2D_GetDesc P fb w4"
    by (simp add: screenshot_buffer_desc_def gd gb dv cx)
  show "fst (mp_d3d11_screenshot P swapchain w) = None \<and>
         buffer_reads (snd (snd (mp_d3d11_screenshot P swapchain w))) = []"
    if "FAILED hr1 \<or> scd_SwapEffect scd \<noteq> DXGI_SWAP_EFFECT_FLIP_SEQUENTIAL"
    using that by (auto simp: mp_d3d11_screenshot_def gd)
  have rest: "\<exists>r w'. mp_d3d11_screenshot P swapchain w = (r, w', [Get_Buffer (scd_BufferCount scd - 1) hr2]) \<and>
       (1 < td_SampleCount (ID3D11Texture2D_GetDesc P fb w4) \<or>
         screenshot_imgfmt (td_Format (ID3D11Texture2D_GetDesc P fb w4)) = None \<longrightarrow> r = None) \<and>
       (r \<noteq> None \<longrightarrow>
         (\<exists>fmt. screenshot_imgfmt (td_Format (ID3D11Texture2D_GetDesc P fb w4)) = Some fmt \<and>
           mp_image_alloc P fmt (sint (td_Width (ID3D11Texture2D_GetDesc P fb w4)))
             (sint (td_Height (ID3D11Texture2D_GetDesc P fb w4))) \<noteq> None))"
    if "\<not> FAILED hr1" "scd_SwapEffect scd = DXGI_SWAP_EFFECT_FLIP_SEQUENTIAL"
    using that
    by (simp add: mp_d3d11_screenshot_def gd gb dv cx Let_def split: prod.splits option.splits)
  show "buffer_reads (snd (snd (mp_d3d11_screenshot P swapchain w))) = [scd_BufferCount scd - 1]"
    if "\<not> FAILED hr1" "scd_SwapEffect scd = DXGI_SWAP_EFFECT_FLIP_SEQUENTIAL"
    using rest[OF that] by auto
  show "fst (mp_d3d11_screenshot P swapchain w) = None"
    if c: "1 < td_SampleCount (ID3D11Texture2D_GetDesc P fb w4) \<or>
         screenshot_imgfmt (td_Format (ID3D11Texture2D_GetDesc P fb w4)) = None"
  proof (cases "FAILED hr1 \<or> scd_SwapEffect scd \<noteq> DXGI_SWAP_EFFECT_FLIP_SEQUENTIAL")
    case True
    then show ?thesis by (auto simp: mp_d3d11_screenshot_def gd)
  next
    case False
    then have "\<not> FAILED hr1" "scd_SwapEffect scd = DXGI_SWAP_EFFECT_FLIP_SEQUENTIAL" by simp_all
    from rest[OF this] c show ?thesis by auto
  qed
  show "\<exists>fmt. screenshot_imgfmt (td_Format (ID3D11Texture2D_GetDesc P fb w4)) = Some fmt \<and>
           mp_image_alloc P fmt (sint (td_Width (ID3D11Texture2D_GetDesc P fb w4)))
             (sint (td_Height (ID3D11Texture2D_GetDesc P fb w4))) \<noteq> None"
    if ok: "fst (mp_d3d11_screenshot P swapchain w) \<noteq> None"
  proof (cases "FAILED hr1 \<or> scd_SwapEffect scd \<noteq> DXGI_SWAP_EFFECT_FLIP_SEQUENTIAL")
    case True
    then have "fst (mp_d3d11_screenshot P swapchain w) = None"
      by (auto simp: mp_d3d11_screenshot_def gd)
    with ok show ?thesis by simp
  next
    case False
    then have "\<not> FAILED hr1" "scd_SwapEffect scd = DXGI_SWAP_EFFECT_FLIP_SEQUENTIAL" by simp_all
    from rest[OF this] ok show ?thesis by auto
  qed
qed

text \<open>When nothing fails and every check passes, an image is returned.\<close>

lemma screenshot_proceeds:
  fixes P :: "('w, 'z) dxgi_platform_scheme"
  assumes desc: "\<forall>h w. \<not> FAILED (fst (fst (IDXGISwapChain_GetDesc P h w))) \<and>
             scd_SwapEffect (snd (fst (IDXGISwapChain_GetDesc P h w))) =
               DXGI_SWAP_EFFECT_FLIP_SEQUENTIAL"
    and buf: "\<forall>h i w. \<not> FAILED (fst (fst (IDXGISwapChain_GetBuffer P h i w)))"
    and td: "\<forall>h w. td_SampleCount (ID3D11Texture2D_GetDesc P h w) \<le> 1 \<and>
             screenshot_imgfmt (td_Format (ID3D11Texture2D_GetDesc P h w)) \<noteq> None"
    and tex: "\<forall>d t w. \<not> FAILED (fst (fst (ID3D11Device_CreateTexture2D P d t w)))"
    and map: "\<forall>c r w. \<not> FAILED (fst (fst (ID3D11DeviceContext_Map P c r w)))"
    and alloc: "\<forall>f x y. mp_image_alloc P f x y \<noteq> None"
  shows "fst (mp_d3d11_screenshot P swapchain w) \<noteq> None"
proof -
  obtain hr1 scd w1 where gd: "IDXGISwapChain_GetDesc P swapchain w = ((hr1, scd), w1)"
    by (metis prod.exhaust)
  obtain hr2 fb w2 where gb:
    "IDXGISwapChain_GetBuffer P swapchain (scd_BufferCount scd - 1) w1 = ((hr2, fb), w2)"
    by (metis prod.exhaust)
  obtain dev w3 where dv: "ID3D11Texture2D_GetDevice P fb w2 = (dev, w3)"
    by (metis prod.exhaust)
  obtain ctx w4 where cx: "ID3D11Device_GetImmediateContext P dev w3 = (ctx, w4)"
    by (metis prod.exhaust)
  define t where "t = ID3D11Texture2D_GetDesc P fb w4"
  define t' where "t' = t\<lparr>td_BindFlags := 0, td_MiscFlags := 0,
                           td_CPUAccessFlags := D3D11_CPU_ACCESS_READ,
                           td_Usage := D3D11_USAGE_STAGING\<rparr>"
  obtain hr3 staging w5 where ct: "ID3D11Device_CreateTexture2D P dev t' w4 = ((hr3, staging), w5)"
    by (metis prod.exhaust)
  obtain hr4 lock w6 where mp: "ID3D11DeviceContext_Map P ctx staging
        (ID3D11DeviceContext_CopyResource P ctx staging fb w5) = ((hr4, lock), w6)"
    by (metis prod.exhaust)
  from desc gd have 1: "\<not> FAILED hr1" "scd_SwapEffect scd = DXGI_SWAP_EFFECT_FLIP_SEQUENTIAL"
    by (metis fst_conv snd_conv)+
  from buf gb have 2: "\<not> FAILED hr2" by (metis fst_conv)
  from td have 3: "\<not> 1 < td_SampleCount t" unfolding t_def by (simp add: not_less)
  from td obtain fmt where 4: "screenshot_imgfmt (td_Format t) = Some fmt"
    unfolding t_def by blast
  from tex ct have 5: "\<not> FAILED hr3" by (metis fst_conv)
  from map mp have 6: "\<not> FAILED hr4" by (metis fst_conv)
  from alloc obtain img where 7: "mp_image_alloc P fmt (sint (td_Width t')) (sint (td_Height t')) = Some img"
    by blast
  show ?thesis
    unfolding mp_d3d11_screenshot_def
    by (simp add: gd 1 gb 2 dv cx t_def[symmetric] 3 4 t'_def[symmetric] ct 5 mp 6 7 Let_def)
qed

text \<open>
  C6. \<open>mp_d3d11_screenshot\<close> returns \<open>NULL\<close>, without asking for a buffer, when the swap
  effect of the swapchain is not flip-sequential; it returns \<open>NULL\<close> when the buffer has
  a sample count above 1 and when the buffer format is neither B8G8R8A8\_UNORM nor
  R8G8B8A8\_UNORM; these two formats map to BGR0 and RGB0. A run that returns an image
  has read exactly one buffer, the one at index \<open>BufferCount - 1\<close> (unsigned 32-bit), and
  its buffer has one of the two formats; no run reads a buffer at another index. When
  no platform call fails, the swap effect is flip-sequential, the sample count is at
  most 1 and the format is one of the two, an image is returned.
\<close>

theorem screenshot_rejections:
  fixes P :: "('w, 'z) dxgi_platform_scheme"
  shows "(scd_SwapEffect (snd (fst (IDXGISwapChain_GetDesc P swapchain w)))
            \<noteq> DXGI_SWAP_EFFECT_FLIP_SEQUENTIAL \<longrightarrow>
          fst (mp_d3d11_screenshot P swapchain w) = None \<and>
          buffer_reads (snd (snd (mp_d3d11_screenshot P swapchain w))) = []) \<and>
         (1 < td_SampleCount (screenshot_buffer_desc P swapchain w) \<longrightarrow>
          fst (mp_d3d11_screenshot P swapchain w) = None) \<and>
         (td_Format (screenshot_buffer_desc P swapchain w) \<noteq> DXGI_FORMAT_B8G8R8A8_UNORM \<and>
          td_Format (screenshot_buffer_desc P swapchain w) \<noteq> DXGI_FORMAT_R8G8B8A8_UNORM \<longrightarrow>
          fst (mp_d3d11_screenshot P swapchain w) = None) \<and>
         screenshot_imgfmt DXGI_FORMAT_B8G8R8A8_UNORM = Some IMGFMT_BGR0 \<and>
         screenshot_imgfmt DXGI_FORMAT_R8G8B8A8_UNORM = Some IMGFMT_RGB0 \<and>
         (fst (mp_d3d11_screenshot P swapchain w) \<noteq> None \<longrightarrow>
          buffer_reads (snd (snd (mp_d3d11_screenshot P swapchain w))) =
            [scd_BufferCount (snd (fst (IDXGISwapChain_GetDesc P swapchain w))) - 1] \<and>
          (\<exists>fmt. screenshot_imgfmt (td_Format (screenshot_buffer_desc P swapchain w)) = Some fmt \<and>
             mp_image_alloc P fmt (sint (td_Width (screenshot_buffer_desc P swapchain w)))
               (sint (td_Height (screenshot_buffer_desc P swapchain w))) \<noteq> None)) \<and>
         (buffer_reads (snd (snd (mp_d3d11_screenshot P swapchain w))) = [] \<or>
          buffer_reads (snd (snd (mp_d3d11_screenshot P swapchain w))) =
            [scd_BufferCount (snd (fst (IDXGISwapChain_GetDesc P swapchain w))) - 1]) \<and>
         ((\<forall>h w. \<not> FAILED (fst (fst (IDXGISwapChain_GetDesc P h w))) \<and>
             scd_SwapEffect (snd (fst (IDXGISwapChain_GetDesc P h w))) =
               DXGI_SWAP_EFFECT_FLIP_SEQUENTIAL) \<and>
          (\<forall>h i w. \<not> FAILED (fst (fst (IDXGISwapChain_GetBuffer P h i w)))) \<and>
          (\<forall>h w. td_SampleCount (ID3D11Texture2D_GetDesc P h w) \<le> 1 \<and>
             screenshot_imgfmt (td_Format (ID3D11Texture2D_GetDesc P h w)) \<noteq> None) \<and>
          (\<forall>d t w. \<not> FAILED (fst (fst (ID3D11Device_CreateTexture2D P d t w)))) \<and>
          (\<forall>c r w. \<not> FAILED (fst (fst (ID3D11DeviceContext_Map P c r w)))) \<and>
          (\<forall>f x y. mp_image_alloc P f x y \<noteq> None) \<longrightarrow>
          fst (mp_d3d11_screenshot P swapchain w) \<noteq> None)"
proof -
  obtain hr1 scd w1 where gd: "IDXGISwapChain_GetDesc P swapchain w = ((hr1, scd), w1)"
    by (metis prod.exhaust)
  obtain hr2 fb w2 where gb:
    "IDXGISwapChain_GetBuffer P swapchain (scd_BufferCount scd - 1) w1 = ((hr2, fb), w2)"
    by (metis prod.exhaust)
  obtain dev w3 where dv: "ID3D11Texture2D_GetDevice P fb w2 = (dev, w3)"
    by (metis prod.exhaust)
  obtain ctx w4 where cx: "ID3D11Device_GetImmediateContext P dev w3 = (ctx, w4)"
    by (metis prod.exhaust)
  note u = screenshot_unfold[OF gd gb dv cx]
  let ?shot = "mp_d3d11_screenshot P swapchain w"
  have 1: "scd_SwapEffect scd \<noteq> DXGI_SWAP_EFFECT_FLIP_SEQUENTIAL \<longrightarrow>
          fst ?shot = None \<and> buffer_reads (snd (snd ?shot)) = []"
    using u(2) by blast
  have 2: "1 < td_SampleCount (screenshot_buffer_desc P swapchain w) \<longrightarrow> fst ?shot = None"
    using u(4) unfolding u(1) by blast
  have 3: "td_Format (screenshot_buffer_desc P swapchain w) \<noteq> DXGI_FORMAT_B8G8R8A8_UNORM \<and>
          td_Format (screenshot_buffer_desc P swapchain w) \<noteq> DXGI_FORMAT_R8G8B8A8_UNORM \<longrightarrow>
          fst ?shot = None"
    using u(4) unfolding u(1) by (simp add: screenshot_imgfmt_cases(3))
  have both: "(buffer_reads (snd (snd ?shot)) = [] \<or>
          buffer_reads (snd (snd ?shot)) = [scd_BufferCount scd - 1]) \<and>
         (fst ?shot \<noteq> None \<longrightarrow> buffer_reads (snd (snd ?shot)) = [scd_BufferCount scd - 1])"
  proof (cases "FAILED hr1 \<or> scd_SwapEffect scd \<noteq> DXGI_SWAP_EFFECT_FLIP_SEQUENTIAL")
    case True
    from u(2)[OF True] show ?thesis by simp
  next
    case False
    then have "\<not> FAILED hr1" "scd_SwapEffect scd = DXGI_SWAP_EFFECT_FLIP_SEQUENTIAL"
      by simp_all
    from u(3)[OF this] show ?thesis by simp
  qed
  note reads = both[THEN conjunct1] and 4 = both[THEN conjunct2]
  have 5: "fst ?shot \<noteq> None \<longrightarrow>
          (\<exists>fmt. screenshot_imgfmt (td_Format (screenshot_buffer_desc P swapchain w)) = Some fmt \<and>
             mp_image_alloc P fmt (sint (td_Width (screenshot_buffer_desc P swapchain w)))
               (sint (td_Height (screenshot_buffer_desc P swapchain w))) \<noteq> None)"
    using u(5) unfolding u(1) by blast
  have 6: "screenshot_imgfmt DXGI_FORMAT_B8G8R8A8_UNORM = Some IMGFMT_BGR0"
    "screenshot_imgfmt DXGI_FORMAT_R8G8B8A8_UNORM = Some IMGFMT_RGB0"
    by (simp_all add: screenshot_imgfmt_cases)
  have 7: "(\<forall>h w. \<not> FAILED (fst (fst (IDXGISwapChain_GetDesc P h w))) \<and>
             scd_SwapEffect (snd (fst (IDXGISwapChain_GetDesc P h w))) =
               DXGI_SWAP_EFFECT_FLIP_SEQUENTIAL) \<and>
          (\<forall>h i w. \<not> FAILED (fst (fst (IDXGISwapChain_GetBuffer P h i w)))) \<and>
          (\<forall>h w. td_SampleCount (ID3D11Texture2D_GetDesc P h w) \<le> 1 \<and>
             screenshot_imgfmt (td_Format (ID3D11Texture2D_GetDesc P h w)) \<noteq> None) \<and>
          (\<forall>d t w. \<not> FAILED (fst (fst (ID3D11Device_CreateTexture2D P d t w)))) \<and>
          (\<forall>c r w. \<not> FAILED (fst (fst (ID3D11DeviceContext_Map P c r w)))) \<and>
          (\<forall>f x y. mp_image_alloc P f x y \<noteq> None) \<longrightarrow>
          fst ?shot \<noteq> None"
    by (intro impI, elim conjE) (rule screenshot_proceeds)
  have e1: "scd_SwapEffect (snd (fst (IDXGISwapChain_GetDesc P swapchain w)))
            \<noteq> DXGI_SWAP_EFFECT_FLIP_SEQUENTIAL \<longrightarrow>
          fst ?shot = None \<and> buffer_reads (snd (snd ?shot)) = []"
    using 1 by (simp add: gd)
  have e4: "fst ?shot \<noteq> None \<longrightarrow>
          buffer_reads (snd (snd ?shot)) =
            [scd_BufferCount (snd (fst (IDXGISwapChain_GetDesc P swapchain w))) - 1] \<and>
          (\<exists>fmt. screenshot_imgfmt (td_Format (screenshot_buffer_desc P swapchain w)) = Some fmt \<and>
             mp_image_alloc P fmt (sint (td_Width (screenshot_buffer_desc P swapchain w)))
               (sint (td_Height (screenshot_buffer_desc P swapchain w))) \<noteq> None)"
    using 4 5 by (simp add: gd)
  have er: "buffer_reads (snd (snd ?shot)) = [] \<or>
          buffer_reads (snd (snd ?shot)) =
            [scd_BufferCount (snd (fst (IDXGISwapChain_GetDesc P swapchain w))) - 1]"
    using reads by (simp add: gd)
  show ?thesis
    by (intro conjI) (rule e1 2 3 6 e4 er 7)+
qed

text \<open>
  The theorem at a flip-sequential swapchain of three buffers whose buffers are
  single-sampled B8G8R8A8: the capture reads the buffer at index 2 and returns an image.
  And at a discard swapchain, at a buffer with four samples and at a buffer of another
  format: no image.
\<close>

theorem screenshot_rejections_witness:
  "fst (mp_d3d11_screenshot
          (scenario_dxgi True (\<lambda>d. True) (flip_scd DXGI_SWAP_EFFECT_FLIP_SEQUENTIAL 3)
             (buffer_td DXGI_FORMAT_B8G8R8A8_UNORM 1)) 7 ()) \<noteq> None \<and>
   buffer_reads (snd (snd (mp_d3d11_screenshot
          (scenario_dxgi True (\<lambda>d. True) (flip_scd DXGI_SWAP_EFFECT_FLIP_SEQUENTIAL 3)
             (buffer_td DXGI_FORMAT_B8G8R8A8_UNORM 1)) 7 ()))) = [2] \<and>
   fst (mp_d3d11_screenshot
          (scenario_dxgi True (\<lambda>d. True) (flip_scd DXGI_SWAP_EFFECT_DISCARD 1)
             (buffer_td DXGI_FORMAT_B8G8R8A8_UNORM 1)) 7 ()) = None \<and>
   fst (mp_d3d11_screenshot
          (scenario_dxgi True (\<lambda>d. True) (flip_scd DXGI_SWAP_EFFECT_FLIP_SEQUENTIAL 3)
             (buffer_td DXGI_FORMAT_B8G8R8A8_UNORM 4)) 7 ()) = None \<and>
   fst (mp_d3d11_screenshot
          (scenario_dxgi True (\<lambda>d. True) (flip_scd DXGI_SWAP_EFFECT_FLIP_SEQUENTIAL 3)
             (buffer_td 24 1)) 7 ()) = None"
proof -
  let ?P = "scenario_dxgi True (\<lambda>d. True) (flip_scd DXGI_SWAP_EFFECT_FLIP_SEQUENTIAL 3)
             (buffer_td DXGI_FORMAT_B8G8R8A8_UNORM 1)"
  note z = screenshot_rejections [where P = ?P and swapchain = 7 and w = "()"]
  note z5 = z[THEN conjunct2, THEN conjunct2, THEN conjunct2, THEN conjunct2, THEN conjunct2]
  have h: "(\<forall>h w. \<not> FAILED (fst (fst (IDXGISwapChain_GetDesc ?P h w))) \<and>
             scd_SwapEffect (snd (fst (IDXGISwapChain_GetDesc ?P h w))) =
               DXGI_SWAP_EFFECT_FLIP_SEQUENTIAL) \<and>
          (\<forall>h i w. \<not> FAILED (fst (fst (IDXGISwapChain_GetBuffer ?P h i w)))) \<and>
          (\<forall>h w. td_SampleCount (ID3D11Texture2D_GetDesc ?P h w) \<le> 1 \<and>
             screenshot_imgfmt (td_Format (ID3D11Texture2D_GetDesc ?P h w)) \<noteq> None) \<and>
          (\<forall>d t w. \<not> FAILED (fst (fst (ID3D11Device_CreateTexture2D ?P d t w)))) \<and>
          (\<forall>c r w. \<not> FAILED (fst (fst (ID3D11DeviceContext_Map ?P c r w)))) \<and>
          (\<forall>f x y. mp_image_alloc ?P f x y \<noteq> None)"
    by (simp add: scenario_dxgi_def flip_scd_def buffer_td_def FAILED_def S_OK_def
          screenshot_imgfmt_def)
  have ok: "fst (mp_d3d11_screenshot ?P 7 ()) \<noteq> None"
    by (rule z5[THEN conjunct2, THEN conjunct2, THEN mp, OF h])
  have c: "scd_BufferCount (snd (fst (IDXGISwapChain_GetDesc ?P 7 ()))) - 1 = 2"
    by (simp add: scenario_dxgi_def flip_scd_def)
  from z5[THEN conjunct1, THEN mp, OF ok, THEN conjunct1]
  have r: "buffer_reads (snd (snd (mp_d3d11_screenshot ?P 7 ()))) = [2]"
    unfolding c .
  let ?D = "scenario_dxgi True (\<lambda>d. True) (flip_scd DXGI_SWAP_EFFECT_DISCARD 1)
             (buffer_td DXGI_FORMAT_B8G8R8A8_UNORM 1)"
  let ?M = "scenario_dxgi True (\<lambda>d. True) (flip_scd DXGI_SWAP_EFFECT_FLIP_SEQUENTIAL 3)
             (buffer_td DXGI_FORMAT_B8G8R8A8_UNORM 4)"
  let ?F = "scenario_dxgi True (\<lambda>d. True) (flip_scd DXGI_SWAP_EFFECT_FLIP_SEQUENTIAL 3)
             (buffer_td 24 1)"
  have hd: "scd_SwapEffect (snd (fst (IDXGISwapChain_GetDesc ?D 7 ())))
              \<noteq> DXGI_SWAP_EFFECT_FLIP_SEQUENTIAL"
    by code_simp
  have hm: "1 < td_SampleCount (screenshot_buffer_desc ?M 7 ())"
    by code_simp
  have hf: "td_Format (screenshot_buffer_desc ?F 7 ()) \<noteq> DXGI_FORMAT_B8G8R8A8_UNORM \<and>
            td_Format (screenshot_buffer_desc ?F 7 ()) \<noteq> DXGI_FORMAT_R8G8B8A8_UNORM"
    by code_simp
  note zd = screenshot_rejections [where P = ?D and swapchain = 7 and w = "()",
      THEN conjunct1, THEN mp, OF hd, THEN conjunct1]
  note zm = screenshot_rejections [where P = ?M and swapchain = 7 and w = "()",
      THEN conjunct2, THEN conjunct1, THEN mp, OF hm]
  note zf = screenshot_rejections [where P = ?F and swapchain = 7 and w = "()",
      THEN conjunct2, THEN conjunct2, THEN conjunct1, THEN mp, OF hf]
  show ?thesis
    by (intro conjI) (rule ok r zd zm zf)+
qed

section \<open>Properties of the VideoToolbox interop\<close>

lemma bound_textures_append [simp]:
  "bound_textures (xs @ ys) = bound_textures xs @ bound_textures ys"
  by (induction xs rule: bound_textures.induct) simp_all

lemma tex_images_append [simp]:
  "tex_images (xs @ ys) = tex_images xs @ tex_images ys"
  by (induction xs rule: tex_images.induct) simp_all

lemma plane_errors_append [simp]:
  "plane_errors (xs @ ys) = plane_errors xs @ plane_errors ys"
  by (induction xs rule: plane_errors.induct) simp_all

lemma gen_calls_append [simp]:
  "gen_calls (xs @ ys) = gen_calls xs + gen_calls ys"
  by (induction xs rule: gen_calls.induct) simp_all

lemma failed_planes_append [simp]:
  "failed_planes (xs @ ys) = failed_planes xs @ failed_planes ys"
  by (simp add: failed_planes_def)

lemma find_cvpixfmt_None:
  "find_cvpixfmt fs c = None \<longleftrightarrow> c \<notin> vf_cvpixfmt ` set fs"
  by (induction fs) auto

lemma find_cvpixfmt_Some:
  "find_cvpixfmt fs c = Some f \<Longrightarrow> f \<in> set fs \<and> vf_cvpixfmt f = c"
  by (induction fs) (auto split: if_splits)

lemma vt_get_gl_format_None:
  "vt_get_gl_format c = None \<longleftrightarrow> c \<notin> vf_cvpixfmt ` set vt_formats"
  by (simp add: vt_get_gl_format_def find_cvpixfmt_None)

lemma vt_formats_planes:
  "f \<in> set vt_formats \<Longrightarrow> 1 \<le> vf_planes f \<and> vf_planes f \<le> 3"
  by (auto simp: vt_formats_def)

lemma vt_get_gl_format_planes:
  "vt_get_gl_format c = Some f \<Longrightarrow> 1 \<le> vf_planes f \<and> vf_planes f \<le> 3"
  using find_cvpixfmt_Some[of vt_formats c f] vt_formats_planes[of f]
  by (simp add: vt_get_gl_format_def)

lemma map_planes_done:
  "\<not> int i < vf_planes f \<Longrightarrow> map_planes P p f s i out w = (out, w, [])"
  by (subst map_planes.simps) simp

lemma map_planes_spec:
  "nat (vf_planes f) - i = k \<Longrightarrow>
     bound_textures (snd (snd (map_planes P p f s i out w))) =
       concat (map (\<lambda>j. [gl_planes p j, 0]) [i..<nat (vf_planes f)]) \<and>
     map (\<lambda>(c, err). ti_plane c) (tex_images (snd (snd (map_planes P p f s i out w)))) =
       [i..<nat (vf_planes f)] \<and>
     plane_errors (snd (snd (map_planes P p f s i out w))) =
       failed_planes (snd (snd (map_planes P p f s i out w))) \<and>
     gen_calls (snd (snd (map_planes P p f s i out w))) = 0 \<and>
     fr_swizzle (fst (map_planes P p f s i out w)) = fr_swizzle out \<and>
     (\<forall>j. fr_planes (fst (map_planes P p f s i out w)) j =
         (if i \<le> j \<and> int j < vf_planes f then plane_desc P p s j else fr_planes out j))"
proof (induction k arbitrary: i out w)
  case 0
  then have "\<not> int i < vf_planes f" by linarith
  then show ?case by (auto simp: map_planes_done failed_planes_def)
next
  case (Suc k)
  then have lt: "int i < vf_planes f" by linarith
  then have up: "[i..<nat (vf_planes f)] = i # [Suc i..<nat (vf_planes f)]"
    by (simp add: upt_conv_Cons)
  from Suc.prems have k: "nat (vf_planes f) - Suc i = k" by simp
  note IH = Suc.IH[OF k]
  show ?case
    apply (subst map_planes.simps)
    apply (subst (2) map_planes.simps)
    apply (subst (3) map_planes.simps)
    apply (subst (4) map_planes.simps)
    apply (subst (5) map_planes.simps)
    apply (subst (6) map_planes.simps)
    apply (subst (7) map_planes.simps)
    apply (simp add: lt up Let_def case_prod_beta IH failed_planes_def plane_desc_def)
    done
qed

lemma map_frame_no_surface:
  assumes "CVPixelBufferGetIOSurface P (planes3 hw_image) = 0"
  shows "map_frame P p hw_image out_frame w =
     \<lparr>mr_ret = Inr (- 1), mr_priv = p\<lparr>pbuf := planes3 hw_image\<rparr>, mr_frame = out_frame,
      mr_world = CVPixelBufferRetain P (planes3 hw_image) (CVPixelBufferRelease P (pbuf p) w),
      mr_events = [Release_Buffer (pbuf p), Retain_Buffer (planes3 hw_image),
                   Log_osx Msg_no_IOSurface]\<rparr>"
  using assms by (simp add: map_frame_def Let_def)

lemma map_frame_no_format:
  assumes "CVPixelBufferGetIOSurface P (planes3 hw_image) \<noteq> 0"
    and "vt_get_gl_format (CVPixelBufferGetPixelFormatType P (planes3 hw_image)) = None"
  shows "map_frame P p hw_image out_frame w =
     \<lparr>mr_ret = Inr (- 1), mr_priv = p\<lparr>pbuf := planes3 hw_image\<rparr>, mr_frame = out_frame,
      mr_world = CVPixelBufferRetain P (planes3 hw_image) (CVPixelBufferRelease P (pbuf p) w),
      mr_events = [Release_Buffer (pbuf p), Retain_Buffer (planes3 hw_image),
                   Log_osx Msg_unsupported_format]\<rparr>"
  using assms by (simp add: map_frame_def Let_def)

lemma map_frame_assert:
  assumes "CVPixelBufferGetIOSurface P (planes3 hw_image) \<noteq> 0"
    and "vt_get_gl_format (CVPixelBufferGetPixelFormatType P (planes3 hw_image)) = Some f"
    and "\<not> (CVPixelBufferIsPlanar P (planes3 hw_image) \<and>
            size_to_int (CVPixelBufferGetPlaneCount P (planes3 hw_image)) = vf_planes f \<or>
            vf_planes f = 1)"
  shows "map_frame P p hw_image out_frame w =
     \<lparr>mr_ret = Inl Assertion_failed, mr_priv = p\<lparr>pbuf := planes3 hw_image\<rparr>,
      mr_frame = out_frame,
      mr_world = CVPixelBufferRetain P (planes3 hw_image) (CVPixelBufferRelease P (pbuf p) w),
      mr_events = [Release_Buffer (pbuf p), Retain_Buffer (planes3 hw_image)]\<rparr>"
  using assms by (simp add: map_frame_def Let_def)

lemma map_frame_planes:
  assumes "CVPixelBufferGetIOSurface P (planes3 hw_image) \<noteq> 0"
    and "vt_get_gl_format (CVPixelBufferGetPixelFormatType P (planes3 hw_image)) = Some f"
    and "CVPixelBufferIsPlanar P (planes3 hw_image) \<and>
            size_to_int (CVPixelBufferGetPlaneCount P (planes3 hw_image)) = vf_planes f \<or>
            vf_planes f = 1"
  shows "mr_ret (map_frame P p hw_image out_frame w) = Inr 0"
    and "mr_priv (map_frame P p hw_image out_frame w) = p\<lparr>pbuf := planes3 hw_image\<rparr>"
    and "mr_events (map_frame P p hw_image out_frame w) =
          [Release_Buffer (pbuf p), Retain_Buffer (planes3 hw_image)] @
          snd (snd (map_planes P (p\<lparr>pbuf := planes3 hw_image\<rparr>) f
             (CVPixelBufferGetIOSurface P (planes3 hw_image)) 0 out_frame
             (CVPixelBufferRetain P (planes3 hw_image) (CVPixelBufferRelease P (pbuf p) w))))"
    and "mr_frame (map_frame P p hw_image out_frame w) =
          (fst (map_planes P (p\<lparr>pbuf := planes3 hw_image\<rparr>) f
             (CVPixelBufferGetIOSurface P (planes3 hw_image)) 0 out_frame
             (CVPixelBufferRetain P (planes3 hw_image) (CVPixelBufferRelease P (pbuf p) w))))
          \<lparr>fr_swizzle := vf_swizzle f\<rparr>"
  using assms by (auto simp add: map_frame_def Let_def case_prod_beta)

lemma map_frame_mapped:
  assumes "CVPixelBufferGetIOSurface P (planes3 hw_image) \<noteq> 0"
    and "vt_get_gl_format (CVPixelBufferGetPixelFormatType P (planes3 hw_image)) = Some f"
    and "CVPixelBufferIsPlanar P (planes3 hw_image) \<and>
            size_to_int (CVPixelBufferGetPlaneCount P (planes3 hw_image)) = vf_planes f \<or>
            vf_planes f = 1"
  shows "mr_ret (map_frame P p hw_image out_frame w) = Inr 0"
    and "gl_planes (mr_priv (map_frame P p hw_image out_frame w)) = gl_planes p"
    and "bound_textures (mr_events (map_frame P p hw_image out_frame w)) =
           rebinds p (nat (vf_planes f))"
    and "map (\<lambda>(c, err). ti_plane c) (tex_images (mr_events (map_frame P p hw_image out_frame w)))
           = [0..<nat (vf_planes f)]"
    and "plane_errors (mr_events (map_frame P p hw_image out_frame w)) =
           failed_planes (mr_events (map_frame P p hw_image out_frame w))"
    and "gen_calls (mr_events (map_frame P p hw_image out_frame w)) = 0"
    and "int i < vf_planes f \<Longrightarrow>
           fr_planes (mr_frame (map_frame P p hw_image out_frame w)) i =
             plane_desc P p (CVPixelBufferGetIOSurface P (planes3 hw_image)) i"
    and "\<not> int i < vf_planes f \<Longrightarrow>
           fr_planes (mr_frame (map_frame P p hw_image out_frame w)) i = fr_planes out_frame i"
proof -
  note m = map_frame_planes[OF assms, of p out_frame w]
  note s = map_planes_spec[OF refl, where f = f and i = 0 and P = P
      and p = "p\<lparr>pbuf := planes3 hw_image\<rparr>"
      and s = "CVPixelBufferGetIOSurface P (planes3 hw_image)" and out = out_frame
      and w = "CVPixelBufferRetain P (planes3 hw_image) (CVPixelBufferRelease P (pbuf p) w)"]
  show "mr_ret (map_frame P p hw_image out_frame w) = Inr 0" by (rule m(1))
  show "gl_planes (mr_priv (map_frame P p hw_image out_frame w)) = gl_planes p"
    unfolding m(2) by simp
  show "bound_textures (mr_events (map_frame P p hw_image out_frame w)) =
           rebinds p (nat (vf_planes f))"
    unfolding m(3) using s by (simp add: rebinds_def)
  show "map (\<lambda>(c, err). ti_plane c) (tex_images (mr_events (map_frame P p hw_image out_frame w)))
           = [0..<nat (vf_planes f)]"
    unfolding m(3) using s by simp
  show "plane_errors (mr_events (map_frame P p hw_image out_frame w)) =
           failed_planes (mr_events (map_frame P p hw_image out_frame w))"
    unfolding m(3) using s by (simp add: failed_planes_def)
  show "gen_calls (mr_events (map_frame P p hw_image out_frame w)) = 0"
    unfolding m(3) using s by simp
  show "fr_planes (mr_frame (map_frame P p hw_image out_frame w)) i =
             plane_desc P p (CVPixelBufferGetIOSurface P (planes3 hw_image)) i"
    if "int i < vf_planes f"
    unfolding m(4) using s that by (simp add: plane_desc_def)
  show "fr_planes (mr_frame (map_frame P p hw_image out_frame w)) i = fr_planes out_frame i"
    if "\<not> int i < vf_planes f"
    unfolding m(4) using s that by simp
qed

lemma map_frame_ret:
  "mr_ret (map_frame P p hw_image out_frame w) =
     (if CVPixelBufferGetIOSurface P (planes3 hw_image) = 0 then Inr (- 1)
      else case vt_get_gl_format (CVPixelBufferGetPixelFormatType P (planes3 hw_image)) of
             None \<Rightarrow> Inr (- 1)
           | Some f \<Rightarrow>
               if CVPixelBufferIsPlanar P (planes3 hw_image) \<and>
                  size_to_int (CVPixelBufferGetPlaneCount P (planes3 hw_image)) = vf_planes f \<or>
                  vf_planes f = 1
               then Inr 0 else Inl Assertion_failed)"
  by (simp add: map_frame_def Let_def case_prod_beta split: option.splits)

lemma map_frame_cases:
  fixes P :: "'w osx_platform"
  obtains (no_surface) "CVPixelBufferGetIOSurface P (planes3 hw_image) = 0"
    | (no_format) "CVPixelBufferGetIOSurface P (planes3 hw_image) \<noteq> 0"
        "vt_get_gl_format (CVPixelBufferGetPixelFormatType P (planes3 hw_image)) = None"
    | (assert) f where "CVPixelBufferGetIOSurface P (planes3 hw_image) \<noteq> 0"
        "vt_get_gl_format (CVPixelBufferGetPixelFormatType P (planes3 hw_image)) = Some f"
        "\<not> (CVPixelBufferIsPlanar P (planes3 hw_image) \<and>
            size_to_int (CVPixelBufferGetPlaneCount P (planes3 hw_image)) = vf_planes f \<or>
            vf_planes f = 1)"
    | (mapped) f where "CVPixelBufferGetIOSurface P (planes3 hw_image) \<noteq> 0"
        "vt_get_gl_format (CVPixelBufferGetPixelFormatType P (planes3 hw_image)) = Some f"
        "CVPixelBufferIsPlanar P (planes3 hw_image) \<and>
            size_to_int (CVPixelBufferGetPlaneCount P (planes3 hw_image)) = vf_planes f \<or>
            vf_planes f = 1"
  by (cases "vt_get_gl_format (CVPixelBufferGetPixelFormatType P (planes3 hw_image))") blast+

lemma map_frame_untouched:
  fixes P :: "'w osx_platform"
  assumes "mr_ret (map_frame P p hw_image out_frame w) \<noteq> Inr 0"
  shows "bound_textures (mr_events (map_frame P p hw_image out_frame w)) = []"
    and "tex_images (mr_events (map_frame P p hw_image out_frame w)) = []"
    and "mr_frame (map_frame P p hw_image out_frame w) = out_frame"
proof -
  have "bound_textures (mr_events (map_frame P p hw_image out_frame w)) = [] \<and>
        tex_images (mr_events (map_frame P p hw_image out_frame w)) = [] \<and>
        mr_frame (map_frame P p hw_image out_frame w) = out_frame"
  proof (cases rule: map_frame_cases[of P hw_image])
    case no_surface
    show ?thesis unfolding map_frame_no_surface[OF no_surface] by simp
  next
    case no_format
    show ?thesis unfolding map_frame_no_format[OF no_format] by simp
  next
    case (assert f)
    show ?thesis unfolding map_frame_assert[OF assert] by simp
  next
    case (mapped f)
    from map_frame_planes(1)[OF mapped, of p out_frame w] assms show ?thesis by simp
  qed
  then show "bound_textures (mr_events (map_frame P p hw_image out_frame w)) = []"
    and "tex_images (mr_events (map_frame P p hw_image out_frame w)) = []"
    and "mr_frame (map_frame P p hw_image out_frame w) = out_frame"
    by simp_all
qed

lemma map_frame_keeps:
  fixes P :: "'w osx_platform"
  shows "gen_calls (mr_events (map_frame P p hw_image out_frame w)) = 0 \<and>
   gl_planes (mr_priv (map_frame P p hw_image out_frame w)) = gl_planes p"
proof (cases rule: map_frame_cases[of P hw_image])
  case no_surface
  show ?thesis unfolding map_frame_no_surface[OF no_surface] by simp
next
  case no_format
  show ?thesis unfolding map_frame_no_format[OF no_format] by simp
next
  case (assert f)
  show ?thesis unfolding map_frame_assert[OF assert] by simp
next
  case (mapped f)
  from map_frame_mapped(2,6)[OF mapped, where p = p and out_frame = out_frame and w = w] show ?thesis by simp
qed

lemma map_frame_success:
  assumes "mr_ret (map_frame P p hw_image out_frame w) = Inr 0"
  obtains f where
    "CVPixelBufferGetIOSurface P (planes3 hw_image) \<noteq> 0"
    "vt_get_gl_format (CVPixelBufferGetPixelFormatType P (planes3 hw_image)) = Some f"
    "CVPixelBufferIsPlanar P (planes3 hw_image) \<and>
       size_to_int (CVPixelBufferGetPlaneCount P (planes3 hw_image)) = vf_planes f \<or>
       vf_planes f = 1"
  using assms unfolding map_frame_ret by (auto split: option.splits if_splits)


text \<open>
  C7. \<open>map_frame\<close> returns \<open>-1\<close> exactly when the pixel buffer has no \<open>IOSurface\<close> or
  reports a pixel format that no entry of \<open>vt_formats\<close> has. In that case no texture is
  bound, no surface plane is attached, no texture name is generated, the output frame is
  left as it was and the texture names in \<open>p->gl_planes\<close> are unchanged.
\<close>

theorem unknown_format_fails_untouched:
  fixes P :: "'w osx_platform"
  shows "(mr_ret (map_frame P p hw_image out_frame w) = Inr (- 1)) =
           (CVPixelBufferGetIOSurface P (planes3 hw_image) = 0 \<or>
            CVPixelBufferGetPixelFormatType P (planes3 hw_image) \<notin> vf_cvpixfmt ` set vt_formats) \<and>
         (CVPixelBufferGetIOSurface P (planes3 hw_image) = 0 \<or>
          CVPixelBufferGetPixelFormatType P (planes3 hw_image) \<notin> vf_cvpixfmt ` set vt_formats \<longrightarrow>
            bound_textures (mr_events (map_frame P p hw_image out_frame w)) = [] \<and>
            tex_images (mr_events (map_frame P p hw_image out_frame w)) = [] \<and>
            gen_calls (mr_events (map_frame P p hw_image out_frame w)) = 0 \<and>
            mr_frame (map_frame P p hw_image out_frame w) = out_frame \<and>
            gl_planes (mr_priv (map_frame P p hw_image out_frame w)) = gl_planes p)"
proof -
  let ?r = "map_frame P p hw_image out_frame w"
  have iff: "(mr_ret ?r = Inr (- 1)) =
           (CVPixelBufferGetIOSurface P (planes3 hw_image) = 0 \<or>
            CVPixelBufferGetPixelFormatType P (planes3 hw_image) \<notin> vf_cvpixfmt ` set vt_formats)"
    unfolding map_frame_ret vt_get_gl_format_None[symmetric]
    by (simp split: option.splits)
  have rest: "bound_textures (mr_events ?r) = [] \<and> tex_images (mr_events ?r) = [] \<and>
            gen_calls (mr_events ?r) = 0 \<and> mr_frame ?r = out_frame \<and>
            gl_planes (mr_priv ?r) = gl_planes p"
    if "CVPixelBufferGetIOSurface P (planes3 hw_image) = 0 \<or>
          CVPixelBufferGetPixelFormatType P (planes3 hw_image) \<notin> vf_cvpixfmt ` set vt_formats"
  proof -
    from that iff have "mr_ret ?r = Inr (- 1)" by simp
    then have "mr_ret ?r \<noteq> Inr 0" by simp
    from map_frame_untouched[OF this] map_frame_keeps[of P p hw_image out_frame w]
    show ?thesis by simp
  qed
  from iff rest show ?thesis by blast
qed

text \<open>
  The theorem at a buffer whose format (\<open>RGBA\<close>) the table lacks, and at a buffer
  without a surface.
\<close>

theorem unknown_format_fails_untouched_witness:
  "mr_ret (map_frame (scenario_osx scenario_bufs []) zero_priv \<lparr>planes3 = 4\<rparr> empty_frame ())
     = Inr (- 1) \<and>
   bound_textures (mr_events
     (map_frame (scenario_osx scenario_bufs []) zero_priv \<lparr>planes3 = 4\<rparr> empty_frame ())) = [] \<and>
   mr_frame (map_frame (scenario_osx scenario_bufs []) zero_priv \<lparr>planes3 = 4\<rparr> empty_frame ())
     = empty_frame \<and>
   mr_ret (map_frame (scenario_osx scenario_bufs []) zero_priv \<lparr>planes3 = 5\<rparr> empty_frame ())
     = Inr (- 1)"
proof -
  let ?P = "scenario_osx scenario_bufs []"
  have h: "CVPixelBufferGetIOSurface ?P (planes3 \<lparr>planes3 = 4\<rparr>) = 0 \<or>
     CVPixelBufferGetPixelFormatType ?P (planes3 \<lparr>planes3 = 4\<rparr>) \<notin> vf_cvpixfmt ` set vt_formats"
    by (simp add: scenario_osx_def scenario_bufs_def vt_formats_def
          kCVPixelFormatType_420YpCbCr8BiPlanarVideoRange_def kCVPixelFormatType_422YpCbCr8_def
          kCVPixelFormatType_420YpCbCr8Planar_def kCVPixelFormatType_32BGRA_def)
  note z = unknown_format_fails_untouched [where P = ?P and p = zero_priv
      and hw_image = "\<lparr>planes3 = 4\<rparr>" and out_frame = empty_frame and w = "()"]
  note r = z[THEN conjunct1, THEN iffD2, OF h]
  note u = z[THEN conjunct2, THEN mp, OF h]
  have h5: "CVPixelBufferGetIOSurface ?P (planes3 \<lparr>planes3 = 5\<rparr>) = 0 \<or>
     CVPixelBufferGetPixelFormatType ?P (planes3 \<lparr>planes3 = 5\<rparr>) \<notin> vf_cvpixfmt ` set vt_formats"
    by (simp add: scenario_osx_def scenario_bufs_def)
  note r5 = unknown_format_fails_untouched [where P = ?P and p = zero_priv
      and hw_image = "\<lparr>planes3 = 5\<rparr>" and out_frame = empty_frame and w = "()",
      THEN conjunct1, THEN iffD2, OF h5]
  show ?thesis
    by (intro conjI)
       (rule r u[THEN conjunct1]
             u[THEN conjunct2, THEN conjunct2, THEN conjunct2, THEN conjunct1] r5)+
qed

lemma no_surface_run:
  "mr_ret (map_frame (scenario_osx scenario_bufs []) zero_priv \<lparr>planes3 = 5\<rparr> empty_frame ())
     = Inr (- 1) \<and>
   mr_events (map_frame (scenario_osx scenario_bufs []) zero_priv \<lparr>planes3 = 5\<rparr> empty_frame ())
     = [Release_Buffer 0, Retain_Buffer 5, Log_osx Msg_no_IOSurface]"
  by code_simp

text \<open>
  C8. A run of \<open>map_frame\<close> in which \<open>CGLTexImageIOSurface2D\<close> returned an error for
  some plane returns 0: an error is logged for exactly the planes whose attach call
  returned an error, the attach call is made for every plane \<open>0 .. f->planes - 1\<close> of
  the table entry \<open>f\<close> in order, and the descriptor of every plane below \<open>f->planes\<close>
  is written to the output frame, the failed planes included. The same holds of every
  run that reaches the plane loop (the buffer has a surface, its format has the entry
  \<open>f\<close>, the assertion on the plane count holds), whatever the attach calls return.
\<close>

theorem plane_errors_logged_not_fatal:
  fixes P :: "'w osx_platform"
  shows "(failed_planes (mr_events (map_frame P p hw_image out_frame w)) \<noteq> [] \<longrightarrow>
           mr_ret (map_frame P p hw_image out_frame w) = Inr 0 \<and>
           plane_errors (mr_events (map_frame P p hw_image out_frame w)) =
             failed_planes (mr_events (map_frame P p hw_image out_frame w)) \<and>
           (\<exists>f. vt_get_gl_format (CVPixelBufferGetPixelFormatType P (planes3 hw_image)) = Some f \<and>
              map (\<lambda>(c, err). ti_plane c)
                  (tex_images (mr_events (map_frame P p hw_image out_frame w))) =
                [0..<nat (vf_planes f)] \<and>
              (\<forall>i. int i < vf_planes f \<longrightarrow>
                 fr_planes (mr_frame (map_frame P p hw_image out_frame w)) i =
                   plane_desc P p (CVPixelBufferGetIOSurface P (planes3 hw_image)) i))) \<and>
         (CVPixelBufferGetIOSurface P (planes3 hw_image) \<noteq> 0 \<and>
          vt_get_gl_format (CVPixelBufferGetPixelFormatType P (planes3 hw_image)) = Some f \<and>
          (CVPixelBufferIsPlanar P (planes3 hw_image) \<and>
             size_to_int (CVPixelBufferGetPlaneCount P (planes3 hw_image)) = vf_planes f \<or>
           vf_planes f = 1) \<longrightarrow>
           mr_ret (map_frame P p hw_image out_frame w) = Inr 0 \<and>
           map (\<lambda>(c, err). ti_plane c)
               (tex_images (mr_events (map_frame P p hw_image out_frame w))) =
             [0..<nat (vf_planes f)] \<and>
           plane_errors (mr_events (map_frame P p hw_image out_frame w)) =
             failed_planes (mr_events (map_frame P p hw_image out_frame w)) \<and>
           (\<forall>i. int i < vf_planes f \<longrightarrow>
              fr_planes (mr_frame (map_frame P p hw_image out_frame w)) i =
                plane_desc P p (CVPixelBufferGetIOSurface P (planes3 hw_image)) i))"
proof -
  let ?r = "map_frame P p hw_image out_frame w"
  have reached: "mr_ret ?r = Inr 0 \<and>
           map (\<lambda>(c, err). ti_plane c) (tex_images (mr_events ?r)) = [0..<nat (vf_planes g)] \<and>
           plane_errors (mr_events ?r) = failed_planes (mr_events ?r) \<and>
           (\<forall>i. int i < vf_planes g \<longrightarrow>
              fr_planes (mr_frame ?r) i =
                plane_desc P p (CVPixelBufferGetIOSurface P (planes3 hw_image)) i)"
    if a: "CVPixelBufferGetIOSurface P (planes3 hw_image) \<noteq> 0"
      "vt_get_gl_format (CVPixelBufferGetPixelFormatType P (planes3 hw_image)) = Some g"
      "CVPixelBufferIsPlanar P (planes3 hw_image) \<and>
            size_to_int (CVPixelBufferGetPlaneCount P (planes3 hw_image)) = vf_planes g \<or>
          vf_planes g = 1"
    for g
  proof -
    note m = map_frame_mapped[OF a, where p = p and out_frame = out_frame and w = w]
    show ?thesis
      by (intro conjI allI impI) (rule m(1) m(4) m(5) m(7), assumption?)+
  qed
  have A: "failed_planes (mr_events ?r) \<noteq> [] \<longrightarrow>
           mr_ret ?r = Inr 0 \<and>
           plane_errors (mr_events ?r) = failed_planes (mr_events ?r) \<and>
           (\<exists>f. vt_get_gl_format (CVPixelBufferGetPixelFormatType P (planes3 hw_image)) = Some f \<and>
              map (\<lambda>(c, err). ti_plane c) (tex_images (mr_events ?r)) = [0..<nat (vf_planes f)] \<and>
              (\<forall>i. int i < vf_planes f \<longrightarrow>
                 fr_planes (mr_frame ?r) i =
                   plane_desc P p (CVPixelBufferGetIOSurface P (planes3 hw_image)) i))"
  proof
    assume ne: "failed_planes (mr_events ?r) \<noteq> []"
    have ok: "mr_ret ?r = Inr 0"
    proof (rule ccontr)
      assume "mr_ret ?r \<noteq> Inr 0"
      from map_frame_untouched(2)[OF this] have "failed_planes (mr_events ?r) = []"
        by (simp add: failed_planes_def)
      with ne show False by simp
    qed
    from ok obtain g where a:
      "CVPixelBufferGetIOSurface P (planes3 hw_image) \<noteq> 0"
      "vt_get_gl_format (CVPixelBufferGetPixelFormatType P (planes3 hw_image)) = Some g"
      "CVPixelBufferIsPlanar P (planes3 hw_image) \<and>
         size_to_int (CVPixelBufferGetPlaneCount P (planes3 hw_image)) = vf_planes g \<or>
         vf_planes g = 1"
      by (rule map_frame_success)
    note r = reached[OF a]
    have ex: "\<exists>f. vt_get_gl_format (CVPixelBufferGetPixelFormatType P (planes3 hw_image)) = Some f \<and>
              map (\<lambda>(c, err). ti_plane c) (tex_images (mr_events ?r)) = [0..<nat (vf_planes f)] \<and>
              (\<forall>i. int i < vf_planes f \<longrightarrow>
                 fr_planes (mr_frame ?r) i =
                   plane_desc P p (CVPixelBufferGetIOSurface P (planes3 hw_image)) i)"
      by (intro exI[of _ g] conjI)
         (rule a(2) r[THEN conjunct2, THEN conjunct1]
               r[THEN conjunct2, THEN conjunct2, THEN conjunct2])+
    show "mr_ret ?r = Inr 0 \<and>
           plane_errors (mr_events ?r) = failed_planes (mr_events ?r) \<and>
           (\<exists>f. vt_get_gl_format (CVPixelBufferGetPixelFormatType P (planes3 hw_image)) = Some f \<and>
              map (\<lambda>(c, err). ti_plane c) (tex_images (mr_events ?r)) = [0..<nat (vf_planes f)] \<and>
              (\<forall>i. int i < vf_planes f \<longrightarrow>
                 fr_planes (mr_frame ?r) i =
                   plane_desc P p (CVPixelBufferGetIOSurface P (planes3 hw_image)) i))"
      by (intro conjI) (rule ok r[THEN conjunct2, THEN conjunct2, THEN conjunct1] ex)+
  qed
  have B: "CVPixelBufferGetIOSurface P (planes3 hw_image) \<noteq> 0 \<and>
          vt_get_gl_format (CVPixelBufferGetPixelFormatType P (planes3 hw_image)) = Some f \<and>
          (CVPixelBufferIsPlanar P (planes3 hw_image) \<and>
             size_to_int (CVPixelBufferGetPlaneCount P (planes3 hw_image)) = vf_planes f \<or>
           vf_planes f = 1) \<longrightarrow>
           mr_ret ?r = Inr 0 \<and>
           map (\<lambda>(c, err). ti_plane c) (tex_images (mr_events ?r)) = [0..<nat (vf_planes f)] \<and>
           plane_errors (mr_events ?r) = failed_planes (mr_events ?r) \<and>
           (\<forall>i. int i < vf_planes f \<longrightarrow>
              fr_planes (mr_frame ?r) i =
                plane_desc P p (CVPixelBufferGetIOSurface P (planes3 hw_image)) i)"
    by (intro impI, elim conjE) (rule reached)
  from A B show ?thesis by (rule conjI)
qed

text \<open>
  The theorem at a bi-planar \<open>420v\<close> buffer on a platform where the attach call fails
  for plane 0: the call returns 0, both planes are attached, the error of plane 0 is
  logged and the descriptor of plane 0 is written.
\<close>

theorem plane_errors_logged_not_fatal_witness:
  "mr_ret (map_frame (scenario_osx scenario_bufs [0]) zero_priv \<lparr>planes3 = 1\<rparr> empty_frame ())
     = Inr 0 \<and>
   map (\<lambda>(c, err). ti_plane c) (tex_images (mr_events
     (map_frame (scenario_osx scenario_bufs [0]) zero_priv \<lparr>planes3 = 1\<rparr> empty_frame ())))
     = [0, 1] \<and>
   plane_errors (mr_events
     (map_frame (scenario_osx scenario_bufs [0]) zero_priv \<lparr>planes3 = 1\<rparr> empty_frame ()))
     = [0] \<and>
   gl_texture (fr_planes (mr_frame
     (map_frame (scenario_osx scenario_bufs [0]) zero_priv \<lparr>planes3 = 1\<rparr> empty_frame ())) 0)
     = 1"
proof -
  let ?P = "scenario_osx scenario_bufs [0]"
  let ?r = "map_frame ?P zero_priv \<lparr>planes3 = 1\<rparr> empty_frame ()"
  have h: "CVPixelBufferGetIOSurface ?P (planes3 \<lparr>planes3 = 1\<rparr>) \<noteq> 0 \<and>
         vt_get_gl_format (CVPixelBufferGetPixelFormatType ?P (planes3 \<lparr>planes3 = 1\<rparr>)) =
           Some (hd vt_formats) \<and>
         (CVPixelBufferIsPlanar ?P (planes3 \<lparr>planes3 = 1\<rparr>) \<and>
            size_to_int (CVPixelBufferGetPlaneCount ?P (planes3 \<lparr>planes3 = 1\<rparr>)) =
              vf_planes (hd vt_formats) \<or>
          vf_planes (hd vt_formats) = 1)"
    by code_simp
  have two: "[0..<nat (vf_planes (hd vt_formats))] = [0, 1]"
    by code_simp
  have bad: "failed_planes (mr_events ?r) = [0]"
    by code_simp
  have s: "CVPixelBufferGetIOSurface ?P (planes3 \<lparr>planes3 = 1\<rparr>) = 11"
    by code_simp
  have i: "int 0 < vf_planes (hd vt_formats)"
    by code_simp
  have d: "gl_texture (plane_desc ?P zero_priv 11 0) = 1"
    by code_simp
  have ne: "failed_planes (mr_events ?r) \<noteq> []"
    unfolding bad by simp
  note y = plane_errors_logged_not_fatal [where P = ?P and p = zero_priv
      and hw_image = "\<lparr>planes3 = 1\<rparr>" and out_frame = empty_frame and w = "()"
      and f = "hd vt_formats", THEN conjunct1, THEN mp, OF ne, THEN conjunct1]
  note z = plane_errors_logged_not_fatal [where P = ?P and p = zero_priv
      and hw_image = "\<lparr>planes3 = 1\<rparr>" and out_frame = empty_frame and w = "()"
      and f = "hd vt_formats", THEN conjunct2, THEN mp, OF h, unfolded two bad s]
  note z3 = z[THEN conjunct2, THEN conjunct2, THEN conjunct2, THEN spec, THEN mp, OF i]
  show ?thesis
    by (intro conjI)
       (rule y z[THEN conjunct2, THEN conjunct1]
             z[THEN conjunct2, THEN conjunct2, THEN conjunct1]
             trans[OF arg_cong[OF z3, of gl_texture] d])+
qed

text \<open>
  C4 as stated: a single-plane table entry requires a non-planar buffer, and a mismatch
  is rejected. A \<open>2vuy\<close> buffer (single-plane entry) that reports itself planar with two
  planes is processed: the assertion holds by its second disjunct, the texture of plane 0
  is bound and its descriptor written, and \<open>map_frame\<close> returns 0.
\<close>

theorem planar_buffer_for_single_plane_entry:
  "CVPixelBufferIsPlanar (scenario_osx scenario_bufs []) 3 \<and>
   size_to_int (CVPixelBufferGetPlaneCount (scenario_osx scenario_bufs []) 3) = 2 \<and>
   map_option vf_planes (vt_get_gl_format
      (CVPixelBufferGetPixelFormatType (scenario_osx scenario_bufs []) 3)) = Some 1 \<and>
   mr_ret (map_frame (scenario_osx scenario_bufs []) zero_priv \<lparr>planes3 = 3\<rparr> empty_frame ())
     = Inr 0 \<and>
   bound_textures (mr_events
     (map_frame (scenario_osx scenario_bufs []) zero_priv \<lparr>planes3 = 3\<rparr> empty_frame ()))
     = [1, 0] \<and>
   gl_texture (fr_planes (mr_frame
     (map_frame (scenario_osx scenario_bufs []) zero_priv \<lparr>planes3 = 3\<rparr> empty_frame ())) 0)
     = 1"
  by code_simp

text \<open>
  C4, as amended. The assertion of \<open>map_frame\<close> fails exactly when the buffer has a
  surface, its format has a table entry with a plane count other than 1, and the buffer
  is not planar or its plane count (converted to \<open>int\<close>) differs from the entry's; then
  nothing has been bound or attached and the output frame is untouched. For an entry
  with one plane nothing is required of the buffer: the call returns 0 and binds the
  texture of plane 0.
\<close>

theorem plane_count_assertion:
  fixes P :: "'w osx_platform"
  shows "(mr_ret (map_frame P p hw_image out_frame w) = Inl Assertion_failed) =
           (CVPixelBufferGetIOSurface P (planes3 hw_image) \<noteq> 0 \<and>
            (case vt_get_gl_format (CVPixelBufferGetPixelFormatType P (planes3 hw_image)) of
               None \<Rightarrow> False
             | Some f \<Rightarrow> vf_planes f \<noteq> 1 \<and>
                 \<not> (CVPixelBufferIsPlanar P (planes3 hw_image) \<and>
                    size_to_int (CVPixelBufferGetPlaneCount P (planes3 hw_image)) = vf_planes f))) \<and>
         (mr_ret (map_frame P p hw_image out_frame w) = Inl Assertion_failed \<longrightarrow>
            bound_textures (mr_events (map_frame P p hw_image out_frame w)) = [] \<and>
            tex_images (mr_events (map_frame P p hw_image out_frame w)) = [] \<and>
            mr_frame (map_frame P p hw_image out_frame w) = out_frame) \<and>
         (CVPixelBufferGetIOSurface P (planes3 hw_image) \<noteq> 0 \<and>
          vt_get_gl_format (CVPixelBufferGetPixelFormatType P (planes3 hw_image)) = Some f \<and>
          vf_planes f = 1 \<longrightarrow>
            mr_ret (map_frame P p hw_image out_frame w) = Inr 0 \<and>
            bound_textures (mr_events (map_frame P p hw_image out_frame w)) = [gl_planes p 0, 0])"
proof -
  let ?r = "map_frame P p hw_image out_frame w"
  have 1: "(mr_ret ?r = Inl Assertion_failed) =
           (CVPixelBufferGetIOSurface P (planes3 hw_image) \<noteq> 0 \<and>
            (case vt_get_gl_format (CVPixelBufferGetPixelFormatType P (planes3 hw_image)) of
               None \<Rightarrow> False
             | Some f \<Rightarrow> vf_planes f \<noteq> 1 \<and>
                 \<not> (CVPixelBufferIsPlanar P (planes3 hw_image) \<and>
                    size_to_int (CVPixelBufferGetPlaneCount P (planes3 hw_image)) = vf_planes f)))"
    unfolding map_frame_ret by (auto split: option.splits)
  have 2: "mr_ret ?r = Inl Assertion_failed \<longrightarrow>
            bound_textures (mr_events ?r) = [] \<and> tex_images (mr_events ?r) = [] \<and>
            mr_frame ?r = out_frame"
  proof
    assume "mr_ret ?r = Inl Assertion_failed"
    then have "mr_ret ?r \<noteq> Inr 0" by simp
    from map_frame_untouched[OF this]
    show "bound_textures (mr_events ?r) = [] \<and> tex_images (mr_events ?r) = [] \<and>
            mr_frame ?r = out_frame" by simp
  qed
  have 3: "CVPixelBufferGetIOSurface P (planes3 hw_image) \<noteq> 0 \<and>
          vt_get_gl_format (CVPixelBufferGetPixelFormatType P (planes3 hw_image)) = Some f \<and>
          vf_planes f = 1 \<longrightarrow>
            mr_ret ?r = Inr 0 \<and> bound_textures (mr_events ?r) = [gl_planes p 0, 0]"
  proof (intro impI, elim conjE)
    assume a: "CVPixelBufferGetIOSurface P (planes3 hw_image) \<noteq> 0"
      "vt_get_gl_format (CVPixelBufferGetPixelFormatType P (planes3 hw_image)) = Some f"
      and one: "vf_planes f = 1"
    from one have ok: "CVPixelBufferIsPlanar P (planes3 hw_image) \<and>
            size_to_int (CVPixelBufferGetPlaneCount P (planes3 hw_image)) = vf_planes f \<or>
          vf_planes f = 1" by simp
    from map_frame_mapped(1,3)[OF a ok, where p = p and out_frame = out_frame and w = w] one
    show "mr_ret ?r = Inr 0 \<and> bound_textures (mr_events ?r) = [gl_planes p 0, 0]"
      by (simp add: rebinds_def)
  qed
  show ?thesis by (intro conjI) (rule 1 2 3)+
qed

text \<open>
  The theorem at a \<open>420v\<close> buffer (two-plane entry) that reports three planes, and at a
  non-planar \<open>BGRA\<close> buffer (single-plane entry).
\<close>

theorem plane_count_assertion_witness:
  "mr_ret (map_frame (scenario_osx scenario_bufs []) zero_priv \<lparr>planes3 = 6\<rparr> empty_frame ())
     = Inl Assertion_failed \<and>
   bound_textures (mr_events
     (map_frame (scenario_osx scenario_bufs []) zero_priv \<lparr>planes3 = 6\<rparr> empty_frame ())) = [] \<and>
   mr_frame (map_frame (scenario_osx scenario_bufs []) zero_priv \<lparr>planes3 = 6\<rparr> empty_frame ())
     = empty_frame \<and>
   mr_ret (map_frame (scenario_osx scenario_bufs []) zero_priv \<lparr>planes3 = 7\<rparr> empty_frame ())
     = Inr 0"
proof -
  let ?P = "scenario_osx scenario_bufs []"
  have h: "CVPixelBufferGetIOSurface ?P (planes3 \<lparr>planes3 = 6\<rparr>) \<noteq> 0 \<and>
            (case vt_get_gl_format (CVPixelBufferGetPixelFormatType ?P (planes3 \<lparr>planes3 = 6\<rparr>)) of
               None \<Rightarrow> False
             | Some f \<Rightarrow> vf_planes f \<noteq> 1 \<and>
                 \<not> (CVPixelBufferIsPlanar ?P (planes3 \<lparr>planes3 = 6\<rparr>) \<and>
                    size_to_int (CVPixelBufferGetPlaneCount ?P (planes3 \<lparr>planes3 = 6\<rparr>)) =
                      vf_planes f))"
    by code_simp
  note z = plane_count_assertion [where P = ?P and p = zero_priv
      and hw_image = "\<lparr>planes3 = 6\<rparr>" and out_frame = empty_frame and w = "()"]
  note r = z[THEN conjunct1, THEN iffD2, OF h]
  note u = z[THEN conjunct2, THEN conjunct1, THEN mp, OF r]
  have one: "CVPixelBufferGetIOSurface ?P (planes3 \<lparr>planes3 = 7\<rparr>) \<noteq> 0 \<and>
          vt_get_gl_format (CVPixelBufferGetPixelFormatType ?P (planes3 \<lparr>planes3 = 7\<rparr>)) =
            Some (last vt_formats) \<and>
          vf_planes (last vt_formats) = 1"
    by code_simp
  note s = plane_count_assertion [where P = ?P and p = zero_priv
      and hw_image = "\<lparr>planes3 = 7\<rparr>" and out_frame = empty_frame and w = "()"
      and f = "last vt_formats", THEN conjunct2, THEN conjunct2, THEN mp, OF one,
      THEN conjunct1]
  show ?thesis
    by (intro conjI) (rule r u[THEN conjunct1] u[THEN conjunct2, THEN conjunct2] s)+
qed



lemma two_frames_run:
  "let P = scenario_osx scenario_bufs [];
       r1 = map_frame P (the (fst (snd (create P ())))) \<lparr>planes3 = 1\<rparr> empty_frame
              (fst (snd (snd (create P ()))));
       r2 = map_frame P (mr_priv r1) \<lparr>planes3 = 2\<rparr> (mr_frame r1) (mr_world r1)
   in snd (snd (snd (create P ()))) = [Gen_Textures [1, 2, 3, 4], Devices_Add] \<and>
      bound_textures (mr_events r1) = [1, 0, 2, 0] \<and>
      bound_textures (mr_events r2) = [1, 0, 2, 0] \<and>
      map (\<lambda>i. gl_texture (fr_planes (mr_frame r1) i)) [0, 1] = [1, 2] \<and>
      map (\<lambda>i. gl_texture (fr_planes (mr_frame r2) i)) [0, 1] = [1, 2]"
  by code_simp

end
